theory Spec2Isabelle
  imports Main "HOL-Library.Sublist"
begin

section \<open>Data model\<close>

text \<open>
  The guarded-mutation pipeline of the repository: the permission check
  (\<^verbatim>\<open>src/lib/auth/permissions.ts\<close>), the guards
  (\<^verbatim>\<open>src/lib/auth/user-permissions.ts\<close>), the audit-log helper, the server actions
  of \<^verbatim>\<open>src/lib/actions\<close> with the data functions they call, the schemas of
  \<^verbatim>\<open>src/lib/validators/index.ts\<close>, and the two client hooks (optimistic resource
  management, subdomain availability).

  Strings are byte strings: a non-ASCII letter of a source literal is written as its
  UTF-8 bytes.
\<close>

definition a_acute :: string where "a_acute = [CHR 0xC3, CHR 0xA1]"
definition i_acute :: string where "i_acute = [CHR 0xC3, CHR 0xAD]"
definition o_acute :: string where "o_acute = [CHR 0xC3, CHR 0xB3]"
definition O_acute :: string where "O_acute = [CHR 0xC3, CHR 0x93]"
definition e_acute :: string where "e_acute = [CHR 0xC3, CHR 0xA9]"
definition n_tilde :: string where "n_tilde = [CHR 0xC3, CHR 0xB1]"

subsection \<open>Roles, users, rows and results\<close>

datatype workspace_role = Owner | Admin | Member

datatype app_role = AppUser | AppAdmin | AppDeveloper

record user =
  user_id :: string
  user_email :: "string option"

text \<open>\<^verbatim>\<open>UserAuthData\<close> of \<^verbatim>\<open>user-permissions.ts\<close>.\<close>

record UserAuthData =
  user :: user
  appRole :: app_role
  activeWorkspaceId :: "string option"

text \<open>\<^verbatim>\<open>SiteBasicInfo\<close>: the columns \<^verbatim>\<open>id, subdomain, workspace_id\<close> of a site.\<close>

record SiteBasicInfo =
  sbi_id :: string
  sbi_subdomain :: string
  sbi_workspace_id :: string

text \<open>The row selected by \<^verbatim>\<open>.select("role")\<close> from \<^verbatim>\<open>workspace_members\<close>.\<close>

record member_row =
  role :: workspace_role

text \<open>
  The campaign row of \<^verbatim>\<open>deleteCampaignAction\<close>, selected with its site's workspace
  (\<^verbatim>\<open>campaign.sites?.workspace_id\<close>).
\<close>

record campaign_row =
  cmp_id :: string
  cmp_name :: string
  cmp_site_id :: string
  cmp_sites_workspace_id :: "string option"

text \<open>
  A response of the storage client, \<^verbatim>\<open>{ data, error }\<close>, each of them possibly null;
  the error carries its code.
\<close>

record PostgrestError =
  err_code :: string
  err_message :: string

record 'a response =
  resp_data :: "'a option"
  resp_error :: "PostgrestError option"

text \<open>\<^verbatim>\<open>AuthResult<T>\<close> and its three error codes, which are string literals in the source.\<close>

datatype auth_error = SESSION_NOT_FOUND | PERMISSION_DENIED | NOT_FOUND

datatype 'a AuthResult = AuthSuccess 'a | AuthFailure auth_error

fun auth_error_string :: "auth_error \<Rightarrow> string" where
  "auth_error_string SESSION_NOT_FOUND = ''SESSION_NOT_FOUND''"
| "auth_error_string PERMISSION_DENIED = ''PERMISSION_DENIED''"
| "auth_error_string NOT_FOUND = ''NOT_FOUND''"

text \<open>\<^verbatim>\<open>ActionResult<T>\<close> of \<^verbatim>\<open>validators/index.ts\<close>.\<close>

datatype 'a ActionResult = ActionSuccess 'a | ActionFailure string

datatype json = JNull | JString string | JObject "(string \<times> json) list"

text \<open>The \<^verbatim>\<open>details\<close> argument of \<^verbatim>\<open>createAuditLog\<close>; every field is optional.\<close>

record audit_details =
  details_userId :: "string option"
  details_targetEntityId :: "string option"
  details_targetEntityType :: "string option"
  details_metadata :: "json option"

text \<open>
  \<^verbatim>\<open>FormData\<close> as the list of its entries; \<^verbatim>\<open>formData.get(name)\<close> is the first value under
  the name, or null.
\<close>

type_synonym FormData = "(string \<times> string) list"

definition form_get :: "FormData \<Rightarrow> string \<Rightarrow> string option" where
  "form_get formData name = map_of formData name"

text \<open>
  The outputs of the schemas of \<^verbatim>\<open>validators/index.ts\<close> that the site and campaign
  actions parse with. Two constant or unread parts are left out: the \<^verbatim>\<open>icon: null\<close> of a new
  site, and the slug of a new campaign, which goes into the inserted row and nowhere
  else.
\<close>

record create_site_data =
  cs_name :: string
  cs_subdomain :: string
  cs_description :: "string option"
  cs_workspace_id :: string

record update_site_data =
  us_site_id :: string
  us_name :: "string option"
  us_subdomain :: "string option"
  us_description :: "string option"

record create_campaign_data =
  cc_name :: string
  cc_site_id :: string

subsection \<open>Effects: a trace of events, and exceptions as values\<close>

datatype log_level = TRACE | INFO | WARN | ERROR

text \<open>
  What a request does besides returning: log calls, the calls of the functions the
  properties speak about, the writes and procedure calls sent to the store, the calls of
  the authentication client that change the session, cookies set, and cache
  invalidations by path and by tag.
\<close>

datatype event =
    Logged log_level string
  | Called_getSiteById string
  | Called_hasWorkspacePermission string string "workspace_role list"
  | Called_createAuditLog string audit_details
  | Db_insert string
  | Db_update string string
  | Db_delete string string
  | Db_upsert string
  | Rpc string
  | Auth string
  | Cookie_set string string
  | Revalidated string
  | Revalidated_tag string

datatype exn = ZodError | TypeError | ThrownError | NEXT_REDIRECT string

text \<open>
  A computation returns a value or throws, and leaves its events in order.
\<close>

type_synonym 'a io = "(exn + 'a) \<times> event list"

definition return_io :: "'a \<Rightarrow> 'a io" where
  "return_io x = (Inr x, [])"

definition throw_io :: "exn \<Rightarrow> 'a io" where
  "throw_io e = (Inl e, [])"

definition emit :: "event \<Rightarrow> unit io" where
  "emit ev = (Inr (), [ev])"

definition bind_io :: "'a io \<Rightarrow> ('a \<Rightarrow> 'b io) \<Rightarrow> 'b io" where
  "bind_io m f =
     (case m of
        (Inl e, t) \<Rightarrow> (Inl e, t)
      | (Inr x, t) \<Rightarrow> (case f x of (r, t') \<Rightarrow> (r, t @ t')))"

definition then_io :: "unit io \<Rightarrow> 'b io \<Rightarrow> 'b io" where
  "then_io m k = bind_io m (\<lambda>_. k)"

text \<open>\<^verbatim>\<open>try { body } catch (e) { handler(e) }\<close>.\<close>

definition try_catch :: "'a io \<Rightarrow> (exn \<Rightarrow> 'a io) \<Rightarrow> 'a io" where
  "try_catch body handler =
     (case body of
        (Inl e, t) \<Rightarrow> (case handler e of (r, t') \<Rightarrow> (r, t @ t'))
      | (Inr x, t) \<Rightarrow> (Inr x, t))"

text \<open>An awaited write either throws (network failure) or resolves to a response.\<close>

datatype 'a db_outcome = Throws | Resolves "'a response"

definition await_write :: "event \<Rightarrow> 'a db_outcome \<Rightarrow> 'a response io" where
  "await_write ev outcome =
     then_io (emit ev)
       (case outcome of Throws \<Rightarrow> throw_io ThrownError | Resolves r \<Rightarrow> return_io r)"

text \<open>\<^verbatim>\<open>Schema.parse(raw)\<close>: the parsed value, or a thrown \<^verbatim>\<open>ZodError\<close>.\<close>

definition zod_parse :: "'a option \<Rightarrow> 'a io" where
  "zod_parse parsed = (case parsed of None \<Rightarrow> throw_io ZodError | Some v \<Rightarrow> return_io v)"

subsection \<open>The environment of one request\<close>

text \<open>
  Everything a request reads from outside this repository: the session
  (\<^verbatim>\<open>supabase.auth.getUser()\<close>, the profile's role, the workspace cookie), the answers of
  the store to the single-row lookups and to the writes, and the schemas of the
  validation library, taken as parsers from the form to the parsed record.
\<close>

record world =
  auth_getUser :: "user option"
  profile_app_role :: "app_role option"
  cookie_active_workspace_id :: "string option"
  workspace_members_single :: "string \<Rightarrow> string \<Rightarrow> member_row response"
  sites_single :: "string \<Rightarrow> SiteBasicInfo response"
  campaigns_single :: "string \<Rightarrow> campaign_row response"
  sites_insert :: "string db_outcome"
  sites_update :: "unit db_outcome"
  sites_delete :: "unit db_outcome"
  campaigns_insert :: "string db_outcome"
  campaigns_delete :: "unit db_outcome"
  profiles_update :: "unit db_outcome"
  audit_logs_insert :: "unit db_outcome"
  CreateSiteServerSchema :: "FormData \<Rightarrow> create_site_data option"
  UpdateSiteSchema :: "FormData \<Rightarrow> update_site_data option"
  DeleteSiteSchema :: "string option \<Rightarrow> string option"
  CreateCampaignSchema :: "FormData \<Rightarrow> create_campaign_data option"
  DeleteCampaignSchema :: "string option \<Rightarrow> string option"

section \<open>Permission check and guards\<close>

subsection \<open>\<^verbatim>\<open>hasWorkspacePermission\<close> (\<^verbatim>\<open>src/lib/auth/permissions.ts\<close>)\<close>

text \<open>
  The same function stands twice in the sources, in \<^verbatim>\<open>src/lib/auth/permissions.ts\<close> and
  in \<^verbatim>\<open>src/lib/data/permissions.ts\<close>, with the same body; the guards and the campaign
  actions import the second.

  The source tests \<^verbatim>\<open>error || !member\<close> and, inside, \<^verbatim>\<open>error && error.code !== "PGRST116"\<close>:
  with an error the result is false, logged unless the code is the not-found code; with
  no error and no row the result is false, unlogged; otherwise the row's role is looked
  up in \<^verbatim>\<open>requiredRoles\<close>.
\<close>

definition hasWorkspacePermission ::
  "world \<Rightarrow> string \<Rightarrow> string \<Rightarrow> workspace_role list \<Rightarrow> bool io" where
  "hasWorkspacePermission w userId workspaceId requiredRoles =
     then_io (emit (Called_hasWorkspacePermission userId workspaceId requiredRoles))
       (let r = workspace_members_single w userId workspaceId in
        case resp_error r of
          Some error \<Rightarrow>
            then_io
              (if err_code error \<noteq> ''PGRST116''
               then emit (Logged ERROR
                      (''[AuthPermissions] Error al verificar permisos para usuario '' @ userId
                        @ '' en workspace '' @ workspaceId @ '':''))
               else return_io ())
              (return_io False)
        | None \<Rightarrow>
            (case resp_data r of
               None \<Rightarrow> return_io False
             | Some member \<Rightarrow> return_io (role member \<in> set requiredRoles)))"

subsection \<open>\<^verbatim>\<open>getSiteById\<close> (\<^verbatim>\<open>src/lib/data/sites.ts\<close>)\<close>

definition getSiteById :: "world \<Rightarrow> string \<Rightarrow> SiteBasicInfo option io" where
  "getSiteById w siteId =
     then_io (emit (Called_getSiteById siteId))
       (let r = sites_single w siteId in
        case resp_error r of
          Some error \<Rightarrow>
            then_io
              (if err_code error \<noteq> ''PGRST116''
               then emit (Logged ERROR (''[DataLayer:Sites] Error al obtener el sitio '' @ siteId @ '':''))
               else return_io ())
              (return_io None)
        | None \<Rightarrow> return_io (resp_data r))"

subsection \<open>The guards (\<^verbatim>\<open>src/lib/auth/user-permissions.ts\<close>)\<close>

text \<open>
  \<^verbatim>\<open>getAuthenticatedUserAuthData\<close> is memoised per request; every action below calls it
  at most once, so the memoised call and the plain call leave the same trace.
\<close>

definition getAuthenticatedUserAuthData :: "world \<Rightarrow> UserAuthData option io" where
  "getAuthenticatedUserAuthData w =
     then_io
       (emit (Logged TRACE (''[AuthCache] Miss: Obteniendo datos de sesi'' @ o_acute @ ''n del usuario.'')))
       (case auth_getUser w of
          None \<Rightarrow> return_io None
        | Some u \<Rightarrow>
            return_io (Some
              \<lparr>user = u,
               appRole = (case profile_app_role w of None \<Rightarrow> AppUser | Some r \<Rightarrow> r),
               activeWorkspaceId =
                 (case cookie_active_workspace_id w of
                    None \<Rightarrow> None
                  | Some v \<Rightarrow> if v = [] then None else Some v)\<rparr>))"

fun app_role_string :: "app_role \<Rightarrow> string" where
  "app_role_string AppUser = ''user''"
| "app_role_string AppAdmin = ''admin''"
| "app_role_string AppDeveloper = ''developer''"

fun join :: "string \<Rightarrow> string list \<Rightarrow> string" where
  "join sep [] = []"
| "join sep [x] = x"
| "join sep (x # y # ys) = x @ sep @ join sep (y # ys)"

definition requireAppRole :: "world \<Rightarrow> app_role list \<Rightarrow> UserAuthData AuthResult io" where
  "requireAppRole w requiredRoles =
     bind_io (getAuthenticatedUserAuthData w) (\<lambda>authData.
       case authData of
         None \<Rightarrow> return_io (AuthFailure SESSION_NOT_FOUND)
       | Some ad \<Rightarrow>
           if appRole ad \<notin> set requiredRoles
           then then_io
                  (emit (Logged WARN
                     (''[AuthGuard] VIOLACI'' @ O_acute @ ''N DE ACCESO DE ROL: Usuario '' @ user_id (user ad)
                       @ '' con rol '' @ [CHR 0x27] @ app_role_string (appRole ad) @ [CHR 0x27]
                       @ '' intent'' @ o_acute @ '' acceder a un recurso que requiere [''
                       @ join '', '' (map app_role_string requiredRoles) @ ''].'')))
                  (return_io (AuthFailure PERMISSION_DENIED))
           else return_io (AuthSuccess ad))"

definition requireWorkspacePermission ::
  "world \<Rightarrow> string \<Rightarrow> workspace_role list \<Rightarrow> user AuthResult io" where
  "requireWorkspacePermission w workspaceId requiredRoles =
     bind_io (getAuthenticatedUserAuthData w) (\<lambda>authData.
       case authData of
         None \<Rightarrow> return_io (AuthFailure SESSION_NOT_FOUND)
       | Some ad \<Rightarrow>
           bind_io (hasWorkspacePermission w (user_id (user ad)) workspaceId requiredRoles)
             (\<lambda>isAuthorized.
               if \<not> isAuthorized
               then return_io (AuthFailure PERMISSION_DENIED)
               else return_io (AuthSuccess (user ad))))"

definition requireSitePermission ::
  "world \<Rightarrow> string \<Rightarrow> workspace_role list \<Rightarrow> (user \<times> SiteBasicInfo) AuthResult io" where
  "requireSitePermission w siteId requiredRoles =
     bind_io (getAuthenticatedUserAuthData w) (\<lambda>authData.
       case authData of
         None \<Rightarrow> return_io (AuthFailure SESSION_NOT_FOUND)
       | Some ad \<Rightarrow>
           bind_io (getSiteById w siteId) (\<lambda>site.
             case site of
               None \<Rightarrow> return_io (AuthFailure NOT_FOUND)
             | Some st \<Rightarrow>
                 bind_io (hasWorkspacePermission w (user_id (user ad)) (sbi_workspace_id st) requiredRoles)
                   (\<lambda>isAuthorized.
                     if \<not> isAuthorized
                     then then_io
                            (emit (Logged WARN
                               (''[AuthGuard] VIOLACI'' @ O_acute @ ''N DE ACCESO A SITIO: Usuario ''
                                 @ user_id (user ad) @ '' intent'' @ o_acute @ '' acceder al sitio '' @ siteId
                                 @ '' sin permisos en el workspace '' @ sbi_workspace_id st @ ''.'')))
                            (return_io (AuthFailure PERMISSION_DENIED))
                     else return_io (AuthSuccess (user ad, st)))))"

section \<open>Audit log (\<^verbatim>\<open>src/lib/actions/_helpers/audit-log.helper.ts\<close>)\<close>

text \<open>
  The body of the helper is one \<^verbatim>\<open>try\<close>: the insert into \<^verbatim>\<open>audit_logs\<close> may throw or
  answer with an error; both are logged, by the \<^verbatim>\<open>catch\<close> and by the \<^verbatim>\<open>if (error)\<close>.
\<close>

definition createAuditLog :: "world \<Rightarrow> string \<Rightarrow> audit_details \<Rightarrow> unit io" where
  "createAuditLog w action details =
     then_io (emit (Called_createAuditLog action details))
       (try_catch
          (bind_io (await_write (Db_insert ''audit_logs'') (audit_logs_insert w)) (\<lambda>r.
             case resp_error r of
               Some error \<Rightarrow>
                 emit (Logged ERROR
                   (''[AuditLogHelper] No se pudo guardar el log de auditor'' @ i_acute @ ''a para la acci''
                     @ o_acute @ ''n '' @ [CHR 0x27] @ action @ [CHR 0x27] @ '':''))
             | None \<Rightarrow> return_io ()))
          (\<lambda>e. emit (Logged ERROR
                  (''[AuditLogHelper] Fallo cr'' @ i_acute @ ''tico al intentar guardar el log para la acci''
                    @ o_acute @ ''n '' @ [CHR 0x27] @ action @ [CHR 0x27] @ '':''))))"

section \<open>Server actions\<close>

text \<open>
  The \<^verbatim>\<open>catch\<close> block every site and campaign action ends with: a \<^verbatim>\<open>ZodError\<close> becomes the
  action's own invalid-data message, anything else is logged and becomes the generic
  failure message.
\<close>

definition unexpected_error :: string where
  "unexpected_error = ''Un error inesperado ocurri'' @ o_acute @ ''.''"

definition catch_action :: "string \<Rightarrow> string \<Rightarrow> exn \<Rightarrow> 'a ActionResult io" where
  "catch_action invalidMessage logMessage error =
     (if error = ZodError
      then return_io (ActionFailure invalidMessage)
      else then_io (emit (Logged ERROR logMessage)) (return_io (ActionFailure unexpected_error)))"

text \<open>Reading \<^verbatim>\<open>row.id\<close> of a null row throws a \<^verbatim>\<open>TypeError\<close>.\<close>

definition row_id :: "string option \<Rightarrow> string io" where
  "row_id row = (case row of None \<Rightarrow> throw_io TypeError | Some i \<Rightarrow> return_io i)"

subsection \<open>Sites (\<^verbatim>\<open>src/lib/actions/sites.actions.ts\<close>)\<close>

definition subdomain_in_use :: string where
  "subdomain_in_use = ''Este subdominio ya est'' @ a_acute @ '' en uso.''"

definition site_create_failed :: string where
  "site_create_failed = ''No se pudo crear el sitio.''"

definition form_data_invalid :: string where
  "form_data_invalid = ''Datos de formulario inv'' @ a_acute @ ''lidos.''"

definition createSiteAction :: "world \<Rightarrow> FormData \<Rightarrow> string ActionResult io" where
  "createSiteAction w formData =
     try_catch
       (bind_io (zod_parse (CreateSiteServerSchema w formData)) (\<lambda>parsedData.
        bind_io (requireWorkspacePermission w (cs_workspace_id parsedData) [Owner, Admin])
          (\<lambda>permissionCheck.
            case permissionCheck of
              AuthFailure _ \<Rightarrow>
                return_io (ActionFailure ''No tienes permiso para crear sitios en este workspace.'')
            | AuthSuccess usr \<Rightarrow>
                bind_io (await_write (Db_insert ''sites'') (sites_insert w)) (\<lambda>r.
                  case resp_error r of
                    Some error \<Rightarrow>
                      if err_code error = ''23505''
                      then return_io (ActionFailure subdomain_in_use)
                      else then_io
                             (emit (Logged ERROR
                                (''[SitesActions] Error al crear el sitio en la base de datos para el workspace ''
                                  @ cs_workspace_id parsedData @ '':'')))
                             (return_io (ActionFailure site_create_failed))
                  | None \<Rightarrow>
                      bind_io (row_id (resp_data r)) (\<lambda>newSiteId.
                        then_io
                          (createAuditLog w ''site.created''
                             \<lparr>details_userId = Some (user_id usr),
                              details_targetEntityId = Some newSiteId,
                              details_targetEntityType = Some ''site'',
                              details_metadata = Some (JObject
                                [(''subdomain'', JString (cs_subdomain parsedData)),
                                 (''name'', JString (cs_name parsedData)),
                                 (''workspaceId'', JString (cs_workspace_id parsedData))])\<rparr>)
                          (then_io (emit (Revalidated ''/dashboard/sites''))
                             (return_io (ActionSuccess newSiteId))))))))
       (catch_action form_data_invalid ''[SitesActions] Error inesperado en createSiteAction:'')"

definition opt_field :: "string \<Rightarrow> string option \<Rightarrow> (string \<times> json) list" where
  "opt_field k v = (case v of None \<Rightarrow> [] | Some x \<Rightarrow> [(k, JString x)])"

definition updateSiteAction :: "world \<Rightarrow> FormData \<Rightarrow> string ActionResult io" where
  "updateSiteAction w formData =
     try_catch
       (bind_io (zod_parse (UpdateSiteSchema w formData)) (\<lambda>parsed.
        bind_io (requireSitePermission w (us_site_id parsed) [Owner, Admin]) (\<lambda>permissionCheck.
          case permissionCheck of
            AuthFailure error \<Rightarrow> return_io (ActionFailure (auth_error_string error))
          | AuthSuccess (usr, site) \<Rightarrow>
              bind_io (await_write (Db_update ''sites'' (us_site_id parsed)) (sites_update w)) (\<lambda>r.
                case resp_error r of
                  Some error \<Rightarrow>
                    then_io
                      (emit (Logged ERROR
                         (''[SitesActions] Error al actualizar el sitio '' @ us_site_id parsed @ '':'')))
                      (return_io (ActionFailure ''No se pudo actualizar el sitio.''))
                | None \<Rightarrow>
                    then_io
                      (createAuditLog w ''site.updated''
                         \<lparr>details_userId = Some (user_id usr),
                          details_targetEntityId = Some (us_site_id parsed),
                          details_targetEntityType = Some ''site'',
                          details_metadata = Some (JObject
                            [(''changes'', JObject
                                (opt_field ''name'' (us_name parsed)
                                 @ opt_field ''subdomain'' (us_subdomain parsed)
                                 @ opt_field ''description'' (us_description parsed)))])\<rparr>)
                      (then_io (emit (Revalidated (''/dashboard/sites/'' @ us_site_id parsed @ ''/settings'')))
                         (then_io (emit (Revalidated ''/dashboard/sites''))
                            (return_io (ActionSuccess ''Sitio actualizado correctamente.''))))))))
       (catch_action form_data_invalid ''[SitesActions] Error inesperado en updateSiteAction:'')"

definition site_id_invalid :: string where
  "site_id_invalid = ''ID de sitio inv'' @ a_acute @ ''lido.''"

definition deleteSiteAction :: "world \<Rightarrow> FormData \<Rightarrow> string ActionResult io" where
  "deleteSiteAction w formData =
     try_catch
       (bind_io (zod_parse (DeleteSiteSchema w (form_get formData ''siteId''))) (\<lambda>siteId.
        bind_io (requireSitePermission w siteId [Owner]) (\<lambda>permissionCheck.
          case permissionCheck of
            AuthFailure error \<Rightarrow> return_io (ActionFailure (auth_error_string error))
          | AuthSuccess (usr, site) \<Rightarrow>
              bind_io (await_write (Db_delete ''sites'' siteId) (sites_delete w)) (\<lambda>r.
                case resp_error r of
                  Some error \<Rightarrow>
                    then_io
                      (emit (Logged ERROR (''[SitesActions] Error al eliminar el sitio '' @ siteId @ '':'')))
                      (return_io (ActionFailure ''No se pudo eliminar el sitio.''))
                | None \<Rightarrow>
                    then_io
                      (createAuditLog w ''site.deleted''
                         \<lparr>details_userId = Some (user_id usr),
                          details_targetEntityId = Some siteId,
                          details_targetEntityType = Some ''site'',
                          details_metadata = Some (JObject [(''subdomain'', JString (sbi_subdomain site))])\<rparr>)
                      (then_io (emit (Revalidated ''/dashboard/sites''))
                         (return_io (ActionSuccess ''Sitio eliminado correctamente.'')))))))
       (catch_action site_id_invalid ''[SitesActions] Error inesperado en deleteSiteAction:'')"

subsection \<open>Campaigns (\<^verbatim>\<open>src/lib/actions/campaigns.actions.ts\<close>)\<close>

text \<open>
  \<^verbatim>\<open>getAuthenticatedUser\<close>, the file's private helper: the user, or the failure result to
  hand back. Both campaign actions call it before their \<^verbatim>\<open>try\<close> block.
\<close>

definition not_authenticated :: string where
  "not_authenticated = ''Usuario no autenticado.''"

definition getAuthenticatedUser :: "world \<Rightarrow> string + user" where
  "getAuthenticatedUser w =
     (case auth_getUser w of None \<Rightarrow> Inl not_authenticated | Some u \<Rightarrow> Inr u)"

definition campaign_data_invalid :: string where
  "campaign_data_invalid = ''Datos inv'' @ a_acute @ ''lidos.''"

definition createCampaignAction :: "world \<Rightarrow> FormData \<Rightarrow> string ActionResult io" where
  "createCampaignAction w formData =
     (case getAuthenticatedUser w of
        Inl error \<Rightarrow> return_io (ActionFailure error)
      | Inr usr \<Rightarrow>
          try_catch
            (bind_io (zod_parse (CreateCampaignSchema w formData)) (\<lambda>parsed.
             bind_io (getSiteById w (cc_site_id parsed)) (\<lambda>site.
               case site of
                 None \<Rightarrow> return_io (ActionFailure ''El sitio asociado no existe.'')
               | Some st \<Rightarrow>
                   bind_io (hasWorkspacePermission w (user_id usr) (sbi_workspace_id st) [Owner, Admin, Member])
                     (\<lambda>isAuthorized.
                       if \<not> isAuthorized
                       then then_io
                              (emit (Logged WARN
                                 (''[SEGURIDAD] VIOLACI'' @ O_acute @ ''N DE ACCESO: Usuario '' @ user_id usr
                                   @ '' intent'' @ o_acute @ '' crear una campa'' @ n_tilde @ ''a en el sitio ''
                                   @ cc_site_id parsed @ '' sin permisos.'')))
                              (return_io (ActionFailure
                                 (''No tienes permiso para crear campa'' @ n_tilde @ ''as en este sitio.'')))
                       else
                         bind_io (await_write (Db_insert ''campaigns'') (campaigns_insert w)) (\<lambda>r.
                           case resp_error r of
                             Some error \<Rightarrow>
                               then_io
                                 (emit (Logged ERROR
                                    (''Error al crear la campa'' @ n_tilde @ ''a en la base de datos:'')))
                                 (return_io (ActionFailure (''No se pudo crear la campa'' @ n_tilde @ ''a.'')))
                           | None \<Rightarrow>
                               bind_io (row_id (resp_data r)) (\<lambda>newCampaignId.
                                 then_io
                                   (createAuditLog w ''campaign.created''
                                      \<lparr>details_userId = Some (user_id usr),
                                       details_targetEntityId = Some newCampaignId,
                                       details_targetEntityType = Some ''campaign'',
                                       details_metadata = Some (JObject
                                         [(''name'', JString (cc_name parsed)),
                                          (''siteId'', JString (cc_site_id parsed))])\<rparr>)
                                   (then_io
                                      (emit (Revalidated
                                         (''/dashboard/sites/'' @ cc_site_id parsed @ ''/campaigns'')))
                                      (return_io (ActionSuccess newCampaignId)))))))))
            (catch_action campaign_data_invalid ''Error inesperado en createCampaignAction:''))"

definition campaign_id_invalid :: string where
  "campaign_id_invalid = ''ID de campa'' @ n_tilde @ ''a inv'' @ a_acute @ ''lido.''"

text \<open>
  The campaign is fetched inside the action; \<^verbatim>\<open>fetchError || !campaign\<close> is the not-found
  exit, and a missing or empty workspace id the data-integrity exit.
\<close>

definition deleteCampaignAction :: "world \<Rightarrow> FormData \<Rightarrow> string ActionResult io" where
  "deleteCampaignAction w formData =
     (case getAuthenticatedUser w of
        Inl error \<Rightarrow> return_io (ActionFailure error)
      | Inr usr \<Rightarrow>
          try_catch
            (bind_io (zod_parse (DeleteCampaignSchema w (form_get formData ''campaignId''))) (\<lambda>campaignId.
               let fetched = campaigns_single w campaignId in
               case (resp_error fetched, resp_data fetched) of
                 (None, Some campaign) \<Rightarrow>
                   (case cmp_sites_workspace_id campaign of
                      Some workspaceId \<Rightarrow>
                        if workspaceId = []
                        then then_io
                               (emit (Logged ERROR
                                  (''INCONSISTENCIA DE DATOS: Campa'' @ n_tilde @ ''a '' @ campaignId
                                    @ '' sin workspace asociado.'')))
                               (return_io (ActionFailure ''Error de integridad de datos.''))
                        else
                          bind_io (hasWorkspacePermission w (user_id usr) workspaceId [Owner, Admin, Member])
                            (\<lambda>isAuthorized.
                              if \<not> isAuthorized
                              then then_io
                                     (emit (Logged WARN
                                        (''[SEGURIDAD] VIOLACI'' @ O_acute @ ''N DE ACCESO: Usuario '' @ user_id usr
                                          @ '' intent'' @ o_acute @ '' eliminar la campa'' @ n_tilde @ ''a ''
                                          @ campaignId @ '' sin permisos.'')))
                                     (return_io (ActionFailure
                                        (''No tienes permiso para eliminar esta campa'' @ n_tilde @ ''a.'')))
                              else
                                bind_io (await_write (Db_delete ''campaigns'' campaignId) (campaigns_delete w))
                                  (\<lambda>r.
                                    case resp_error r of
                                      Some deleteError \<Rightarrow>
                                        then_io
                                          (emit (Logged ERROR
                                             (''Error al eliminar la campa'' @ n_tilde @ ''a '' @ campaignId @ '':'')))
                                          (return_io (ActionFailure
                                             (''No se pudo eliminar la campa'' @ n_tilde @ ''a.'')))
                                    | None \<Rightarrow>
                                        then_io
                                          (createAuditLog w ''campaign.deleted''
                                             \<lparr>details_userId = Some (user_id usr),
                                              details_targetEntityId = Some (cmp_id campaign),
                                              details_targetEntityType = Some ''campaign'',
                                              details_metadata = Some (JObject
                                                [(''name'', JString (cmp_name campaign)),
                                                 (''siteId'', JString (cmp_site_id campaign))])\<rparr>)
                                          (then_io
                                             (emit (Revalidated
                                                (''/dashboard/sites/'' @ cmp_site_id campaign @ ''/campaigns'')))
                                             (return_io (ActionSuccess (''Campa'' @ n_tilde @ ''a eliminada.''))))))
                    | None \<Rightarrow>
                        then_io
                          (emit (Logged ERROR
                             (''INCONSISTENCIA DE DATOS: Campa'' @ n_tilde @ ''a '' @ campaignId
                               @ '' sin workspace asociado.'')))
                          (return_io (ActionFailure ''Error de integridad de datos.'')))
               | _ \<Rightarrow> return_io (ActionFailure (''La campa'' @ n_tilde @ ''a no se pudo encontrar.''))))
            (catch_action campaign_id_invalid ''Error inesperado en deleteCampaignAction:''))"

subsection \<open>Dashboard layout (\<^verbatim>\<open>updateDashboardLayoutAction\<close>, \<^verbatim>\<open>src/lib/actions/index.ts\<close>)\<close>

text \<open>
  The action has no \<^verbatim>\<open>try\<close> block and no audit call: it updates the profile, invalidates
  the dashboard layout and answers.
\<close>

definition updateDashboardLayoutAction :: "world \<Rightarrow> string list \<Rightarrow> unit ActionResult io" where
  "updateDashboardLayoutAction w moduleIds =
     (case auth_getUser w of
        None \<Rightarrow> return_io (ActionFailure ''No autenticado.'')
      | Some usr \<Rightarrow>
          bind_io (await_write (Db_update ''profiles'' (user_id usr)) (profiles_update w)) (\<lambda>r.
            case resp_error r of
              Some error \<Rightarrow> return_io (ActionFailure ''No se pudo guardar el layout.'')
            | None \<Rightarrow>
                then_io (emit (Revalidated ''/dashboard'')) (return_io (ActionSuccess ()))))"

section \<open>The other server actions\<close>

text \<open>
  The remaining actions of \<^verbatim>\<open>src/lib/actions\<close> that write: the builder's save, the three
  administration actions, the invitation actions, the workspace actions, the password
  and authentication actions, and the telemetry action. With the site, campaign and
  dashboard actions above these are all the mutations of the repository; of its two
  other actions, \<^verbatim>\<open>checkSubdomainAvailabilityAction\<close> only reads and
  \<^verbatim>\<open>testSentryServerErrorAction\<close> only throws its test error. What the actions read from
  outside the repository beyond the first environment is a second record.

  Where one of these actions reads its input only through its schema, it is given the
  schema's verdict on the input: the parsed value, or none when \<^verbatim>\<open>parse\<close> throws a
  \<^verbatim>\<open>ZodError\<close> (or \<^verbatim>\<open>safeParse\<close> fails).

  \<^verbatim>\<open>redirect\<close> of \<^verbatim>\<open>next/navigation\<close> works by throwing: the action ends with the exception
  \<open>NEXT_REDIRECT\<close>, and a \<^verbatim>\<open>catch\<close> around the call receives it like any other.
\<close>

subsection \<open>Rows, parsed forms and results\<close>

text \<open>The site joined to a campaign by \<^verbatim>\<open>sites (workspace_id, subdomain)\<close>.\<close>

record sites_join =
  sj_workspace_id :: string
  sj_subdomain :: "string option"

text \<open>\<^verbatim>\<open>CampaignWithContent\<close>, with the columns the builder's save reads.\<close>

record CampaignWithContent =
  cwc_slug :: "string option"
  cwc_sites :: "sites_join option"

text \<open>\<^verbatim>\<open>CampaignConfig\<close>; the save reads its name only.\<close>

record CampaignConfig =
  config_name :: string

text \<open>The row \<^verbatim>\<open>id, subdomain\<close> that the administrator's delete selects.\<close>

record deleted_site =
  ds_id :: string
  ds_subdomain :: "string option"

text \<open>The answer of the procedure \<^verbatim>\<open>accept_workspace_invitation\<close>.\<close>

record rpc_result =
  rpc_success :: bool
  rpc_error :: "string option"
  rpc_message :: "string option"

text \<open>What \<^verbatim>\<open>createInvitation\<close>, \<^verbatim>\<open>acceptInvitation\<close> and \<^verbatim>\<open>checkRateLimit\<close> return.\<close>

record create_invitation_result =
  ci_success :: bool
  ci_error :: "PostgrestError option"

record accept_invitation_result =
  ai_success :: bool
  ai_error :: "string option"
  ai_message :: "string option"

record rate_limit =
  rl_success :: bool
  rl_error :: "string option"

text \<open>The outputs of \<^verbatim>\<open>InvitationServerSchema\<close>, \<^verbatim>\<open>CreateWorkspaceSchema\<close>, the sign-up and
  sign-in schemas, and \<^verbatim>\<open>ClientVisitSchema\<close> (its session id and fingerprint; the screen
  sizes and client hints go into the stored row only).\<close>

record invitation_data =
  inv_invitee_email :: string
  inv_role :: workspace_role
  inv_workspace_id :: string

record create_workspace_data =
  cw_workspace_name :: string
  cw_icon :: string

record credentials =
  cred_email :: string
  cred_password :: string

record client_visit =
  cv_sessionId :: string
  cv_fingerprint :: string

text \<open>The form states the two password actions return.\<close>

record RequestPasswordResetState =
  reset_error :: "string option"

record UpdatePasswordFormState =
  upd_error :: "string option"
  upd_success :: bool

text \<open>
  The second environment: the answers of the store, of the administration client and of
  the authentication client to the calls of these actions, the request's forwarded
  address, and the identifier \<^verbatim>\<open>randomUUID()\<close> gives. An authentication call answers with
  its error's message, or none.
\<close>

record platform =
  campaigns_with_content_single :: "string \<Rightarrow> CampaignWithContent response"
  campaigns_update :: "unit db_outcome"
  admin_getUserById :: "string \<Rightarrow> user response"
  admin_generateLink :: "string \<Rightarrow> string response"
  admin_sites_delete :: "string \<Rightarrow> deleted_site db_outcome"
  admin_profiles_update :: "unit db_outcome"
  invitations_insert :: "unit db_outcome"
  rpc_accept_workspace_invitation :: "rpc_result db_outcome"
  rpc_create_workspace_with_owner :: "string list db_outcome"
  visitor_logs_upsert :: "unit db_outcome"
  auth_getSession :: "user option"
  auth_signUp :: "string option"
  auth_signInWithPassword :: "string option"
  auth_updateUser :: "string option"
  x_forwarded_for :: "string option"
  randomUUID :: string

text \<open>\<^verbatim>\<open>v || fallback\<close> on a string that may be missing: a missing or empty \<open>v\<close> is falsy.\<close>

definition truthy :: "string option \<Rightarrow> string option" where
  "truthy v = (case v of None \<Rightarrow> None | Some s \<Rightarrow> if s = [] then None else Some s)"

definition or_else :: "string option \<Rightarrow> string \<Rightarrow> string" where
  "or_else v fallback = (case truthy v of None \<Rightarrow> fallback | Some s \<Rightarrow> s)"

definition redirect :: "string \<Rightarrow> 'a io" where
  "redirect path = throw_io (NEXT_REDIRECT path)"

subsection \<open>The builder's save (\<^verbatim>\<open>src/lib/actions/builder.actions.ts\<close>)\<close>

text \<open>\<^verbatim>\<open>getCampaignContentById\<close> of \<^verbatim>\<open>src/lib/data/campaigns.ts\<close>: the campaign, or null when it
  is not found, has no workspace, or the user has no role in its workspace.\<close>

definition getCampaignContentById ::
  "world \<Rightarrow> platform \<Rightarrow> string \<Rightarrow> string \<Rightarrow> CampaignWithContent option io" where
  "getCampaignContentById w pf campaignId userId =
     (let r = campaigns_with_content_single pf campaignId in
      case resp_error r of
        Some error \<Rightarrow>
          then_io
            (if err_code error \<noteq> ''PGRST116''
             then emit (Logged ERROR (''[DataLayer:Campaigns] Error al obtener la campa'' @ n_tilde @ ''a '' @ campaignId @ '':''))
             else return_io ())
            (return_io None)
      | None \<Rightarrow>
          (case resp_data r of
             None \<Rightarrow> return_io None
           | Some campaign \<Rightarrow>
               (case truthy (map_option sj_workspace_id (cwc_sites campaign)) of
                  None \<Rightarrow>
                    then_io
                      (emit (Logged ERROR (''[DataLayer:Campaigns] INCONSISTENCIA DE DATOS: Campa'' @ n_tilde @ ''a '' @ campaignId @ '' sin workspace asociado.'')))
                      (return_io None)
                | Some workspaceId \<Rightarrow>
                    bind_io (hasWorkspacePermission w userId workspaceId [Owner, Admin, Member])
                      (\<lambda>isAuthorized.
                        if \<not> isAuthorized
                        then then_io
                               (emit (Logged WARN (''[DataLayer:Campaigns] VIOLACI'' @ O_acute @ ''N DE ACCESO: Usuario '' @ userId @ '' intent'' @ o_acute @ '' acceder a la campa'' @ n_tilde @ ''a '' @ campaignId @ '' sin permisos.'')))
                               (return_io None)
                        else return_io (Some campaign)))))"

definition updateCampaignContentAction ::
  "world \<Rightarrow> platform \<Rightarrow> string \<Rightarrow> CampaignConfig \<Rightarrow> unit ActionResult io" where
  "updateCampaignContentAction w pf campaignId content =
     (case auth_getUser w of
        None \<Rightarrow> return_io (ActionFailure ''No autenticado.'')
      | Some usr \<Rightarrow>
          bind_io (getCampaignContentById w pf campaignId (user_id usr)) (\<lambda>campaignData.
            case campaignData of
              None \<Rightarrow>
                then_io
                  (emit (Logged WARN (''[SEGURIDAD] VIOLACI'' @ O_acute @ ''N DE ACCESO: Usuario '' @ (user_id usr) @ '' intent'' @ o_acute @ '' guardar la campa'' @ n_tilde @ ''a '' @ campaignId @ '' sin permisos.'')))
                  (return_io (ActionFailure (''Acceso denegado. No tienes permiso para editar esta campa'' @ n_tilde @ ''a.'')))
            | Some campaign \<Rightarrow>
                then_io
                  (emit (Logged TRACE (''[BuilderActions] Usuario '' @ (user_id usr) @ '' autorizado para guardar la campa'' @ n_tilde @ ''a '' @ campaignId @ ''.'')))
                  (bind_io (await_write (Db_update ''campaigns'' campaignId) (campaigns_update pf)) (\<lambda>r.
                     case resp_error r of
                       Some error \<Rightarrow>
                         then_io
                           (emit (Logged ERROR (''[BuilderActions] Error al guardar campa'' @ n_tilde @ ''a '' @ campaignId @ '':'')))
                           (return_io (ActionFailure (''No se pudo guardar la campa'' @ n_tilde @ ''a.'')))
                     | None \<Rightarrow>
                         then_io
                           (createAuditLog w ''campaign_content_updated''
                              \<lparr>details_userId = Some (user_id usr),
                               details_targetEntityId = Some campaignId,
                               details_targetEntityType = Some ''campaign'',
                               details_metadata = Some (JObject [(''campaignName'', JString (config_name content))])\<rparr>)
                           (then_io
                              (case (truthy (case cwc_sites campaign of None \<Rightarrow> None | Some sj \<Rightarrow> sj_subdomain sj),
                                     truthy (cwc_slug campaign)) of
                                 (Some subdomain, Some slug) \<Rightarrow>
                                   then_io (emit (Revalidated (''/s/'' @ subdomain @ ''/'' @ slug)))
                                     (emit (Logged INFO (''[BuilderActions] Revalidated path for ISR: /s/'' @ subdomain @ ''/'' @ slug)))
                               | _ \<Rightarrow>
                                   emit (Logged WARN (''[BuilderActions] No se pudo revalidar la ruta. Faltan datos para la campa'' @ n_tilde @ ''a '' @ campaignId @ ''.'')))
                              (return_io (ActionSuccess ())))))))"

subsection \<open>Administration (\<^verbatim>\<open>src/lib/actions/admin.actions.ts\<close>)\<close>

definition impersonateUserAction :: "world \<Rightarrow> platform \<Rightarrow> string \<Rightarrow> string ActionResult io" where
  "impersonateUserAction w pf userId =
     bind_io (requireAppRole w [AppDeveloper]) (\<lambda>roleCheck.
       case roleCheck of
         AuthFailure error \<Rightarrow> return_io (ActionFailure (auth_error_string error))
       | AuthSuccess authData \<Rightarrow>
           if user_id (user authData) = userId
           then return_io (ActionFailure ''No puedes suplantarte a ti mismo.'')
           else
             (let found = admin_getUserById pf userId in
              case (resp_error found, resp_data found) of
                (None, Some target) \<Rightarrow>
                  (let link = admin_generateLink pf ''magiclink'' in
                   case resp_error link of
                     Some error \<Rightarrow>
                       then_io
                         (emit (Logged ERROR (''[AdminActions] Error al generar link de suplantaci'' @ o_acute @ ''n para '' @ userId @ '':'')))
                         (return_io (ActionFailure (''No se pudo generar el link de suplantaci'' @ o_acute @ ''n.'')))
                   | None \<Rightarrow>
                       then_io
                         (createAuditLog w ''user_impersonated''
                            \<lparr>details_userId = Some (user_id (user authData)),
                             details_targetEntityId = Some userId,
                             details_targetEntityType = Some ''user'',
                             details_metadata = Some (JObject (opt_field ''impersonatedEmail'' (user_email target)))\<rparr>)
                         (bind_io (row_id (resp_data link)) (\<lambda>action_link.
                            return_io (ActionSuccess action_link))))
              | _ \<Rightarrow>
                  then_io
                    (emit (Logged ERROR (''[AdminActions] Error al obtener usuario para suplantaci'' @ o_acute @ ''n '' @ userId @ '':'')))
                    (return_io (ActionFailure ''Usuario no encontrado.''))))"

definition deleteSiteAsAdminAction :: "world \<Rightarrow> platform \<Rightarrow> FormData \<Rightarrow> string ActionResult io" where
  "deleteSiteAsAdminAction w pf formData =
     bind_io (requireAppRole w [AppAdmin, AppDeveloper]) (\<lambda>roleCheck.
       case roleCheck of
         AuthFailure error \<Rightarrow> return_io (ActionFailure (auth_error_string error))
       | AuthSuccess authData \<Rightarrow>
           (case truthy (form_get formData ''subdomain'') of
              None \<Rightarrow> return_io (ActionFailure ''Subdominio ausente.'')
            | Some subdomain \<Rightarrow>
                bind_io (await_write (Db_delete ''sites'' subdomain) (admin_sites_delete pf subdomain)) (\<lambda>r.
                  case (resp_error r, resp_data r) of
                    (None, Some deletedSite) \<Rightarrow>
                      then_io (emit (Revalidated_tag (''sites:'' @ subdomain)))
                        (then_io (emit (Revalidated ''/admin''))
                           (then_io
                              (createAuditLog w ''site_deleted_admin''
                                 \<lparr>details_userId = Some (user_id (user authData)),
                                  details_targetEntityId = Some (ds_id deletedSite),
                                  details_targetEntityType = Some ''site'',
                                  details_metadata = Some (JObject
                                    [(''subdomain'',
                                      case ds_subdomain deletedSite of None \<Rightarrow> JNull | Some s \<Rightarrow> JString s)])\<rparr>)
                              (return_io (ActionSuccess (''Sitio '' @ subdomain @ '' eliminado correctamente.'')))))
                  | _ \<Rightarrow>
                      then_io
                        (emit (Logged ERROR (''[AdminActions] Error al eliminar el sitio '' @ subdomain @ '':'')))
                        (return_io (ActionFailure ''No se pudo eliminar el sitio.'')))))"

definition updateUserRoleAction ::
  "world \<Rightarrow> platform \<Rightarrow> string \<Rightarrow> app_role \<Rightarrow> unit ActionResult io" where
  "updateUserRoleAction w pf userId newRole =
     bind_io (requireAppRole w [AppDeveloper]) (\<lambda>roleCheck.
       case roleCheck of
         AuthFailure error \<Rightarrow> return_io (ActionFailure (auth_error_string error))
       | AuthSuccess authData \<Rightarrow>
           if user_id (user authData) = userId
           then return_io (ActionFailure ''No puedes cambiar tu propio rol.'')
           else
             bind_io (await_write (Db_update ''profiles'' userId) (admin_profiles_update pf)) (\<lambda>r.
               case resp_error r of
                 Some error \<Rightarrow>
                   then_io
                     (emit (Logged ERROR (''[AdminActions] Error al actualizar rol para '' @ userId @ '':'')))
                     (return_io (ActionFailure ''No se pudo actualizar el rol.''))
               | None \<Rightarrow>
                   then_io (emit (Revalidated ''/dev-console/users''))
                     (then_io
                        (createAuditLog w ''user_role_updated''
                           \<lparr>details_userId = Some (user_id (user authData)),
                            details_targetEntityId = Some userId,
                            details_targetEntityType = Some ''user'',
                            details_metadata = Some (JObject [(''newRole'', JString (app_role_string newRole))])\<rparr>)
                        (return_io (ActionSuccess ())))))"

subsection \<open>Invitations (\<^verbatim>\<open>src/lib/data/invitations.ts\<close>, \<^verbatim>\<open>src/lib/actions/invitations.actions.ts\<close>)\<close>

definition createInvitation :: "platform \<Rightarrow> create_invitation_result io" where
  "createInvitation pf =
     then_io (emit (Logged TRACE (''[DataLayer:Invitations] Intentando crear invitaci'' @ o_acute @ ''n.'')))
       (bind_io (await_write (Db_insert ''invitations'') (invitations_insert pf)) (\<lambda>r.
          case resp_error r of
            Some error \<Rightarrow>
              then_io (emit (Logged ERROR (''[DataLayer:Invitations] Error al crear invitaci'' @ o_acute @ ''n.'')))
                (return_io \<lparr>ci_success = False, ci_error = Some error\<rparr>)
          | None \<Rightarrow>
              then_io (emit (Logged INFO (''[DataLayer:Invitations] Invitaci'' @ o_acute @ ''n creada con '' @ e_acute @ ''xito.'')))
                (return_io \<lparr>ci_success = True, ci_error = None\<rparr>)))"

definition workspace_role_string :: "workspace_role \<Rightarrow> string" where
  "workspace_role_string r = (case r of Owner \<Rightarrow> ''owner'' | Admin \<Rightarrow> ''admin'' | Member \<Rightarrow> ''member'')"

definition sendWorkspaceInvitationAction ::
  "world \<Rightarrow> platform \<Rightarrow> invitation_data option \<Rightarrow> string ActionResult io" where
  "sendWorkspaceInvitationAction w pf parsed =
     (case auth_getUser w of
        None \<Rightarrow>
          then_io (emit (Logged WARN (''[InvitationsAction] Intento no autorizado para enviar invitaci'' @ o_acute @ ''n.'')))
            (return_io (ActionFailure ''No autenticado.''))
      | Some usr \<Rightarrow>
          try_catch
            (bind_io (zod_parse parsed) (\<lambda>parsedData.
               if user_email usr = Some (inv_invitee_email parsedData)
               then return_io (ActionFailure ''No puedes invitarte a ti mismo.'')
               else
                 bind_io (requireWorkspacePermission w (inv_workspace_id parsedData) [Owner, Admin])
                   (\<lambda>permissionCheck.
                     case permissionCheck of
                       AuthFailure error \<Rightarrow> return_io (ActionFailure (auth_error_string error))
                     | AuthSuccess _ \<Rightarrow>
                         bind_io (createInvitation pf) (\<lambda>result.
                           if \<not> ci_success result
                           then
                             (if map_option err_code (ci_error result) = Some ''23505''
                              then return_io (ActionFailure ''Este usuario ya ha sido invitado o ya es miembro.'')
                              else return_io (ActionFailure (''No se pudo enviar la invitaci'' @ o_acute @ ''n.'')))
                           else
                             then_io
                               (createAuditLog w ''workspace_invitation_sent''
                                  \<lparr>details_userId = Some (user_id usr),
                                   details_targetEntityId = Some (inv_workspace_id parsedData),
                                   details_targetEntityType = Some ''workspace'',
                                   details_metadata = Some (JObject
                                     [(''invitedEmail'', JString (inv_invitee_email parsedData)),
                                      (''role'', JString (workspace_role_string (inv_role parsedData)))])\<rparr>)
                               (then_io (emit (Revalidated_tag (''invitations:'' @ (inv_invitee_email parsedData))))
                                  (then_io
                                     (emit (Logged INFO (''[InvitationsAction] Invitaci'' @ o_acute @ ''n enviada con '' @ e_acute @ ''xito.'')))
                                     (return_io (ActionSuccess (''Invitaci'' @ o_acute @ ''n enviada a '' @ (inv_invitee_email parsedData) @ ''.'')))))))))
            (catch_action (''Datos de invitaci'' @ o_acute @ ''n inv'' @ a_acute @ ''lidos.'')
               (''[InvitationsAction] Error inesperado al enviar invitaci'' @ o_acute @ ''n.'')))"

definition acceptInvitation :: "platform \<Rightarrow> accept_invitation_result io" where
  "acceptInvitation pf =
     then_io (emit (Logged TRACE (''[DataLayer:Invitations] Intentando aceptar invitaci'' @ o_acute @ ''n.'')))
       (bind_io (await_write (Rpc ''accept_workspace_invitation'') (rpc_accept_workspace_invitation pf)) (\<lambda>r.
          case resp_error r of
            Some error \<Rightarrow>
              then_io (emit (Logged ERROR (''[DataLayer:Invitations] RPC fall'' @ o_acute @ '' al aceptar invitaci'' @ o_acute @ ''n.'')))
                (return_io \<lparr>ai_success = False, ai_error = Some (''No se pudo procesar la aceptaci'' @ o_acute @ ''n.''),
                            ai_message = None\<rparr>)
          | None \<Rightarrow>
              (case resp_data r of
                 Some rpcResult \<Rightarrow>
                   if \<not> rpc_success rpcResult
                   then then_io
                          (emit (Logged WARN (''[DataLayer:Invitations] RPC devolvi'' @ o_acute @ '' un error de l'' @ o_acute @ ''gica de negocio.'')))
                          (return_io \<lparr>ai_success = False, ai_error = rpc_error rpcResult, ai_message = None\<rparr>)
                   else then_io
                          (emit (Logged INFO (''[DataLayer:Invitations] Invitaci'' @ o_acute @ ''n aceptada v'' @ i_acute @ ''a RPC.'')))
                          (return_io \<lparr>ai_success = True, ai_error = None, ai_message = rpc_message rpcResult\<rparr>)
               | None \<Rightarrow>
                   then_io
                     (emit (Logged INFO (''[DataLayer:Invitations] Invitaci'' @ o_acute @ ''n aceptada v'' @ i_acute @ ''a RPC.'')))
                     (return_io \<lparr>ai_success = True, ai_error = None, ai_message = None\<rparr>))))"

definition acceptInvitationAction :: "world \<Rightarrow> platform \<Rightarrow> string \<Rightarrow> string ActionResult io" where
  "acceptInvitationAction w pf invitationId =
     (case auth_getUser w of
        None \<Rightarrow> return_io (ActionFailure ''No autenticado.'')
      | Some usr \<Rightarrow>
          bind_io (acceptInvitation pf) (\<lambda>result.
            if \<not> ai_success result
            then return_io (ActionFailure (or_else (ai_error result) (''No se pudo aceptar la invitaci'' @ o_acute @ ''n.'')))
            else
              then_io
                (createAuditLog w ''workspace_invitation_accepted''
                   \<lparr>details_userId = Some (user_id usr),
                    details_targetEntityId = Some invitationId,
                    details_targetEntityType = Some ''invitation'',
                    details_metadata = None\<rparr>)
                (then_io
                   (case truthy (user_email usr) of
                      Some email \<Rightarrow> emit (Revalidated_tag (''invitations:'' @ email))
                    | None \<Rightarrow>
                        emit (Logged WARN (''[InvitationsAction] No se pudo revalidar la cach'' @ e_acute @ '' de invitaciones por email para el usuario '' @ (user_id usr) @ '' porque el email no est'' @ a_acute @ '' disponible.'')))
                   (then_io (emit (Revalidated_tag (''workspaces:'' @ (user_id usr))))
                      (then_io (emit (Revalidated ''/dashboard''))
                         (then_io
                            (emit (Logged INFO (''[InvitationsAction] Invitaci'' @ o_acute @ ''n aceptada con '' @ e_acute @ ''xito.'')))
                            (return_io (ActionSuccess
                               (or_else (ai_message result) (''Te has unido al workspace con '' @ e_acute @ ''xito!''))))))))))"

subsection \<open>Workspaces (\<^verbatim>\<open>src/lib/actions/workspaces.actions.ts\<close>)\<close>

definition setActiveWorkspaceAction :: "string \<Rightarrow> unit io" where
  "setActiveWorkspaceAction workspaceId =
     then_io (emit (Logged TRACE (''[WorkspacesAction] Estableciendo workspace activo: '' @ workspaceId)))
       (then_io (emit (Cookie_set ''active_workspace_id'' workspaceId))
          (then_io (emit (Revalidated ''/dashboard''))
             (redirect ''/dashboard'')))"

text \<open>
  The schema's verdict is the parsed form, or the first message it gives for the field
  \<^verbatim>\<open>workspaceName\<close>, if any: what \<^verbatim>\<open>error.flatten().fieldErrors.workspaceName?.[0]\<close> reads
  from the \<^verbatim>\<open>ZodError\<close>. The parse is the first statement of the \<^verbatim>\<open>try\<close> block and the only
  one that throws a \<^verbatim>\<open>ZodError\<close>, so its failure goes straight to that branch of the
  \<^verbatim>\<open>catch\<close>; the rest of the block keeps the other branch.
\<close>

definition createWorkspaceAction ::
  "world \<Rightarrow> platform \<Rightarrow> (string option + create_workspace_data) \<Rightarrow> string ActionResult io" where
  "createWorkspaceAction w pf parsed =
     (case auth_getUser w of
        None \<Rightarrow>
          then_io (emit (Logged WARN ''[WorkspacesAction] Intento no autorizado para crear workspace.''))
            (return_io (ActionFailure (''No autenticado. Inicia sesi'' @ o_acute @ ''n de nuevo.'')))
      | Some usr \<Rightarrow>
          (case parsed of
             Inl workspaceNameError \<Rightarrow>
               then_io
                 (emit (Logged WARN (''[WorkspacesAction] Datos inv'' @ a_acute @ ''lidos para la creaci'' @ o_acute @ ''n de workspace por el usuario '' @ (user_id usr) @ ''.'')))
                 (return_io (ActionFailure (or_else workspaceNameError (''Datos inv'' @ a_acute @ ''lidos.''))))
           | Inr parsedData \<Rightarrow>
               try_catch
                 (bind_io (await_write (Rpc ''create_workspace_with_owner'') (rpc_create_workspace_with_owner pf))
                    (\<lambda>r.
                      case (resp_error r, resp_data r) of
                        (None, Some rows) \<Rightarrow>
                          bind_io (row_id (case rows of [] \<Rightarrow> None | newWorkspaceId # _ \<Rightarrow> Some newWorkspaceId))
                            (\<lambda>newWorkspaceId.
                              then_io
                                (createAuditLog w ''workspace_created''
                                   \<lparr>details_userId = Some (user_id usr),
                                    details_targetEntityId = Some newWorkspaceId,
                                    details_targetEntityType = Some ''workspace'',
                                    details_metadata = Some (JObject
                                      [(''workspaceName'', JString (cw_workspace_name parsedData)),
                                       (''icon'', JString (cw_icon parsedData))])\<rparr>)
                                (then_io (emit (Revalidated ''/dashboard''))
                                   (then_io
                                      (emit (Logged INFO (''[WorkspacesAction] Workspace '' @ newWorkspaceId @ '' creado con '' @ e_acute @ ''xito para el usuario '' @ (user_id usr) @ ''.'')))
                                      (return_io (ActionSuccess newWorkspaceId)))))
                      | _ \<Rightarrow>
                          then_io
                            (emit (Logged ERROR (''[WorkspacesAction] RPC fall'' @ o_acute @ '' al crear workspace para el usuario '' @ (user_id usr) @ ''.'')))
                            (return_io (ActionFailure ''No se pudo crear el workspace.''))))
                 (\<lambda>error.
                    then_io
                      (emit (Logged ERROR (''[WorkspacesAction] Error inesperado al crear workspace para el usuario '' @ (user_id usr) @ ''.'')))
                      (return_io (ActionFailure unexpected_error)))))"

subsection \<open>Rate limiter and mail (\<^verbatim>\<open>src/lib/actions/_helpers\<close>)\<close>

text \<open>Both are simulations in the source: the limiter lets every request through.\<close>

definition checkRateLimit :: "string option \<Rightarrow> string \<Rightarrow> rate_limit io" where
  "checkRateLimit ip action =
     (case truthy ip of
        None \<Rightarrow>
          then_io
            (emit (Logged WARN (''[RateLimiter] No se pudo determinar la direcci'' @ o_acute @ ''n IP. Se omitir'' @ a_acute @ '' la verificaci'' @ o_acute @ ''n de l'' @ i_acute @ ''mite de tasa para la acci'' @ o_acute @ ''n: '' @ action @ ''. Esta acci'' @ o_acute @ ''n ser'' @ a_acute @ '' permitida.'')))
            (return_io \<lparr>rl_success = True, rl_error = None\<rparr>)
      | Some address \<Rightarrow>
          then_io
            (emit (Logged INFO (''[RateLimiter:Simulated] Verificaci'' @ o_acute @ ''n de l'' @ i_acute @ ''mite de tasa para IP '' @ address @ '' en la acci'' @ o_acute @ ''n '' @ action @ ''. Acci'' @ o_acute @ ''n permitida.'')))
            (return_io \<lparr>rl_success = True, rl_error = None\<rparr>))"

definition sendPasswordResetEmail :: "string \<Rightarrow> string \<Rightarrow> unit io" where
  "sendPasswordResetEmail email resetLink =
     emit (Logged INFO (''[EmailService:Simulated] Enviando correo de restablecimiento de contrase'' @ n_tilde @ ''a a '' @ email @ ''.''))"

subsection \<open>Passwords (\<^verbatim>\<open>src/lib/actions/password.actions.ts\<close>)\<close>

text \<open>\<open>validation\<close> is what \<^verbatim>\<open>EmailSchema.safeParse(formData.get("email"))\<close> gives.\<close>

definition requestPasswordResetAction ::
  "world \<Rightarrow> platform \<Rightarrow> string option \<Rightarrow> RequestPasswordResetState io" where
  "requestPasswordResetAction w pf validation =
     (let ip = (case x_forwarded_for pf of None \<Rightarrow> ''127.0.0.1'' | Some address \<Rightarrow> address) in
      bind_io (checkRateLimit (Some ip) ''password_reset'') (\<lambda>limit.
        if \<not> rl_success limit
        then return_io
               \<lparr>reset_error = Some (or_else (rl_error limit) (''Demasiadas solicitudes. Intente nuevamente m'' @ a_acute @ ''s tarde.''))\<rparr>
        else
          (case validation of
             None \<Rightarrow> return_io \<lparr>reset_error = Some (''Por favor, introduce un email v'' @ a_acute @ ''lido.'')\<rparr>
           | Some validatedEmail \<Rightarrow>
               (let link = admin_generateLink pf ''recovery'' in
                then_io
                  (case resp_error link of
                     Some error \<Rightarrow>
                       emit (Logged ERROR (''[PasswordActions] Error al generar link de recuperaci'' @ o_acute @ ''n para '' @ validatedEmail @ '':''))
                   | None \<Rightarrow>
                       bind_io (row_id (resp_data link)) (\<lambda>action_link.
                         sendPasswordResetEmail validatedEmail action_link))
                  (then_io
                     (createAuditLog w ''password_reset_request''
                        \<lparr>details_userId = None, details_targetEntityId = None,
                         details_targetEntityType = None,
                         details_metadata = Some (JObject
                           [(''targetEmail'', JString validatedEmail), (''ipAddress'', JString ip)])\<rparr>)
                     (redirect ''/auth-notice?message=check-email-for-reset''))))))"

text \<open>
  \<open>validation\<close> is what \<^verbatim>\<open>ResetPasswordSchema.safeParse\<close> gives: the password, or the first
  messages for the fields \<^verbatim>\<open>password\<close> and \<^verbatim>\<open>confirmPassword\<close>. \<^verbatim>\<open>getUser\<close> gives no user
  when it gives an error, so \<^verbatim>\<open>userError || !user\<close> is the absence of the user.
\<close>

definition updatePasswordAction ::
  "world \<Rightarrow> platform \<Rightarrow> ((string option \<times> string option) + string) \<Rightarrow> UpdatePasswordFormState io" where
  "updatePasswordAction w pf validation =
     (case validation of
        Inl (passwordError, confirmPasswordError) \<Rightarrow>
          return_io
            \<lparr>upd_error = Some (or_else passwordError (or_else confirmPasswordError (''Datos inv'' @ a_acute @ ''lidos.''))),
             upd_success = False\<rparr>
      | Inr password \<Rightarrow>
          (case auth_getUser w of
             None \<Rightarrow>
               return_io
                 \<lparr>upd_error = Some (''Sesi'' @ o_acute @ ''n de recuperaci'' @ o_acute @ ''n inv'' @ a_acute @ ''lida o expirada. Por favor, solicita un nuevo enlace.''),
                  upd_success = False\<rparr>
           | Some usr \<Rightarrow>
               then_io (emit (Auth ''updateUser''))
                 (case auth_updateUser pf of
                    Some message \<Rightarrow>
                      then_io
                        (emit (Logged ERROR (''[PasswordActions] Error al actualizar la contrase'' @ n_tilde @ ''a para '' @ (user_id usr) @ '':'')))
                        (if sublist ''token has expired'' message
                         then return_io
                                \<lparr>upd_error = Some ''El enlace de reseteo ha expirado. Por favor, solicita uno nuevo.'',
                                 upd_success = False\<rparr>
                         else return_io
                                \<lparr>upd_error = Some (''No fue posible actualizar la contrase'' @ n_tilde @ ''a. Intente nuevamente.''),
                                 upd_success = False\<rparr>)
                  | None \<Rightarrow>
                      then_io
                        (createAuditLog w ''password_reset_success''
                           \<lparr>details_userId = Some (user_id usr), details_targetEntityId = None,
                            details_targetEntityType = None, details_metadata = None\<rparr>)
                        (then_io (emit (Auth ''signOut''))
                           (return_io \<lparr>upd_error = None, upd_success = True\<rparr>)))))"

subsection \<open>Session and authentication (\<^verbatim>\<open>session.actions.ts\<close>, \<^verbatim>\<open>auth.actions.ts\<close>)\<close>

definition signOutAction :: "world \<Rightarrow> platform \<Rightarrow> unit io" where
  "signOutAction w pf =
     then_io
       (case auth_getSession pf of
          Some sessionUser \<Rightarrow>
            createAuditLog w ''user_sign_out''
              \<lparr>details_userId = Some (user_id sessionUser), details_targetEntityId = None,
               details_targetEntityType = None, details_metadata = None\<rparr>
        | None \<Rightarrow> return_io ())
       (then_io (emit (Auth ''signOut''))
          (redirect ''/''))"

text \<open>The sign-up calls \<^verbatim>\<open>redirect\<close> inside its \<^verbatim>\<open>try\<close> block.\<close>

definition signUpAction :: "world \<Rightarrow> platform \<Rightarrow> credentials option \<Rightarrow> unit ActionResult io" where
  "signUpAction w pf parsed =
     try_catch
       (bind_io (zod_parse parsed) (\<lambda>parsedData.
          then_io (emit (Logged TRACE (''[AuthActions] Iniciando registro para '' @ (cred_email parsedData))))
            (then_io (emit (Auth ''signUp''))
               (case auth_signUp pf of
                  Some message \<Rightarrow>
                    then_io
                      (emit (Logged WARN (''[AuthActions] Fallo en el registro para '' @ (cred_email parsedData))))
                      (return_io (ActionFailure (''No se pudo completar el registro. El correo electr'' @ o_acute @ ''nico ya podr'' @ i_acute @ ''a estar en uso.'')))
                | None \<Rightarrow>
                    then_io
                      (createAuditLog w ''user_signup_initiated''
                         \<lparr>details_userId = None, details_targetEntityId = None,
                          details_targetEntityType = None,
                          details_metadata = Some (JObject [(''email'', JString (cred_email parsedData))])\<rparr>)
                      (then_io
                         (emit (Logged INFO (''[AuthActions] Registro exitoso para '' @ (cred_email parsedData) @ ''. Esperando confirmaci'' @ o_acute @ ''n.'')))
                         (redirect ''/auth-notice?message=check-email-for-confirmation''))))))
       (\<lambda>error.
          if error = ZodError
          then then_io (emit (Logged WARN (''[AuthActions] Datos de registro inv'' @ a_acute @ ''lidos.'')))
                 (return_io (ActionFailure (''Datos de registro inv'' @ a_acute @ ''lidos.'')))
          else then_io (emit (Logged ERROR ''[AuthActions] Error inesperado en signUpAction''))
                 (return_io (ActionFailure unexpected_error)))"

text \<open>The sign-in calls \<^verbatim>\<open>redirect\<close> after its \<^verbatim>\<open>try\<close> block; a failed rate limit hands on
  the limiter's message, \<^verbatim>\<open>limit.error!\<close>.\<close>

definition signInWithPasswordAction ::
  "world \<Rightarrow> platform \<Rightarrow> credentials option \<Rightarrow> unit ActionResult io" where
  "signInWithPasswordAction w pf parsed =
     bind_io (checkRateLimit (x_forwarded_for pf) ''login'') (\<lambda>limit.
       if \<not> rl_success limit
       then return_io (ActionFailure (case rl_error limit of None \<Rightarrow> [] | Some message \<Rightarrow> message))
       else
         bind_io
           (try_catch
              (bind_io (zod_parse parsed) (\<lambda>parsedData.
                 then_io
                   (emit (Logged TRACE (''[AuthActions] Iniciando intento de inicio de sesi'' @ o_acute @ ''n para '' @ (cred_email parsedData))))
                   (then_io (emit (Auth ''signInWithPassword''))
                      (case auth_signInWithPassword pf of
                         Some message \<Rightarrow>
                           then_io
                             (createAuditLog w ''user_login_failed''
                                \<lparr>details_userId = None, details_targetEntityId = None,
                                 details_targetEntityType = None,
                                 details_metadata = Some (JObject
                                   [(''email'', JString (cred_email parsedData)), (''reason'', JString message)])\<rparr>)
                             (then_io
                                (emit (Logged WARN (''[AuthActions] Intento de login fallido para '' @ (cred_email parsedData))))
                                (return_io (Some (ActionFailure (''Credenciales inv'' @ a_acute @ ''lidas.'')))))
                       | None \<Rightarrow> return_io None))))
              (\<lambda>error.
                 if error = ZodError
                 then then_io (emit (Logged WARN (''[AuthActions] Datos de inicio de sesi'' @ o_acute @ ''n inv'' @ a_acute @ ''lidos.'')))
                        (return_io (Some (ActionFailure (''Datos de inicio de sesi'' @ o_acute @ ''n inv'' @ a_acute @ ''lidos.''))))
                 else then_io (emit (Logged ERROR ''[AuthActions] Error inesperado en signInAction''))
                        (return_io (Some (ActionFailure unexpected_error)))))
           (\<lambda>returned.
              case returned of
                Some result \<Rightarrow> return_io result
              | None \<Rightarrow> redirect ''/dashboard''))"

subsection \<open>Telemetry (\<^verbatim>\<open>src/lib/actions/telemetry.actions.ts\<close>)\<close>

definition logClientVisitAction ::
  "world \<Rightarrow> platform \<Rightarrow> client_visit option \<Rightarrow> unit ActionResult io" where
  "logClientVisitAction w pf parsed =
     then_io (emit (Logged TRACE ''[TelemetryAction] Iniciando log de visita de cliente.''))
       (try_catch
          (bind_io (zod_parse parsed) (\<lambda>validatedData.
             then_io
               (if cv_sessionId validatedData = []
                then emit (Logged WARN (''[TelemetryAction] Cliente no proporcion'' @ o_acute @ '' sessionId. Generando uno nuevo: '' @ (randomUUID pf)))
                else return_io ())
               (bind_io (await_write (Db_upsert ''visitor_logs'') (visitor_logs_upsert pf)) (\<lambda>r.
                  case resp_error r of
                    Some error \<Rightarrow>
                      then_io
                        (emit (Logged ERROR ''[TelemetryAction] Error en upsert de visita de cliente:''))
                        (return_io (ActionFailure ''No se pudo registrar la visita.''))
                  | None \<Rightarrow>
                      then_io
                        (emit (Logged INFO ''[TelemetryAction] Visita de cliente registrada/actualizada.''))
                        (return_io (ActionSuccess ()))))))
          (\<lambda>error.
             if error = ZodError
             then then_io (emit (Logged WARN (''[TelemetryAction] Datos de visita de cliente inv'' @ a_acute @ ''lidos:'')))
                    (return_io (ActionFailure (''Datos de cliente inv'' @ a_acute @ ''lidos.'')))
             else then_io (emit (Logged ERROR ''[TelemetryAction] Error inesperado en logClientVisitAction:''))
                    (return_io (ActionFailure unexpected_error))))"

section \<open>Client hooks\<close>

subsection \<open>Optimistic resource management (\<^verbatim>\<open>use-optimistic-resource-management.ts\<close>)\<close>

text \<open>
  A resource is its \<^verbatim>\<open>id\<close> and its other fields; the hook's state is the list of items and
  the id being mutated. What the hook does besides updating its state is a list of
  events: the server action it invokes, the toast it shows, the router refresh.
\<close>

record Resource =
  res_id :: string
  res_fields :: "(string \<times> string) list"

record hook_state =
  items :: "Resource list"
  mutatingId :: "string option"

datatype ui_event =
    Invoked_createAction FormData
  | Invoked_deleteAction FormData
  | Toast_success string
  | Toast_error string
  | Router_refresh

text \<open>Decimal digits of \<^verbatim>\<open>Date.now()\<close>, as the template literal prints the number.\<close>

function show_nat :: "nat \<Rightarrow> string" where
  "show_nat n =
     (if n < 10 then [''0123456789'' ! n]
      else show_nat (n div 10) @ [''0123456789'' ! (n mod 10)])"
  by pat_completeness auto
termination
  by (relation "measure id") auto

declare show_nat.simps [simp del]

text \<open>\<^verbatim>\<open>result.error || fallback\<close>: the fallback replaces an empty message.\<close>

definition error_or :: "string \<Rightarrow> string \<Rightarrow> string" where
  "error_or error fallback = (if error = [] then fallback else error)"

text \<open>
  The callback given to \<^verbatim>\<open>startTransition\<close>, run on the state current at that moment
  with the awaited result and the snapshot \<^verbatim>\<open>previousItems\<close> of its closure.
\<close>

definition settle_create ::
  "string \<Rightarrow> Resource list \<Rightarrow> 'r ActionResult \<Rightarrow> hook_state \<Rightarrow> hook_state \<times> ui_event list" where
  "settle_create entityName previousItems result s =
     (case result of
        ActionSuccess _ \<Rightarrow>
          (s\<lparr>mutatingId := None\<rparr>,
           [Toast_success (entityName @ '' creado con '' @ e_acute @ ''xito.''), Router_refresh])
      | ActionFailure error \<Rightarrow>
          (s\<lparr>items := previousItems, mutatingId := None\<rparr>,
           [Toast_error (error_or error (''No se pudo crear el '' @ entityName @ ''.''))]))"

definition settle_delete ::
  "string \<Rightarrow> Resource list \<Rightarrow> 'r ActionResult \<Rightarrow> hook_state \<Rightarrow> hook_state \<times> ui_event list" where
  "settle_delete entityName previousItems result s =
     (case result of
        ActionSuccess _ \<Rightarrow>
          (s\<lparr>mutatingId := None\<rparr>,
           [Toast_success (entityName @ '' eliminado con '' @ e_acute @ ''xito.''), Router_refresh])
      | ActionFailure error \<Rightarrow>
          (s\<lparr>items := previousItems, mutatingId := None\<rparr>,
           [Toast_error (error_or error (''No se pudo eliminar el '' @ entityName @ ''.''))]))"

text \<open>
  The synchronous part of each handler: the optimistic update. The phantom item is
  \<^verbatim>\<open>{ id: `optimistic-${Date.now()}`, ...optimisticItem }\<close>: the spread comes after the id,
  so an \<^verbatim>\<open>id\<close> among the fields of \<^verbatim>\<open>optimisticItem\<close> replaces the generated one.
\<close>

definition phantomItem :: "nat \<Rightarrow> (string \<times> string) list \<Rightarrow> Resource" where
  "phantomItem now optimisticItem =
     \<lparr>res_id = (case map_of optimisticItem ''id'' of
                  None \<Rightarrow> ''optimistic-'' @ show_nat now
                | Some provided \<Rightarrow> provided),
      res_fields = filter (\<lambda>(key, v). key \<noteq> ''id'') optimisticItem\<rparr>"

definition optimistic_create :: "nat \<Rightarrow> (string \<times> string) list \<Rightarrow> hook_state \<Rightarrow> hook_state" where
  "optimistic_create now optimisticItem s =
     s\<lparr>items := items s @ [phantomItem now optimisticItem],
       mutatingId := Some (res_id (phantomItem now optimisticItem))\<rparr>"

definition optimistic_delete :: "string \<Rightarrow> hook_state \<Rightarrow> hook_state" where
  "optimistic_delete idToDelete s =
     s\<lparr>items := filter (\<lambda>item. res_id item \<noteq> idToDelete) (items s),
       mutatingId := Some idToDelete\<rparr>"

text \<open>
  The handlers, from the call to the end of the transition, with no other update in
  between: the snapshot, the optimistic update, the server action, the settlement.
\<close>

definition handleCreate ::
  "(FormData \<Rightarrow> string ActionResult) \<Rightarrow> string \<Rightarrow> nat \<Rightarrow> hook_state \<Rightarrow> FormData
     \<Rightarrow> (string \<times> string) list \<Rightarrow> hook_state \<times> ui_event list" where
  "handleCreate createAction entityName now s formData optimisticItem =
     (let previousItems = items s;
          s1 = optimistic_create now optimisticItem s;
          result = createAction formData;
          (s2, evs) = settle_create entityName previousItems result s1
      in (s2, Invoked_createAction formData # evs))"

definition handleDelete ::
  "(FormData \<Rightarrow> 'r ActionResult) \<Rightarrow> string \<Rightarrow> hook_state \<Rightarrow> FormData
     \<Rightarrow> hook_state \<times> ui_event list" where
  "handleDelete deleteAction entityName s formData =
     (case form_get formData ''siteId'' of
        None \<Rightarrow> (s, [])
      | Some idToDelete \<Rightarrow>
          if idToDelete = [] then (s, [])
          else
            (let previousItems = items s;
                 s1 = optimistic_delete idToDelete s;
                 result = deleteAction formData;
                 (s2, evs) = settle_delete entityName previousItems result s1
             in (s2, Invoked_deleteAction formData # evs)))"

subsection \<open>Subdomain availability (\<^verbatim>\<open>use-subdomain-availability.ts\<close>)\<close>

datatype AvailabilityStatus = Idle | Checking | Available | Unavailable

record State =
  status :: AvailabilityStatus

datatype Action = CHECK_START | CHECK_SUCCESS bool | CHECK_ERROR | RESET

definition initialState :: State where
  "initialState = \<lparr>status = Idle\<rparr>"

text \<open>
  The reducer. The \<^verbatim>\<open>default\<close> branch of the source's switch is unreachable for a value
  of type \<^verbatim>\<open>Action\<close>, whose four tags are the four constructors.
\<close>

fun availabilityReducer :: "State \<Rightarrow> Action \<Rightarrow> State" where
  "availabilityReducer state CHECK_START = \<lparr>status = Checking\<rparr>"
| "availabilityReducer state (CHECK_SUCCESS isAvailable) =
     \<lparr>status = (if isAvailable then Available else Unavailable)\<rparr>"
| "availabilityReducer state CHECK_ERROR = \<lparr>status = Unavailable\<rparr>"
| "availabilityReducer state RESET = initialState"

section \<open>Validators (\<^verbatim>\<open>src/lib/validators/index.ts\<close>)\<close>

text \<open>
  The schemas the site and campaign actions parse with, built as in the source from the
  checks of the validation library: \<^verbatim>\<open>trim\<close>, \<^verbatim>\<open>min\<close> (counted in UTF-16 code units, as
  the length of a JavaScript string), \<^verbatim>\<open>regex\<close>, \<^verbatim>\<open>optional\<close>. The library's \<^verbatim>\<open>uuid\<close> check
  is not part of the repository and is a parameter.

  \<^verbatim>\<open>Object.fromEntries(formData)\<close> keeps, for a repeated name, the last value.
\<close>

definition from_entries :: "FormData \<Rightarrow> string \<Rightarrow> string option" where
  "from_entries formData key = map_of (rev formData) key"

text \<open>
  The white space \<^verbatim>\<open>String.prototype.trim\<close> removes, in UTF-8: tab, line feed, vertical
  tab, form feed, carriage return, space, U+00A0, U+1680, U+2000 to U+200A, U+2028,
  U+2029, U+202F, U+205F, U+3000 and U+FEFF.
\<close>

definition js_whitespace :: "string list" where
  "js_whitespace =
     [ [CHR 0x09], [CHR 0x0A], [CHR 0x0B], [CHR 0x0C], [CHR 0x0D], [CHR 0x20],
      [CHR 0xC2, CHR 0xA0], [CHR 0xE1, CHR 0x9A, CHR 0x80],
      [CHR 0xE2, CHR 0x80, CHR 0x80], [CHR 0xE2, CHR 0x80, CHR 0x81], [CHR 0xE2, CHR 0x80, CHR 0x82],
      [CHR 0xE2, CHR 0x80, CHR 0x83], [CHR 0xE2, CHR 0x80, CHR 0x84], [CHR 0xE2, CHR 0x80, CHR 0x85],
      [CHR 0xE2, CHR 0x80, CHR 0x86], [CHR 0xE2, CHR 0x80, CHR 0x87], [CHR 0xE2, CHR 0x80, CHR 0x88],
      [CHR 0xE2, CHR 0x80, CHR 0x89], [CHR 0xE2, CHR 0x80, CHR 0x8A],
      [CHR 0xE2, CHR 0x80, CHR 0xA8], [CHR 0xE2, CHR 0x80, CHR 0xA9], [CHR 0xE2, CHR 0x80, CHR 0xAF],
      [CHR 0xE2, CHR 0x81, CHR 0x9F], [CHR 0xE3, CHR 0x80, CHR 0x80], [CHR 0xEF, CHR 0xBB, CHR 0xBF]]"

function strip_start :: "string list \<Rightarrow> string \<Rightarrow> string" where
  "strip_start patterns s =
     (case List.find (\<lambda>p. p \<noteq> [] \<and> take (length p) s = p) patterns of
        None \<Rightarrow> s
      | Some p \<Rightarrow> strip_start patterns (drop (length p) s))"
  by pat_completeness auto
termination
proof (relation "measure (\<lambda>(patterns, s). length s)")
  show "wf (measure (\<lambda>(patterns, s). length s))"
    by simp
next
  fix patterns :: "string list" and s p :: string
  assume "List.find (\<lambda>p. p \<noteq> [] \<and> take (length p) s = p) patterns = Some p"
  then have "p \<noteq> []" and "take (length p) s = p"
    by (auto simp: find_Some_iff)
  then have "s \<noteq> []" and "0 < length p"
    by auto
  then show "((patterns, drop (length p) s), (patterns, s)) \<in> measure (\<lambda>(patterns, s). length s)"
    by simp
qed

declare strip_start.simps [simp del]

definition js_trim :: "string \<Rightarrow> string" where
  "js_trim s = rev (strip_start (map rev js_whitespace) (rev (strip_start js_whitespace s)))"

text \<open>
  The length of the JavaScript string a UTF-8 text stands for: one code unit for each
  character, two for a character of four bytes.
\<close>

definition utf16_length :: "string \<Rightarrow> nat" where
  "utf16_length s =
     length (filter (\<lambda>c. \<not> (digit7 c \<and> \<not> digit6 c)) s)
     + length (filter (\<lambda>c. digit7 c \<and> digit6 c \<and> digit5 c \<and> digit4 c) s)"

text \<open>\<^verbatim>\<open>field: schema.optional()\<close>: an absent field passes, a present one is checked.\<close>

definition optional :: "(string \<Rightarrow> 'a option) \<Rightarrow> string option \<Rightarrow> 'a option option" where
  "optional schema v = (case v of None \<Rightarrow> Some None | Some x \<Rightarrow> map_option Some (schema x))"

text \<open>\<^verbatim>\<open>UuidSchema\<close>, \<^verbatim>\<open>NameSchema\<close> and \<^verbatim>\<open>SubdomainSchema\<close>. After \<^verbatim>\<open>/^[a-z0-9-]+$/\<close> the
  subdomain's \<^verbatim>\<open>toLowerCase\<close> changes nothing.\<close>

definition UuidSchema :: "(string \<Rightarrow> bool) \<Rightarrow> string \<Rightarrow> string option" where
  "UuidSchema uuid v = (if uuid v then Some v else None)"

definition NameSchema :: "string \<Rightarrow> string option" where
  "NameSchema v = (let t = js_trim v in if 3 \<le> utf16_length t then Some t else None)"

definition SubdomainSchema :: "string \<Rightarrow> string option" where
  "SubdomainSchema v =
     (let t = js_trim v in
      if 3 \<le> utf16_length t \<and> list_all (\<lambda>c. c \<in> set ''abcdefghijklmnopqrstuvwxyz0123456789-'') t
      then Some t else None)"

text \<open>
  \<^verbatim>\<open>CreateSiteServerSchema\<close>: the client schema, then \<^verbatim>\<open>name: data.name || data.subdomain\<close>
  and \<^verbatim>\<open>description: data.description || null\<close>, then the keys in snake case.
\<close>

definition validate_CreateSiteServerSchema :: "(string \<Rightarrow> bool) \<Rightarrow> FormData \<Rightarrow> create_site_data option" where
  "validate_CreateSiteServerSchema uuid formData =
     (case (optional NameSchema (from_entries formData ''name''),
            Option.bind (from_entries formData ''subdomain'') SubdomainSchema,
            Option.bind (from_entries formData ''workspaceId'') (UuidSchema uuid)) of
        (Some name, Some subdomain, Some workspaceId) \<Rightarrow>
          Some \<lparr>cs_name = (case name of None \<Rightarrow> subdomain | Some provided \<Rightarrow> provided),
                cs_subdomain = subdomain,
                cs_description = truthy (from_entries formData ''description''),
                cs_workspace_id = workspaceId\<rparr>
      | _ \<Rightarrow> None)"

definition validate_UpdateSiteSchema :: "(string \<Rightarrow> bool) \<Rightarrow> FormData \<Rightarrow> update_site_data option" where
  "validate_UpdateSiteSchema uuid formData =
     (case (Option.bind (from_entries formData ''siteId'') (UuidSchema uuid),
            optional NameSchema (from_entries formData ''name''),
            optional SubdomainSchema (from_entries formData ''subdomain'')) of
        (Some siteId, Some name, Some subdomain) \<Rightarrow>
          Some \<lparr>us_site_id = siteId, us_name = name, us_subdomain = subdomain,
                us_description = from_entries formData ''description''\<rparr>
      | _ \<Rightarrow> None)"

text \<open>\<^verbatim>\<open>DeleteSiteSchema\<close> and \<^verbatim>\<open>DeleteCampaignSchema\<close>, on the value \<^verbatim>\<open>formData.get\<close> gave: null
  is not a string.\<close>

definition validate_IdSchema :: "(string \<Rightarrow> bool) \<Rightarrow> string option \<Rightarrow> string option" where
  "validate_IdSchema uuid v = Option.bind v (UuidSchema uuid)"

text \<open>
  \<^verbatim>\<open>CreateCampaignSchema\<close>. The slug has the checks of a subdomain, under its own
  messages; it is checked when given, and the slug of the output, the given one or
  \<^verbatim>\<open>slugify(name)\<close>, is not part of the parsed record here.
\<close>

definition SlugSchema :: "string \<Rightarrow> string option" where
  "SlugSchema v =
     (let t = js_trim v in
      if 3 \<le> utf16_length t \<and> list_all (\<lambda>c. c \<in> set ''abcdefghijklmnopqrstuvwxyz0123456789-'') t
      then Some t else None)"

definition validate_CreateCampaignSchema ::
  "(string \<Rightarrow> bool) \<Rightarrow> FormData \<Rightarrow> create_campaign_data option" where
  "validate_CreateCampaignSchema uuid formData =
     (case (Option.bind (from_entries formData ''name'') NameSchema,
            optional SlugSchema (from_entries formData ''slug''),
            Option.bind (from_entries formData ''siteId'') (UuidSchema uuid)) of
        (Some name, Some slug, Some siteId) \<Rightarrow> Some \<lparr>cc_name = name, cc_site_id = siteId\<rparr>
      | _ \<Rightarrow> None)"

text \<open>
  \<^verbatim>\<open>CreateWorkspaceSchema\<close>, as the verdict \<^verbatim>\<open>createWorkspaceAction\<close> reads: the parsed form,
  or the first message for the field \<^verbatim>\<open>workspaceName\<close>, if that field is among the rejected.
\<close>

definition validate_CreateWorkspaceSchema :: "FormData \<Rightarrow> string option + create_workspace_data" where
  "validate_CreateWorkspaceSchema formData =
     (let workspaceName =
            (case from_entries formData ''workspaceName'' of
               None \<Rightarrow> Inl ''El nombre es requerido.''
             | Some v \<Rightarrow>
                 (case NameSchema v of
                    None \<Rightarrow> Inl ''El nombre debe tener al menos 3 caracteres.''
                  | Some name \<Rightarrow> Inr name));
          icon =
            Option.bind (from_entries formData ''icon'')
              (\<lambda>v. let t = js_trim v in if 1 \<le> utf16_length t then Some t else None)
      in case (workspaceName, icon) of
           (Inl message, _) \<Rightarrow> Inl (Some message)
         | (Inr name, None) \<Rightarrow> Inl None
         | (Inr name, Some i) \<Rightarrow> Inr \<lparr>cw_workspace_name = name, cw_icon = i\<rparr>)"

section \<open>Sample environments\<close>

text \<open>
  For the library's \<^verbatim>\<open>uuid\<close> check the sample environment takes the strictest reading:
  five groups of 8, 4, 4, 4 and 12 hexadecimal digits, the third beginning with a
  version 1 to 5 and the fourth with 8, 9, a or b. The identifiers below have that
  shape.
\<close>

fun split_on :: "char \<Rightarrow> string \<Rightarrow> string list" where
  "split_on sep [] = [ [] ]"
| "split_on sep (c # cs) =
     (if c = sep then [] # split_on sep cs
      else (case split_on sep cs of [] \<Rightarrow> [ [c] ] | b # bs \<Rightarrow> (c # b) # bs))"

definition is_uuid :: "string \<Rightarrow> bool" where
  "is_uuid s =
     (case split_on CHR ''-'' s of
        [a, b, c, d, e] \<Rightarrow>
          map length [a, b, c, d, e] = [8, 4, 4, 4, 12]
          \<and> list_all (\<lambda>x. x \<in> set ''0123456789abcdefABCDEF'') (a @ b @ c @ d @ e)
          \<and> list_all (\<lambda>x. x \<in> set ''12345'') (take 1 c)
          \<and> list_all (\<lambda>x. x \<in> set ''89abAB'') (take 1 d)
      | _ \<Rightarrow> False)"

definition user_a :: string where "user_a = ''aaaaaaaa-aaaa-4aaa-8aaa-aaaaaaaaaaaa''"
definition user_b :: string where "user_b = ''bbbbbbbb-bbbb-4bbb-8bbb-bbbbbbbbbbbb''"
definition ws_1 :: string where "ws_1 = ''11111111-1111-4111-8111-111111111111''"
definition site_1 :: string where "site_1 = ''22222222-2222-4222-8222-222222222222''"
definition site_2 :: string where "site_2 = ''44444444-4444-4444-8444-444444444444''"
definition site_9 :: string where "site_9 = ''99999999-9999-4999-8999-999999999999''"
definition camp_1 :: string where "camp_1 = ''33333333-3333-4333-8333-333333333333''"
definition camp_2 :: string where "camp_2 = ''55555555-5555-4555-8555-555555555555''"

text \<open>
  One user, one workspace, one site and one campaign, for evaluating the definitions:
  \<open>sample_world r\<close> is a request of the user \<open>user_a\<close>, whose role in the workspace \<open>ws_1\<close> is
  \<open>r\<close> and whose application role is the plain one, with every write accepted; no site
  has the identifier \<open>site_9\<close> and \<open>user_b\<close> is a member of nothing. Its schemas are those
  of the validators.
\<close>

definition ok_response :: "'a \<Rightarrow> 'a response" where
  "ok_response x = \<lparr>resp_data = Some x, resp_error = None\<rparr>"

definition empty_response :: "'a response" where
  "empty_response = \<lparr>resp_data = None, resp_error = None\<rparr>"

definition error_response :: "string \<Rightarrow> 'a response" where
  "error_response c = \<lparr>resp_data = None, resp_error = Some \<lparr>err_code = c, err_message = []\<rparr>\<rparr>"

definition sample_user :: user where
  "sample_user = \<lparr>user_id = user_a, user_email = Some ''a@example.com''\<rparr>"

definition sample_site :: SiteBasicInfo where
  "sample_site = \<lparr>sbi_id = site_1, sbi_subdomain = ''acme'', sbi_workspace_id = ws_1\<rparr>"

definition sample_campaign :: campaign_row where
  "sample_campaign =
     \<lparr>cmp_id = camp_1, cmp_name = ''launch'', cmp_site_id = site_1,
      cmp_sites_workspace_id = Some ws_1\<rparr>"

definition sample_world :: "workspace_role \<Rightarrow> world" where
  "sample_world r =
     \<lparr>auth_getUser = Some sample_user,
      profile_app_role = Some AppUser,
      cookie_active_workspace_id = Some ws_1,
      workspace_members_single =
        (\<lambda>u ws. if u = user_a \<and> ws = ws_1 then ok_response \<lparr>role = r\<rparr>
                 else error_response ''PGRST116''),
      sites_single = (\<lambda>i. if i = site_1 then ok_response sample_site else error_response ''PGRST116''),
      campaigns_single =
        (\<lambda>i. if i = camp_1 then ok_response sample_campaign else error_response ''PGRST116''),
      sites_insert = Resolves (ok_response site_2),
      sites_update = Resolves empty_response,
      sites_delete = Resolves empty_response,
      campaigns_insert = Resolves (ok_response camp_2),
      campaigns_delete = Resolves empty_response,
      profiles_update = Resolves empty_response,
      audit_logs_insert = Resolves empty_response,
      CreateSiteServerSchema = validate_CreateSiteServerSchema is_uuid,
      UpdateSiteSchema = validate_UpdateSiteSchema is_uuid,
      DeleteSiteSchema = validate_IdSchema is_uuid,
      CreateCampaignSchema = validate_CreateCampaignSchema is_uuid,
      DeleteCampaignSchema = validate_IdSchema is_uuid\<rparr>"

definition create_acme :: FormData where
  "create_acme = [(''subdomain'', ''acme''), (''workspaceId'', ws_1)]"

text \<open>
  The second environment of the sample: the stored campaign with its site, a second user
  for the administration client, every write and procedure accepted, every
  authentication call without error, and the session of the first environment's user.
\<close>

definition sample_platform :: platform where
  "sample_platform =
     \<lparr>campaigns_with_content_single =
        (\<lambda>i. if i = camp_1
              then ok_response \<lparr>cwc_slug = Some ''launch'',
                     cwc_sites = Some \<lparr>sj_workspace_id = ws_1, sj_subdomain = Some ''acme''\<rparr>\<rparr>
              else error_response ''PGRST116''),
      campaigns_update = Resolves empty_response,
      admin_getUserById =
        (\<lambda>i. if i = user_b then ok_response \<lparr>user_id = user_b, user_email = Some ''b@example.com''\<rparr>
              else error_response ''user_not_found''),
      admin_generateLink = (\<lambda>kind. ok_response ''https://example.com/auth/v1/verify''),
      admin_sites_delete =
        (\<lambda>subdomain. if subdomain = ''acme''
                      then Resolves (ok_response \<lparr>ds_id = site_1, ds_subdomain = Some ''acme''\<rparr>)
                      else Resolves (error_response ''PGRST116'')),
      admin_profiles_update = Resolves empty_response,
      invitations_insert = Resolves empty_response,
      rpc_accept_workspace_invitation =
        Resolves (ok_response \<lparr>rpc_success = True, rpc_error = None, rpc_message = None\<rparr>),
      rpc_create_workspace_with_owner = Resolves (ok_response [ws_1]),
      visitor_logs_upsert = Resolves empty_response,
      auth_getSession = Some sample_user,
      auth_signUp = None,
      auth_signInWithPassword = None,
      auth_updateUser = None,
      x_forwarded_for = Some ''203.0.113.7'',
      randomUUID = camp_2\<rparr>"

text \<open>A state of the optimistic hook with two sites.\<close>

definition two_sites :: hook_state where
  "two_sites =
     \<lparr>items = [\<lparr>res_id = ''s1'', res_fields = [(''name'', ''one'')]\<rparr>,
               \<lparr>res_id = ''s2'', res_fields = [(''name'', ''two'')]\<rparr>],
      mutatingId = None\<rparr>"

text \<open>Reading a trace.\<close>

fun is_warning :: "event \<Rightarrow> bool" where
  "is_warning (Logged WARN m) = True"
| "is_warning ev = False"

fun is_error_log :: "event \<Rightarrow> bool" where
  "is_error_log (Logged ERROR m) = True"
| "is_error_log ev = False"

fun is_permission_check :: "event \<Rightarrow> bool" where
  "is_permission_check (Called_hasWorkspacePermission u ws rs) = True"
| "is_permission_check ev = False"

fun is_audit_call :: "event \<Rightarrow> bool" where
  "is_audit_call (Called_createAuditLog a d) = True"
| "is_audit_call ev = False"

text \<open>The number of calls of \<^verbatim>\<open>createAuditLog\<close> a computation makes.\<close>

definition audit_calls :: "'a io \<Rightarrow> nat" where
  "audit_calls m = length (filter is_audit_call (snd m))"

section \<open>What reaches the client\<close>

text \<open>
  The guards' codes as the strings they are, and, for each action, the messages of its
  own return statements.
\<close>

definition internal_codes :: "string list" where
  "internal_codes = map auth_error_string [SESSION_NOT_FOUND, PERMISSION_DENIED, NOT_FOUND]"

definition createSiteAction_messages :: "string list" where
  "createSiteAction_messages =
     [''No tienes permiso para crear sitios en este workspace.'', subdomain_in_use,
      site_create_failed, form_data_invalid, unexpected_error]"

definition updateSiteAction_messages :: "string list" where
  "updateSiteAction_messages =
     [''No se pudo actualizar el sitio.'', form_data_invalid, unexpected_error]"

definition deleteSiteAction_messages :: "string list" where
  "deleteSiteAction_messages =
     [''No se pudo eliminar el sitio.'', site_id_invalid, unexpected_error]"

definition createCampaignAction_messages :: "string list" where
  "createCampaignAction_messages =
     [not_authenticated, ''El sitio asociado no existe.'',
      ''No tienes permiso para crear campa'' @ n_tilde @ ''as en este sitio.'',
      ''No se pudo crear la campa'' @ n_tilde @ ''a.'', campaign_data_invalid, unexpected_error]"

definition deleteCampaignAction_messages :: "string list" where
  "deleteCampaignAction_messages =
     [not_authenticated, ''La campa'' @ n_tilde @ ''a no se pudo encontrar.'',
      ''Error de integridad de datos.'',
      ''No tienes permiso para eliminar esta campa'' @ n_tilde @ ''a.'',
      ''No se pudo eliminar la campa'' @ n_tilde @ ''a.'', campaign_id_invalid, unexpected_error]"

text \<open>
  The same for the other actions. Where an action hands on a string it was given (the
  message of the schema for a field, the error of the stored procedure), that string is
  added where the property is stated.
\<close>

definition updateCampaignContentAction_messages :: "string list" where
  "updateCampaignContentAction_messages =
     [''No autenticado.'', (''Acceso denegado. No tienes permiso para editar esta campa'' @ n_tilde @ ''a.''),
      (''No se pudo guardar la campa'' @ n_tilde @ ''a.'')]"

definition impersonateUserAction_messages :: "string list" where
  "impersonateUserAction_messages =
     [''No puedes suplantarte a ti mismo.'', ''Usuario no encontrado.'',
      (''No se pudo generar el link de suplantaci'' @ o_acute @ ''n.'')]"

definition deleteSiteAsAdminAction_messages :: "string list" where
  "deleteSiteAsAdminAction_messages = [''Subdominio ausente.'', ''No se pudo eliminar el sitio.'']"

definition updateUserRoleAction_messages :: "string list" where
  "updateUserRoleAction_messages = [''No puedes cambiar tu propio rol.'', ''No se pudo actualizar el rol.'']"

definition sendWorkspaceInvitationAction_messages :: "string list" where
  "sendWorkspaceInvitationAction_messages =
     [''No autenticado.'', ''No puedes invitarte a ti mismo.'',
      ''Este usuario ya ha sido invitado o ya es miembro.'', (''No se pudo enviar la invitaci'' @ o_acute @ ''n.''),
      (''Datos de invitaci'' @ o_acute @ ''n inv'' @ a_acute @ ''lidos.''), unexpected_error]"

definition acceptInvitationAction_messages :: "string list" where
  "acceptInvitationAction_messages =
     [''No autenticado.'', (''No se pudo procesar la aceptaci'' @ o_acute @ ''n.''),
      (''No se pudo aceptar la invitaci'' @ o_acute @ ''n.'')]"

definition createWorkspaceAction_messages :: "string list" where
  "createWorkspaceAction_messages =
     [(''No autenticado. Inicia sesi'' @ o_acute @ ''n de nuevo.''), (''Datos inv'' @ a_acute @ ''lidos.''),
      ''No se pudo crear el workspace.'', unexpected_error]"

definition updateDashboardLayoutAction_messages :: "string list" where
  "updateDashboardLayoutAction_messages = [''No autenticado.'', ''No se pudo guardar el layout.'']"

definition signUpAction_messages :: "string list" where
  "signUpAction_messages =
     [(''No se pudo completar el registro. El correo electr'' @ o_acute @ ''nico ya podr'' @ i_acute @ ''a estar en uso.''),
      (''Datos de registro inv'' @ a_acute @ ''lidos.''), unexpected_error]"

definition signInWithPasswordAction_messages :: "string list" where
  "signInWithPasswordAction_messages =
     [(''Credenciales inv'' @ a_acute @ ''lidas.''), (''Datos de inicio de sesi'' @ o_acute @ ''n inv'' @ a_acute @ ''lidos.''), unexpected_error]"

definition logClientVisitAction_messages :: "string list" where
  "logClientVisitAction_messages =
     [''No se pudo registrar la visita.'', (''Datos de cliente inv'' @ a_acute @ ''lidos.''), unexpected_error]"

definition requestPasswordResetAction_messages :: "string list" where
  "requestPasswordResetAction_messages =
     [(''Demasiadas solicitudes. Intente nuevamente m'' @ a_acute @ ''s tarde.''),
      (''Por favor, introduce un email v'' @ a_acute @ ''lido.'')]"

definition updatePasswordAction_messages :: "string list" where
  "updatePasswordAction_messages =
     [(''Datos inv'' @ a_acute @ ''lidos.''),
      (''Sesi'' @ o_acute @ ''n de recuperaci'' @ o_acute @ ''n inv'' @ a_acute @ ''lida o expirada. Por favor, solicita un nuevo enlace.''),
      ''El enlace de reseteo ha expirado. Por favor, solicita uno nuevo.'',
      (''No fue posible actualizar la contrase'' @ n_tilde @ ''a. Intente nuevamente.'')]"

text \<open>A string that may be missing, as the list of the strings given.\<close>

definition given_string :: "string option \<Rightarrow> string list" where
  "given_string v = (case v of None \<Rightarrow> [] | Some m \<Rightarrow> [m])"

text \<open>The error string the stored procedure of \<^verbatim>\<open>acceptInvitation\<close> answers with, if any.\<close>

definition rpc_error_given :: "platform \<Rightarrow> string list" where
  "rpc_error_given pf =
     (case rpc_accept_workspace_invitation pf of
        Throws \<Rightarrow> []
      | Resolves r \<Rightarrow> (case resp_data r of None \<Rightarrow> [] | Some rpcResult \<Rightarrow> given_string (rpc_error rpcResult)))"

text \<open>
  An action surfaces only the given messages when it returns (does not throw) a success
  payload or a failure whose string is one of them.
\<close>

definition surfaces :: "'a ActionResult io \<Rightarrow> string list \<Rightarrow> bool" where
  "surfaces outcome messages =
     (case fst outcome of
        Inl e \<Rightarrow> False
      | Inr (ActionSuccess d) \<Rightarrow> True
      | Inr (ActionFailure m) \<Rightarrow> m \<in> set messages)"

text \<open>
  An action with no \<^verbatim>\<open>try\<close> block around its body can also end by an exception, that of an
  awaited call or that of \<^verbatim>\<open>redirect\<close>: every result it returns is a success payload or one
  of the given messages, and every exception it ends by is one of the given exceptions.
\<close>

definition surfaces_or_ends :: "'a ActionResult io \<Rightarrow> string list \<Rightarrow> exn list \<Rightarrow> bool" where
  "surfaces_or_ends outcome messages exceptions =
     (case fst outcome of
        Inl e \<Rightarrow> e \<in> set exceptions
      | Inr (ActionSuccess d) \<Rightarrow> True
      | Inr (ActionFailure m) \<Rightarrow> m \<in> set messages)"

text \<open>The same for an action that returns a form state, whose error is a message or null.\<close>

definition state_surfaces ::
  "'s io \<Rightarrow> ('s \<Rightarrow> string option) \<Rightarrow> string list \<Rightarrow> exn list \<Rightarrow> bool" where
  "state_surfaces outcome error_of messages exceptions =
     (case fst outcome of
        Inl e \<Rightarrow> e \<in> set exceptions
      | Inr st \<Rightarrow> (case error_of st of None \<Rightarrow> True | Some m \<Rightarrow> m \<in> set messages))"

fun is_success :: "(exn + 'a ActionResult) \<Rightarrow> bool" where
  "is_success (Inr (ActionSuccess d)) = True"
| "is_success r = False"

text \<open>An action that ends in a redirect.\<close>

fun is_redirect :: "(exn + 'a) \<Rightarrow> bool" where
  "is_redirect (Inl (NEXT_REDIRECT path)) = True"
| "is_redirect r = False"

section \<open>Theorems\<close>

text \<open>
  C9. The reducer realises the machine idle, checking, available or unavailable: from
  every state, CHECK_START gives checking, CHECK_SUCCESS gives available exactly when
  its flag is true and unavailable otherwise, RESET gives idle, and CHECK_ERROR gives
  unavailable.
\<close>

theorem availabilityReducer_machine:
  "status (availabilityReducer s CHECK_START) = Checking
   \<and> (status (availabilityReducer s (CHECK_SUCCESS b)) = Available \<longleftrightarrow> b)
   \<and> (status (availabilityReducer s (CHECK_SUCCESS b)) = Unavailable \<longleftrightarrow> \<not> b)
   \<and> status (availabilityReducer s RESET) = Idle
   \<and> status (availabilityReducer s CHECK_ERROR) = Unavailable"
  by (simp add: initialState_def)

text \<open>Unfolding the effect combinators, and the sample environments.\<close>

lemmas io_defs = return_io_def throw_io_def emit_def bind_io_def then_io_def try_catch_def
  await_write_def zod_parse_def row_id_def catch_action_def

lemmas sample_defs = sample_world_def sample_user_def sample_site_def sample_campaign_def
  ok_response_def empty_response_def error_response_def create_acme_def form_get_def
  user_a_def user_b_def ws_1_def site_1_def site_2_def site_9_def camp_1_def camp_2_def

text \<open>
  C1. \<^verbatim>\<open>hasWorkspacePermission\<close> answers true exactly when the lookup gives a membership row
  without an error and the row's role is among the required ones; it never throws. When
  no row exists (the lookup gives no data, and its error, if any, is the not-found code
  PGRST116) it answers false and logs nothing; on any other lookup error it logs that
  error once and answers false.
\<close>

theorem hasWorkspacePermission_fail_closed:
  "(fst (hasWorkspacePermission w userId workspaceId requiredRoles) = Inr True \<longleftrightarrow>
      resp_error (workspace_members_single w userId workspaceId) = None
      \<and> (\<exists>m. resp_data (workspace_members_single w userId workspaceId) = Some m
               \<and> role m \<in> set requiredRoles))
   \<and> (fst (hasWorkspacePermission w userId workspaceId requiredRoles) = Inr True
        \<or> fst (hasWorkspacePermission w userId workspaceId requiredRoles) = Inr False)
   \<and> (resp_data (workspace_members_single w userId workspaceId) = None
        \<and> (\<forall>e. resp_error (workspace_members_single w userId workspaceId) = Some e
                 \<longrightarrow> err_code e = ''PGRST116'') \<longrightarrow>
        hasWorkspacePermission w userId workspaceId requiredRoles =
          (Inr False, [Called_hasWorkspacePermission userId workspaceId requiredRoles]))
   \<and> (\<forall>e. resp_error (workspace_members_single w userId workspaceId) = Some e
            \<and> err_code e \<noteq> ''PGRST116'' \<longrightarrow>
        hasWorkspacePermission w userId workspaceId requiredRoles =
          (Inr False,
           [Called_hasWorkspacePermission userId workspaceId requiredRoles,
            Logged ERROR (''[AuthPermissions] Error al verificar permisos para usuario '' @ userId
                        @ '' en workspace '' @ workspaceId @ '':'')]))"
  by (auto simp: hasWorkspacePermission_def io_defs Let_def split: option.splits)

theorem hasWorkspacePermission_fail_closed_witness:
  "fst (hasWorkspacePermission (sample_world Owner) user_a ws_1 [Owner, Admin]) = Inr True
   \<and> hasWorkspacePermission (sample_world Owner) user_b ws_1 [Owner, Admin] =
       (Inr False, [Called_hasWorkspacePermission user_b ws_1 [Owner, Admin]])
   \<and> hasWorkspacePermission
        ((sample_world Owner)\<lparr>workspace_members_single := (\<lambda>u ws. error_response ''08006'')\<rparr>)
        user_a ws_1 [Owner] =
       (Inr False,
        [Called_hasWorkspacePermission user_a ws_1 [Owner],
         Logged ERROR (''[AuthPermissions] Error al verificar permisos para usuario '' @ user_a
                        @ '' en workspace '' @ ws_1 @ '':'')])"
  using hasWorkspacePermission_fail_closed [of "sample_world Owner" user_a ws_1 "[Owner, Admin]"]
    hasWorkspacePermission_fail_closed [of "sample_world Owner" user_b ws_1 "[Owner, Admin]"]
    hasWorkspacePermission_fail_closed
      [of "(sample_world Owner)\<lparr>workspace_members_single := (\<lambda>u ws. error_response ''08006'')\<rparr>"
          user_a ws_1 "[Owner]"]
  by (simp add: sample_defs)

text \<open>
  C2. The specification asks for one warning when the workspace guard denies. The guard denies
  with PERMISSION_DENIED, but its trace holds the session's trace line and the permission
  check only: no warning is logged.
\<close>

theorem requireWorkspacePermission_denial_unlogged:
  "auth_getUser w = Some u \<Longrightarrow>
   workspace_members_single w (user_id u) workspaceId = \<lparr>resp_data = Some m, resp_error = None\<rparr> \<Longrightarrow>
   role m \<notin> set requiredRoles \<Longrightarrow>
   fst (requireWorkspacePermission w workspaceId requiredRoles) = Inr (AuthFailure PERMISSION_DENIED)
   \<and> filter is_warning (snd (requireWorkspacePermission w workspaceId requiredRoles)) = []"
  by (simp add: requireWorkspacePermission_def getAuthenticatedUserAuthData_def
      hasWorkspacePermission_def io_defs)

theorem requireWorkspacePermission_denial_unlogged_witness:
  "fst (requireWorkspacePermission (sample_world Member) ws_1 [Owner, Admin]) =
     Inr (AuthFailure PERMISSION_DENIED)
   \<and> filter is_warning (snd (requireWorkspacePermission (sample_world Member) ws_1 [Owner, Admin])) = []"
  using requireWorkspacePermission_denial_unlogged
    [of "sample_world Member" sample_user ws_1 "\<lparr>role = Member\<rparr>" "[Owner, Admin]"]
  by (simp add: sample_defs)

text \<open>
  The site guard, in the same situation, does log: one warning, naming the user, the site
  and the workspace.
\<close>

lemma requireSitePermission_denial_warns:
  "auth_getUser w = Some u \<Longrightarrow>
   sites_single w siteId = \<lparr>resp_data = Some st, resp_error = None\<rparr> \<Longrightarrow>
   workspace_members_single w (user_id u) (sbi_workspace_id st) = \<lparr>resp_data = Some m, resp_error = None\<rparr> \<Longrightarrow>
   role m \<notin> set requiredRoles \<Longrightarrow>
   fst (requireSitePermission w siteId requiredRoles) = Inr (AuthFailure PERMISSION_DENIED)
   \<and> filter is_warning (snd (requireSitePermission w siteId requiredRoles)) =
       [Logged WARN
          (''[AuthGuard] VIOLACI'' @ O_acute @ ''N DE ACCESO A SITIO: Usuario '' @ user_id u
            @ '' intent'' @ o_acute @ '' acceder al sitio '' @ siteId
            @ '' sin permisos en el workspace '' @ sbi_workspace_id st @ ''.'')]"
  by (simp add: requireSitePermission_def getAuthenticatedUserAuthData_def getSiteById_def
      hasWorkspacePermission_def io_defs)

text \<open>
  C3. With a session, when \<^verbatim>\<open>getSiteById\<close> gives null the site guard answers NOT_FOUND and
  its trace holds no call of \<^verbatim>\<open>hasWorkspacePermission\<close>.
\<close>

theorem requireSitePermission_not_found:
  "auth_getUser w = Some u \<Longrightarrow>
   fst (getSiteById w siteId) = Inr None \<Longrightarrow>
   fst (requireSitePermission w siteId requiredRoles) = Inr (AuthFailure NOT_FOUND)
   \<and> filter is_permission_check (snd (requireSitePermission w siteId requiredRoles)) = []"
  by (auto simp: requireSitePermission_def getAuthenticatedUserAuthData_def getSiteById_def
      io_defs Let_def split: option.splits if_splits)

theorem requireSitePermission_not_found_witness:
  "fst (requireSitePermission (sample_world Owner) site_9 [Owner]) = Inr (AuthFailure NOT_FOUND)
   \<and> filter is_permission_check (snd (requireSitePermission (sample_world Owner) site_9 [Owner])) = []"
proof -
  have s: "auth_getUser (sample_world Owner) = Some sample_user"
    by (simp add: sample_defs)
  have n: "fst (getSiteById (sample_world Owner) site_9) = Inr None"
    by (simp add: getSiteById_def io_defs sample_defs)
  show ?thesis
    using requireSitePermission_not_found [OF s n, of "[Owner]"] by simp
qed

text \<open>
  C5. When the form parses, the workspace guard lets the user through and the insert
  answers with the unique-constraint code 23505, \<^verbatim>\<open>createSiteAction\<close> answers with the
  subdomain-in-use message, which is neither the generic creation failure nor the
  unexpected-error message, and neither calls \<^verbatim>\<open>createAuditLog\<close> nor inserts into
  \<^verbatim>\<open>audit_logs\<close>.
\<close>

theorem createSiteAction_conflict:
  "CreateSiteServerSchema w formData = Some parsedData \<Longrightarrow>
   fst (requireWorkspacePermission w (cs_workspace_id parsedData) [Owner, Admin]) = Inr (AuthSuccess usr) \<Longrightarrow>
   sites_insert w = Resolves r \<Longrightarrow>
   resp_error r = Some error \<Longrightarrow>
   err_code error = ''23505'' \<Longrightarrow>
   fst (createSiteAction w formData) = Inr (ActionFailure subdomain_in_use)
   \<and> subdomain_in_use \<noteq> site_create_failed
   \<and> subdomain_in_use \<noteq> unexpected_error
   \<and> filter is_audit_call (snd (createSiteAction w formData)) = []
   \<and> Db_insert ''audit_logs'' \<notin> set (snd (createSiteAction w formData))"
  by (auto simp: createSiteAction_def requireWorkspacePermission_def getAuthenticatedUserAuthData_def
      hasWorkspacePermission_def io_defs Let_def subdomain_in_use_def site_create_failed_def
      unexpected_error_def a_acute_def o_acute_def
      split: option.splits if_splits)

theorem createSiteAction_conflict_witness:
  "fst (createSiteAction ((sample_world Owner)\<lparr>sites_insert := Resolves (error_response ''23505'')\<rparr>) create_acme)
     = Inr (ActionFailure subdomain_in_use)
   \<and> filter is_audit_call
        (snd (createSiteAction ((sample_world Owner)\<lparr>sites_insert := Resolves (error_response ''23505'')\<rparr>)
               create_acme)) = []"
proof -
  let ?w = "(sample_world Owner)\<lparr>sites_insert := Resolves (error_response ''23505'')\<rparr>"
  let ?p = "\<lparr>cs_name = ''acme'', cs_subdomain = ''acme'', cs_description = None, cs_workspace_id = ws_1\<rparr>"
  have p: "CreateSiteServerSchema ?w create_acme = Some ?p"
    by code_simp
  have g: "fst (requireWorkspacePermission ?w (cs_workspace_id ?p) [Owner, Admin]) = Inr (AuthSuccess sample_user)"
    by (simp add: requireWorkspacePermission_def getAuthenticatedUserAuthData_def
        hasWorkspacePermission_def io_defs sample_defs)
  have i: "sites_insert ?w = Resolves (error_response ''23505'')"
    by (simp add: sample_defs)
  have e: "resp_error (error_response ''23505'' :: string response) = Some \<lparr>err_code = ''23505'', err_message = []\<rparr>"
    by (simp add: error_response_def)
  have c: "err_code \<lparr>err_code = ''23505'', err_message = []\<rparr> = ''23505''"
    by simp
  show ?thesis
    using createSiteAction_conflict [OF p g i e c] by simp
qed

lemmas hook_defs = handleCreate_def handleDelete_def settle_create_def settle_delete_def
  optimistic_create_def optimistic_delete_def

text \<open>
  C8. When the server action of \<^verbatim>\<open>handleCreate\<close> or \<^verbatim>\<open>handleDelete\<close> answers with a failure,
  the items after the handler has settled are the items at the call, the snapshot
  \<^verbatim>\<open>previousItems\<close>; and the settlement puts the snapshot back whatever the state has
  become in between. The optimistic states in between are the items with the phantom
  appended, and the items without the deleted id.
\<close>

theorem optimistic_rollback:
  "createAction formData = ActionFailure error \<Longrightarrow>
   deleteAction formData' = ActionFailure error' \<Longrightarrow>
   items (fst (handleCreate createAction entityName now s formData optimisticItem)) = items s
   \<and> items (fst (handleDelete deleteAction entityName s formData')) = items s
   \<and> items (fst (settle_create entityName previousItems (createAction formData) s')) = previousItems
   \<and> items (fst (settle_delete entityName previousItems (deleteAction formData') s')) = previousItems
   \<and> items (optimistic_create now optimisticItem s) = items s @ [phantomItem now optimisticItem]
   \<and> items (optimistic_delete idToDelete s) = filter (\<lambda>item. res_id item \<noteq> idToDelete) (items s)"
  by (simp add: hook_defs split: option.splits)

theorem optimistic_rollback_witness:
  "items (fst (handleCreate (\<lambda>fd. ActionFailure ''Este subdominio ya existe'') ''Sitio'' 7 two_sites
                 [(''subdomain'', ''acme'')] [(''name'', ''acme'')])) = items two_sites
   \<and> items (fst (handleDelete (\<lambda>fd. (ActionFailure ''PERMISSION_DENIED'' :: unit ActionResult)) ''Sitio''
                   two_sites [(''siteId'', ''s1'')])) = items two_sites
   \<and> items (optimistic_create 7 [(''name'', ''acme'')] two_sites) =
       items two_sites @ [\<lparr>res_id = ''optimistic-7'', res_fields = [(''name'', ''acme'')]\<rparr>]
   \<and> items (optimistic_delete ''s1'' two_sites) = [\<lparr>res_id = ''s2'', res_fields = [(''name'', ''two'')]\<rparr>]"
  using optimistic_rollback
    [of "\<lambda>fd. ActionFailure ''Este subdominio ya existe''" "[(''subdomain'', ''acme'')]"
        "''Este subdominio ya existe''"
        "\<lambda>fd. (ActionFailure ''PERMISSION_DENIED'' :: unit ActionResult)" "[(''siteId'', ''s1'')]"
        "''PERMISSION_DENIED''" "''Sitio''" 7 two_sites "[(''name'', ''acme'')]" "items two_sites" two_sites
        "''s1''"]
  by (simp add: two_sites_def phantomItem_def show_nat.simps)

text \<open>
  C10. \<^verbatim>\<open>handleDelete\<close> takes the id from the form entry \<^verbatim>\<open>siteId\<close> alone. Without that
  entry it is a no-op: the state (items and mutatingId) is returned unchanged and no
  event occurs, so the delete action is not invoked. The handler does anything at all
  exactly when the entry is there and not empty, and the state it ends in depends on the
  form only through that entry and the action's answer.
\<close>

theorem handleDelete_requires_siteId:
  "(form_get formData ''siteId'' = None \<longrightarrow>
      handleDelete deleteAction entityName s formData = (s, []))
   \<and> (snd (handleDelete deleteAction entityName s formData) \<noteq> [] \<longleftrightarrow>
        (\<exists>i. form_get formData ''siteId'' = Some i \<and> i \<noteq> []))
   \<and> (Invoked_deleteAction formData \<in> set (snd (handleDelete deleteAction entityName s formData)) \<longleftrightarrow>
        (\<exists>i. form_get formData ''siteId'' = Some i \<and> i \<noteq> []))
   \<and> (form_get formData ''siteId'' = form_get formData' ''siteId''
        \<and> deleteAction formData = deleteAction formData' \<longrightarrow>
        fst (handleDelete deleteAction entityName s formData) =
        fst (handleDelete deleteAction entityName s formData'))"
  by (auto simp: hook_defs Let_def split: option.splits ActionResult.splits)

theorem handleDelete_requires_siteId_witness:
  "handleDelete (\<lambda>fd. ActionSuccess ()) ''Campaign'' two_sites [(''campaignId'', ''s1'')] = (two_sites, [])
   \<and> Invoked_deleteAction [(''campaignId'', ''s1'')] \<notin>
       set (snd (handleDelete (\<lambda>fd. ActionSuccess ()) ''Campaign'' two_sites [(''campaignId'', ''s1'')]))"
  using handleDelete_requires_siteId
    [of "[(''campaignId'', ''s1'')]" "\<lambda>fd. ActionSuccess ()" "''Campaign''" two_sites "[(''campaignId'', ''s1'')]"]
  by (simp add: form_get_def)

subsection \<open>Results and audit calls of the combinators, the helper and the guards\<close>

text \<open>Result and trace of the combinators, taken apart.\<close>

lemma fst_bind_io:
  "fst (bind_io m f) = (case fst m of Inl e \<Rightarrow> Inl e | Inr x \<Rightarrow> fst (f x))"
  by (simp add: bind_io_def split: prod.splits sum.splits)

lemma fst_try_catch:
  "fst (try_catch body handler) = (case fst body of Inl e \<Rightarrow> fst (handler e) | Inr x \<Rightarrow> Inr x)"
  by (simp add: try_catch_def split: prod.splits sum.splits)

lemma fst_leaves:
  "fst (return_io x) = Inr x"
  "fst (throw_io e) = Inl e"
  "fst (redirect path) = Inl (NEXT_REDIRECT path)"
  "fst (emit ev) = Inr ()"
  "fst (await_write ev outcome) = (case outcome of Throws \<Rightarrow> Inl ThrownError | Resolves r \<Rightarrow> Inr r)"
  "fst (zod_parse parsed) = (case parsed of None \<Rightarrow> Inl ZodError | Some v \<Rightarrow> Inr v)"
  "fst (row_id row) = (case row of None \<Rightarrow> Inl TypeError | Some i \<Rightarrow> Inr i)"
  "fst (catch_action invalidMessage logMessage error) =
     Inr (ActionFailure (if error = ZodError then invalidMessage else unexpected_error))"
  by (simp_all add: io_defs redirect_def split: option.splits db_outcome.splits)

lemma audit_calls_bind_io:
  "audit_calls (bind_io m f) =
     audit_calls m + (case fst m of Inl e \<Rightarrow> 0 | Inr x \<Rightarrow> audit_calls (f x))"
  by (simp add: audit_calls_def bind_io_def split: prod.splits sum.splits)

lemma audit_calls_try_catch:
  "audit_calls (try_catch body handler) =
     audit_calls body + (case fst body of Inl e \<Rightarrow> audit_calls (handler e) | Inr x \<Rightarrow> 0)"
  by (simp add: audit_calls_def try_catch_def split: prod.splits sum.splits)

lemma audit_calls_leaves:
  "audit_calls (return_io x) = 0"
  "audit_calls (throw_io e) = 0"
  "audit_calls (redirect path) = 0"
  "audit_calls (emit ev) = (if is_audit_call ev then 1 else 0)"
  "audit_calls (await_write ev outcome) = (if is_audit_call ev then 1 else 0)"
  "audit_calls (zod_parse parsed) = 0"
  "audit_calls (row_id row) = 0"
  "audit_calls (catch_action invalidMessage logMessage error) = 0"
  by (simp_all add: audit_calls_def io_defs redirect_def split: option.splits db_outcome.splits)

lemmas io_run = fst_bind_io fst_try_catch then_io_def fst_leaves audit_calls_bind_io
  audit_calls_try_catch audit_calls_leaves

text \<open>
  The audit helper returns; its trace holds its call once, and one error line exactly when
  its insert throws or answers with an error.
\<close>

lemma createAuditLog_returns: "fst (createAuditLog w action details) = Inr ()"
  by (simp add: createAuditLog_def io_run split: db_outcome.splits option.splits)

lemma createAuditLog_one_call:
  "filter is_audit_call (snd (createAuditLog w action details)) = [Called_createAuditLog action details]"
  by (simp add: createAuditLog_def io_defs split: db_outcome.splits option.splits)

lemma createAuditLog_audit_calls: "audit_calls (createAuditLog w action details) = 1"
  by (simp add: audit_calls_def createAuditLog_one_call)

lemma createAuditLog_failure_logged:
  "length (filter is_error_log (snd (createAuditLog w action details))) =
     (if \<exists>r. audit_logs_insert w = Resolves r \<and> resp_error r = None then 0 else 1)"
  by (simp add: createAuditLog_def io_defs split: db_outcome.splits option.splits)

lemmas audit_facts = createAuditLog_returns createAuditLog_audit_calls

text \<open>The lookups and the guards return, call no audit helper and do not read the audit store.\<close>

lemma hasWorkspacePermission_returns:
  "fst (hasWorkspacePermission w u ws rs) \<noteq> Inl e"
  by (simp add: hasWorkspacePermission_def io_run Let_def del: append.simps split: option.splits)

lemma hasWorkspacePermission_no_audit:
  "audit_calls (hasWorkspacePermission w u ws rs) = 0"
  by (simp add: hasWorkspacePermission_def io_run Let_def del: append.simps split: option.splits)

lemma hasWorkspacePermission_audit_store:
  "hasWorkspacePermission (w\<lparr>audit_logs_insert := a\<rparr>) u ws rs = hasWorkspacePermission w u ws rs"
  by (simp add: hasWorkspacePermission_def)

lemma getSiteById_returns: "fst (getSiteById w i) \<noteq> Inl e"
  by (simp add: getSiteById_def io_run Let_def del: append.simps split: option.splits)

lemma getSiteById_no_audit: "audit_calls (getSiteById w i) = 0"
  by (simp add: getSiteById_def io_run Let_def del: append.simps split: option.splits)

lemma getSiteById_audit_store: "getSiteById (w\<lparr>audit_logs_insert := a\<rparr>) i = getSiteById w i"
  by (simp add: getSiteById_def)

lemmas lookup_facts = hasWorkspacePermission_returns hasWorkspacePermission_no_audit
  hasWorkspacePermission_audit_store getSiteById_returns getSiteById_no_audit getSiteById_audit_store

lemma getAuthenticatedUserAuthData_returns: "fst (getAuthenticatedUserAuthData w) \<noteq> Inl e"
  by (simp add: getAuthenticatedUserAuthData_def io_run del: append.simps split: option.splits)

lemma getAuthenticatedUserAuthData_no_audit: "audit_calls (getAuthenticatedUserAuthData w) = 0"
  by (simp add: getAuthenticatedUserAuthData_def io_run del: append.simps split: option.splits)

lemma getAuthenticatedUserAuthData_audit_store:
  "getAuthenticatedUserAuthData (w\<lparr>audit_logs_insert := a\<rparr>) = getAuthenticatedUserAuthData w"
  by (simp add: getAuthenticatedUserAuthData_def cong: option.case_cong)

lemmas session_facts = getAuthenticatedUserAuthData_returns getAuthenticatedUserAuthData_no_audit
  getAuthenticatedUserAuthData_audit_store

lemma requireAppRole_returns: "fst (requireAppRole w rs) \<noteq> Inl e"
  by (simp add: requireAppRole_def io_run session_facts del: append.simps
      split: option.splits sum.splits)

lemma requireAppRole_no_audit: "audit_calls (requireAppRole w rs) = 0"
  by (simp add: requireAppRole_def io_run session_facts del: append.simps
      split: option.splits sum.splits)

lemma requireAppRole_audit_store:
  "requireAppRole (w\<lparr>audit_logs_insert := a\<rparr>) rs = requireAppRole w rs"
  by (simp add: requireAppRole_def session_facts)

lemma requireWorkspacePermission_returns: "fst (requireWorkspacePermission w ws rs) \<noteq> Inl e"
  by (simp add: requireWorkspacePermission_def io_run session_facts lookup_facts del: append.simps
      split: option.splits sum.splits)

lemma requireWorkspacePermission_no_audit: "audit_calls (requireWorkspacePermission w ws rs) = 0"
  by (simp add: requireWorkspacePermission_def io_run session_facts lookup_facts del: append.simps
      split: option.splits sum.splits)

lemma requireWorkspacePermission_audit_store:
  "requireWorkspacePermission (w\<lparr>audit_logs_insert := a\<rparr>) ws rs = requireWorkspacePermission w ws rs"
  by (simp add: requireWorkspacePermission_def session_facts lookup_facts cong: option.case_cong)

lemma requireSitePermission_returns: "fst (requireSitePermission w i rs) \<noteq> Inl e"
  by (simp add: requireSitePermission_def io_run session_facts lookup_facts del: append.simps
      split: option.splits sum.splits)

lemma requireSitePermission_no_audit: "audit_calls (requireSitePermission w i rs) = 0"
  by (simp add: requireSitePermission_def io_run session_facts lookup_facts del: append.simps
      split: option.splits sum.splits)

lemma requireSitePermission_audit_store:
  "requireSitePermission (w\<lparr>audit_logs_insert := a\<rparr>) i rs = requireSitePermission w i rs"
  by (simp add: requireSitePermission_def session_facts lookup_facts cong: option.case_cong)

lemmas guard_facts = requireWorkspacePermission_returns requireWorkspacePermission_no_audit
  requireWorkspacePermission_audit_store requireSitePermission_returns
  requireSitePermission_no_audit requireSitePermission_audit_store
  requireAppRole_returns requireAppRole_no_audit requireAppRole_audit_store

text \<open>The data layer of the campaigns and of the invitations, the limiter and the mail.\<close>

lemma getCampaignContentById_returns: "fst (getCampaignContentById w pf c u) \<noteq> Inl e"
  by (simp add: getCampaignContentById_def io_run lookup_facts Let_def del: append.simps
      split: option.splits sum.splits)

lemma getCampaignContentById_no_audit: "audit_calls (getCampaignContentById w pf c u) = 0"
  by (simp add: getCampaignContentById_def io_run lookup_facts Let_def del: append.simps
      split: option.splits sum.splits)

lemma getCampaignContentById_audit_store:
  "getCampaignContentById (w\<lparr>audit_logs_insert := a\<rparr>) pf c u = getCampaignContentById w pf c u"
  by (simp add: getCampaignContentById_def lookup_facts Let_def cong: option.case_cong)

lemma createInvitation_no_audit: "audit_calls (createInvitation pf) = 0"
  by (simp add: createInvitation_def io_run del: append.simps split: option.splits db_outcome.splits)

lemma acceptInvitation_no_audit: "audit_calls (acceptInvitation pf) = 0"
  by (simp add: acceptInvitation_def io_run del: append.simps split: option.splits db_outcome.splits)

lemma checkRateLimit_returns:
  "fst (checkRateLimit ip action) = Inr \<lparr>rl_success = True, rl_error = None\<rparr>"
  by (simp add: checkRateLimit_def io_run del: append.simps split: option.splits)

lemma checkRateLimit_no_audit: "audit_calls (checkRateLimit ip action) = 0"
  by (simp add: checkRateLimit_def io_run del: append.simps split: option.splits)

lemma checkRateLimit_no_permission_check:
  "filter is_permission_check (snd (checkRateLimit ip action)) = []"
  by (simp add: checkRateLimit_def io_defs del: append.simps split: option.splits)

lemma sendPasswordResetEmail_returns: "fst (sendPasswordResetEmail email resetLink) = Inr ()"
  by (simp add: sendPasswordResetEmail_def io_run del: append.simps)

lemma sendPasswordResetEmail_no_audit: "audit_calls (sendPasswordResetEmail email resetLink) = 0"
  by (simp add: sendPasswordResetEmail_def io_run del: append.simps)

lemmas data_facts = getCampaignContentById_returns getCampaignContentById_no_audit
  getCampaignContentById_audit_store createInvitation_no_audit acceptInvitation_no_audit
  checkRateLimit_returns checkRateLimit_no_audit sendPasswordResetEmail_returns
  sendPasswordResetEmail_no_audit

lemmas action_facts = io_run audit_facts guard_facts lookup_facts data_facts

lemmas action_splits = option.splits sum.splits AuthResult.splits db_outcome.splits prod.splits

lemma auth_error_string_internal: "auth_error_string e \<in> set internal_codes"
  by (cases e) (simp_all add: internal_codes_def)

subsection \<open>The actions: what they surface, their audit calls, the audit store\<close>

text \<open>\<^verbatim>\<open>createSiteAction\<close>: what it surfaces, its audit calls, and the audit store.\<close>

lemma createSiteAction_surfaces:
  "surfaces (createSiteAction w formData) createSiteAction_messages"
  by (simp add: surfaces_def createSiteAction_messages_def createSiteAction_def action_facts del: append.simps split: action_splits)

lemma createSiteAction_audited:
  "length (filter is_audit_call (snd (createSiteAction w formData))) =
     (if is_success (fst (createSiteAction w formData)) then 1 else 0)"
  unfolding audit_calls_def [symmetric]
  by (simp add: createSiteAction_def action_facts del: append.simps split: action_splits)

lemma createSiteAction_audit_store:
  "fst (createSiteAction (w\<lparr>audit_logs_insert := a\<rparr>) formData) =
   fst (createSiteAction w formData)"
  by (simp add: createSiteAction_def action_facts del: append.simps split: action_splits)

text \<open>\<^verbatim>\<open>updateSiteAction\<close>: what it surfaces, its audit calls, and the audit store.\<close>

lemma updateSiteAction_surfaces:
  "surfaces (updateSiteAction w formData) (updateSiteAction_messages @ internal_codes)"
  by (simp add: surfaces_def updateSiteAction_messages_def auth_error_string_internal updateSiteAction_def action_facts del: append.simps split: action_splits)

lemma updateSiteAction_audited:
  "length (filter is_audit_call (snd (updateSiteAction w formData))) =
     (if is_success (fst (updateSiteAction w formData)) then 1 else 0)"
  unfolding audit_calls_def [symmetric]
  by (simp add: updateSiteAction_def action_facts del: append.simps split: action_splits)

lemma updateSiteAction_audit_store:
  "fst (updateSiteAction (w\<lparr>audit_logs_insert := a\<rparr>) formData) =
   fst (updateSiteAction w formData)"
  by (simp add: updateSiteAction_def action_facts del: append.simps split: action_splits)

text \<open>\<^verbatim>\<open>deleteSiteAction\<close>: what it surfaces, its audit calls, and the audit store.\<close>

lemma deleteSiteAction_surfaces:
  "surfaces (deleteSiteAction w formData) (deleteSiteAction_messages @ internal_codes)"
  by (simp add: surfaces_def deleteSiteAction_messages_def auth_error_string_internal deleteSiteAction_def action_facts del: append.simps split: action_splits)

lemma deleteSiteAction_audited:
  "length (filter is_audit_call (snd (deleteSiteAction w formData))) =
     (if is_success (fst (deleteSiteAction w formData)) then 1 else 0)"
  unfolding audit_calls_def [symmetric]
  by (simp add: deleteSiteAction_def action_facts del: append.simps split: action_splits)

lemma deleteSiteAction_audit_store:
  "fst (deleteSiteAction (w\<lparr>audit_logs_insert := a\<rparr>) formData) =
   fst (deleteSiteAction w formData)"
  by (simp add: deleteSiteAction_def action_facts del: append.simps split: action_splits)

text \<open>\<^verbatim>\<open>createCampaignAction\<close>: what it surfaces, its audit calls, and the audit store.\<close>

lemma createCampaignAction_surfaces:
  "surfaces (createCampaignAction w formData) createCampaignAction_messages"
  by (simp add: surfaces_def createCampaignAction_messages_def createCampaignAction_def getAuthenticatedUser_def action_facts del: append.simps split: action_splits)

lemma createCampaignAction_audited:
  "length (filter is_audit_call (snd (createCampaignAction w formData))) =
     (if is_success (fst (createCampaignAction w formData)) then 1 else 0)"
  unfolding audit_calls_def [symmetric]
  by (simp add: createCampaignAction_def getAuthenticatedUser_def action_facts del: append.simps split: action_splits)

lemma createCampaignAction_audit_store:
  "fst (createCampaignAction (w\<lparr>audit_logs_insert := a\<rparr>) formData) =
   fst (createCampaignAction w formData)"
  by (simp add: createCampaignAction_def getAuthenticatedUser_def action_facts del: append.simps split: action_splits)

text \<open>\<^verbatim>\<open>deleteCampaignAction\<close>: what it surfaces, its audit calls, and the audit store.\<close>

lemma deleteCampaignAction_surfaces:
  "surfaces (deleteCampaignAction w formData) deleteCampaignAction_messages"
  by (simp add: surfaces_def deleteCampaignAction_messages_def deleteCampaignAction_def getAuthenticatedUser_def Let_def action_facts del: append.simps split: action_splits)

lemma deleteCampaignAction_audited:
  "length (filter is_audit_call (snd (deleteCampaignAction w formData))) =
     (if is_success (fst (deleteCampaignAction w formData)) then 1 else 0)"
  unfolding audit_calls_def [symmetric]
  by (simp add: deleteCampaignAction_def getAuthenticatedUser_def Let_def action_facts del: append.simps split: action_splits)

lemma deleteCampaignAction_audit_store:
  "fst (deleteCampaignAction (w\<lparr>audit_logs_insert := a\<rparr>) formData) =
   fst (deleteCampaignAction w formData)"
  by (simp add: deleteCampaignAction_def getAuthenticatedUser_def Let_def action_facts del: append.simps split: action_splits)

text \<open>\<^verbatim>\<open>updateCampaignContentAction\<close>: what it surfaces, its audit calls, and the audit store.\<close>

lemma updateCampaignContentAction_surfaces:
  "surfaces_or_ends (updateCampaignContentAction w pf campaignId content) updateCampaignContentAction_messages [ThrownError]"
  by (simp add: surfaces_or_ends_def updateCampaignContentAction_messages_def updateCampaignContentAction_def action_facts del: append.simps split: action_splits)

lemma updateCampaignContentAction_audited:
  "length (filter is_audit_call (snd (updateCampaignContentAction w pf campaignId content))) =
     (if is_success (fst (updateCampaignContentAction w pf campaignId content)) then 1 else 0)"
  unfolding audit_calls_def [symmetric]
  by (simp add: updateCampaignContentAction_def action_facts del: append.simps split: action_splits)

lemma updateCampaignContentAction_audit_store:
  "fst (updateCampaignContentAction (w\<lparr>audit_logs_insert := a\<rparr>) pf campaignId content) =
   fst (updateCampaignContentAction w pf campaignId content)"
  by (simp add: updateCampaignContentAction_def action_facts del: append.simps split: action_splits)

text \<open>\<^verbatim>\<open>impersonateUserAction\<close>: what it surfaces, its audit calls, and the audit store.\<close>

lemma impersonateUserAction_surfaces:
  "surfaces_or_ends (impersonateUserAction w pf userId) (impersonateUserAction_messages @ internal_codes) [TypeError]"
  by (simp add: surfaces_or_ends_def impersonateUserAction_messages_def auth_error_string_internal impersonateUserAction_def Let_def action_facts del: append.simps split: action_splits)

lemma impersonateUserAction_audited:
  "is_success (fst (impersonateUserAction w pf userId)) \<longrightarrow> length (filter is_audit_call (snd (impersonateUserAction w pf userId))) = 1"
  unfolding audit_calls_def [symmetric]
  by (simp add: impersonateUserAction_def Let_def action_facts del: append.simps split: action_splits)

lemma impersonateUserAction_audit_store:
  "fst (impersonateUserAction (w\<lparr>audit_logs_insert := a\<rparr>) pf userId) =
   fst (impersonateUserAction w pf userId)"
  by (simp add: impersonateUserAction_def Let_def action_facts del: append.simps split: action_splits)

text \<open>\<^verbatim>\<open>deleteSiteAsAdminAction\<close>: what it surfaces, its audit calls, and the audit store.\<close>

lemma deleteSiteAsAdminAction_surfaces:
  "surfaces_or_ends (deleteSiteAsAdminAction w pf formData) (deleteSiteAsAdminAction_messages @ internal_codes) [ThrownError]"
  by (simp add: surfaces_or_ends_def deleteSiteAsAdminAction_messages_def auth_error_string_internal deleteSiteAsAdminAction_def action_facts del: append.simps split: action_splits)

lemma deleteSiteAsAdminAction_audited:
  "length (filter is_audit_call (snd (deleteSiteAsAdminAction w pf formData))) =
     (if is_success (fst (deleteSiteAsAdminAction w pf formData)) then 1 else 0)"
  unfolding audit_calls_def [symmetric]
  by (simp add: deleteSiteAsAdminAction_def action_facts del: append.simps split: action_splits)

lemma deleteSiteAsAdminAction_audit_store:
  "fst (deleteSiteAsAdminAction (w\<lparr>audit_logs_insert := a\<rparr>) pf formData) =
   fst (deleteSiteAsAdminAction w pf formData)"
  by (simp add: deleteSiteAsAdminAction_def action_facts del: append.simps split: action_splits)

text \<open>\<^verbatim>\<open>updateUserRoleAction\<close>: what it surfaces, its audit calls, and the audit store.\<close>

lemma updateUserRoleAction_surfaces:
  "surfaces_or_ends (updateUserRoleAction w pf userId newRole) (updateUserRoleAction_messages @ internal_codes) [ThrownError]"
  by (simp add: surfaces_or_ends_def updateUserRoleAction_messages_def auth_error_string_internal updateUserRoleAction_def action_facts del: append.simps split: action_splits)

lemma updateUserRoleAction_audited:
  "length (filter is_audit_call (snd (updateUserRoleAction w pf userId newRole))) =
     (if is_success (fst (updateUserRoleAction w pf userId newRole)) then 1 else 0)"
  unfolding audit_calls_def [symmetric]
  by (simp add: updateUserRoleAction_def action_facts del: append.simps split: action_splits)

lemma updateUserRoleAction_audit_store:
  "fst (updateUserRoleAction (w\<lparr>audit_logs_insert := a\<rparr>) pf userId newRole) =
   fst (updateUserRoleAction w pf userId newRole)"
  by (simp add: updateUserRoleAction_def action_facts del: append.simps split: action_splits)

text \<open>\<^verbatim>\<open>sendWorkspaceInvitationAction\<close>: what it surfaces, its audit calls, and the audit store.\<close>

lemma sendWorkspaceInvitationAction_surfaces:
  "surfaces (sendWorkspaceInvitationAction w pf invitation) (sendWorkspaceInvitationAction_messages @ internal_codes)"
  by (simp add: surfaces_def sendWorkspaceInvitationAction_messages_def auth_error_string_internal sendWorkspaceInvitationAction_def action_facts del: append.simps split: action_splits)

lemma sendWorkspaceInvitationAction_audited:
  "length (filter is_audit_call (snd (sendWorkspaceInvitationAction w pf invitation))) =
     (if is_success (fst (sendWorkspaceInvitationAction w pf invitation)) then 1 else 0)"
  unfolding audit_calls_def [symmetric]
  by (simp add: sendWorkspaceInvitationAction_def action_facts del: append.simps split: action_splits)

lemma sendWorkspaceInvitationAction_audit_store:
  "fst (sendWorkspaceInvitationAction (w\<lparr>audit_logs_insert := a\<rparr>) pf invitation) =
   fst (sendWorkspaceInvitationAction w pf invitation)"
  by (simp add: sendWorkspaceInvitationAction_def action_facts del: append.simps split: action_splits)

text \<open>\<^verbatim>\<open>acceptInvitationAction\<close>: what it surfaces, its audit calls, and the audit store.\<close>

lemma acceptInvitationAction_surfaces:
  "surfaces_or_ends (acceptInvitationAction w pf invitationId) (acceptInvitationAction_messages @ rpc_error_given pf) [ThrownError]"
  by (simp add: surfaces_or_ends_def acceptInvitationAction_messages_def acceptInvitation_def or_else_def truthy_def rpc_error_given_def given_string_def acceptInvitationAction_def action_facts del: append.simps split: action_splits)

lemma acceptInvitationAction_audited:
  "length (filter is_audit_call (snd (acceptInvitationAction w pf invitationId))) =
     (if is_success (fst (acceptInvitationAction w pf invitationId)) then 1 else 0)"
  unfolding audit_calls_def [symmetric]
  by (simp add: acceptInvitationAction_def action_facts del: append.simps split: action_splits)

lemma acceptInvitationAction_audit_store:
  "fst (acceptInvitationAction (w\<lparr>audit_logs_insert := a\<rparr>) pf invitationId) =
   fst (acceptInvitationAction w pf invitationId)"
  by (simp add: acceptInvitationAction_def action_facts del: append.simps split: action_splits)

text \<open>\<^verbatim>\<open>createWorkspaceAction\<close>: what it surfaces, its audit calls, and the audit store.\<close>

lemma createWorkspaceAction_surfaces:
  "surfaces (createWorkspaceAction w pf workspace)
     (createWorkspaceAction_messages @ (case workspace of Inl message \<Rightarrow> given_string message | Inr parsedData \<Rightarrow> []))"
  by (simp add: surfaces_def createWorkspaceAction_messages_def or_else_def truthy_def given_string_def createWorkspaceAction_def action_facts del: append.simps split: action_splits)

lemma createWorkspaceAction_audited:
  "length (filter is_audit_call (snd (createWorkspaceAction w pf workspace))) =
     (if is_success (fst (createWorkspaceAction w pf workspace)) then 1 else 0)"
  unfolding audit_calls_def [symmetric]
  by (simp add: createWorkspaceAction_def action_facts del: append.simps split: action_splits)

lemma createWorkspaceAction_audit_store:
  "fst (createWorkspaceAction (w\<lparr>audit_logs_insert := a\<rparr>) pf workspace) =
   fst (createWorkspaceAction w pf workspace)"
  by (simp add: createWorkspaceAction_def action_facts del: append.simps split: action_splits)

text \<open>\<^verbatim>\<open>updateDashboardLayoutAction\<close>: what it surfaces, its audit calls, and the audit store.\<close>

lemma updateDashboardLayoutAction_surfaces:
  "surfaces_or_ends (updateDashboardLayoutAction w moduleIds) updateDashboardLayoutAction_messages [ThrownError]"
  by (simp add: surfaces_or_ends_def updateDashboardLayoutAction_messages_def updateDashboardLayoutAction_def action_facts del: append.simps split: action_splits)

lemma updateDashboardLayoutAction_audited:
  "length (filter is_audit_call (snd (updateDashboardLayoutAction w moduleIds))) =
     0"
  unfolding audit_calls_def [symmetric]
  by (simp add: updateDashboardLayoutAction_def action_facts del: append.simps split: action_splits)

text \<open>\<^verbatim>\<open>signUpAction\<close>: what it surfaces, its audit calls, and the audit store.\<close>

lemma signUpAction_surfaces:
  "surfaces (signUpAction w pf credentials) signUpAction_messages"
  by (simp add: surfaces_def signUpAction_messages_def signUpAction_def action_facts del: append.simps split: action_splits)

lemma signUpAction_audited:
  "length (filter is_audit_call (snd (signUpAction w pf credentials))) =
     (if credentials \<noteq> None \<and> auth_signUp pf = None then 1 else 0)"
  unfolding audit_calls_def [symmetric]
  by (simp add: signUpAction_def action_facts del: append.simps split: action_splits)

lemma signUpAction_audit_store:
  "fst (signUpAction (w\<lparr>audit_logs_insert := a\<rparr>) pf credentials) =
   fst (signUpAction w pf credentials)"
  by (simp add: signUpAction_def action_facts del: append.simps split: action_splits)

text \<open>\<^verbatim>\<open>signInWithPasswordAction\<close>: what it surfaces, its audit calls, and the audit store.\<close>

lemma signInWithPasswordAction_surfaces:
  "surfaces_or_ends (signInWithPasswordAction w pf credentials) signInWithPasswordAction_messages [NEXT_REDIRECT ''/dashboard'']"
  by (simp add: surfaces_or_ends_def signInWithPasswordAction_messages_def signInWithPasswordAction_def action_facts del: append.simps split: action_splits)

lemma signInWithPasswordAction_audited:
  "length (filter is_audit_call (snd (signInWithPasswordAction w pf credentials))) =
     (if credentials \<noteq> None \<and> auth_signInWithPassword pf \<noteq> None then 1 else 0)"
  unfolding audit_calls_def [symmetric]
  by (simp add: signInWithPasswordAction_def action_facts del: append.simps split: action_splits)

lemma signInWithPasswordAction_audit_store:
  "fst (signInWithPasswordAction (w\<lparr>audit_logs_insert := a\<rparr>) pf credentials) =
   fst (signInWithPasswordAction w pf credentials)"
  by (simp add: signInWithPasswordAction_def action_facts del: append.simps split: action_splits)

text \<open>\<^verbatim>\<open>logClientVisitAction\<close>: what it surfaces, its audit calls, and the audit store.\<close>

lemma logClientVisitAction_surfaces:
  "surfaces (logClientVisitAction w pf visit) logClientVisitAction_messages"
  by (simp add: surfaces_def logClientVisitAction_messages_def logClientVisitAction_def action_facts del: append.simps split: action_splits)

lemma logClientVisitAction_audited:
  "length (filter is_audit_call (snd (logClientVisitAction w pf visit))) =
     0"
  unfolding audit_calls_def [symmetric]
  by (simp add: logClientVisitAction_def action_facts del: append.simps split: action_splits)

text \<open>\<^verbatim>\<open>requestPasswordResetAction\<close>: what it surfaces, its audit calls, and the audit store.\<close>

lemma requestPasswordResetAction_surfaces:
  "state_surfaces (requestPasswordResetAction w pf email) reset_error requestPasswordResetAction_messages
     [NEXT_REDIRECT ''/auth-notice?message=check-email-for-reset'', TypeError]"
  by (simp add: state_surfaces_def requestPasswordResetAction_messages_def or_else_def truthy_def requestPasswordResetAction_def Let_def action_facts del: append.simps split: action_splits)

lemma requestPasswordResetAction_audited:
  "length (filter is_audit_call (snd (requestPasswordResetAction w pf email))) =
     (if is_redirect (fst (requestPasswordResetAction w pf email)) then 1 else 0)"
  unfolding audit_calls_def [symmetric]
  by (simp add: requestPasswordResetAction_def Let_def action_facts del: append.simps split: action_splits)

lemma requestPasswordResetAction_audit_store:
  "fst (requestPasswordResetAction (w\<lparr>audit_logs_insert := a\<rparr>) pf email) =
   fst (requestPasswordResetAction w pf email)"
  by (simp add: requestPasswordResetAction_def Let_def action_facts del: append.simps split: action_splits)

text \<open>\<^verbatim>\<open>updatePasswordAction\<close>: what it surfaces, its audit calls, and the audit store.\<close>

lemma updatePasswordAction_surfaces:
  "state_surfaces (updatePasswordAction w pf passwords) upd_error
     (updatePasswordAction_messages
      @ (case passwords of Inl (passwordError, confirmPasswordError) \<Rightarrow> given_string passwordError @ given_string confirmPasswordError
         | Inr password \<Rightarrow> []))
     []"
  by (simp add: state_surfaces_def updatePasswordAction_messages_def or_else_def truthy_def given_string_def updatePasswordAction_def action_facts del: append.simps split: action_splits)

lemma updatePasswordAction_audited:
  "length (filter is_audit_call (snd (updatePasswordAction w pf passwords))) =
     (if fst (updatePasswordAction w pf passwords) = Inr \<lparr>upd_error = None, upd_success = True\<rparr> then 1 else 0)"
  unfolding audit_calls_def [symmetric]
  by (simp add: updatePasswordAction_def action_facts del: append.simps split: action_splits)

lemma updatePasswordAction_audit_store:
  "fst (updatePasswordAction (w\<lparr>audit_logs_insert := a\<rparr>) pf passwords) =
   fst (updatePasswordAction w pf passwords)"
  by (simp add: updatePasswordAction_def action_facts del: append.simps split: action_splits)

text \<open>\<^verbatim>\<open>signOutAction\<close>: what it surfaces, its audit calls, and the audit store.\<close>

lemma signOutAction_surfaces:
  "fst (signOutAction w pf) = Inl (NEXT_REDIRECT ''/'')"
  by (simp add: signOutAction_def action_facts del: append.simps split: action_splits)

lemma signOutAction_audited:
  "length (filter is_audit_call (snd (signOutAction w pf))) =
     (case auth_getSession pf of None \<Rightarrow> 0 | Some sessionUser \<Rightarrow> 1)"
  unfolding audit_calls_def [symmetric]
  by (simp add: signOutAction_def action_facts del: append.simps split: action_splits)

lemma signOutAction_audit_store:
  "fst (signOutAction (w\<lparr>audit_logs_insert := a\<rparr>) pf) =
   fst (signOutAction w pf)"
  by (simp add: signOutAction_def action_facts del: append.simps split: action_splits)

text \<open>\<^verbatim>\<open>setActiveWorkspaceAction\<close>: what it surfaces, its audit calls, and the audit store.\<close>

lemma setActiveWorkspaceAction_surfaces:
  "fst (setActiveWorkspaceAction workspaceId) = Inl (NEXT_REDIRECT ''/dashboard'')"
  by (simp add: setActiveWorkspaceAction_def action_facts del: append.simps split: action_splits)

lemma setActiveWorkspaceAction_audited:
  "length (filter is_audit_call (snd (setActiveWorkspaceAction workspaceId))) =
     0"
  unfolding audit_calls_def [symmetric]
  by (simp add: setActiveWorkspaceAction_def action_facts del: append.simps split: action_splits)

subsection \<open>The actions: denials, rejected input, missing session\<close>

text \<open>
  Authorization failures. \<^verbatim>\<open>createSiteAction\<close>, the campaign actions and the builder's save
  answer a denial with a message of their own.
\<close>

lemma createSiteAction_denied:
  "CreateSiteServerSchema w formData = Some parsedData
   \<and> fst (requireWorkspacePermission w (cs_workspace_id parsedData) [Owner, Admin]) = Inr (AuthFailure error)
   \<longrightarrow> fst (createSiteAction w formData) =
         Inr (ActionFailure ''No tienes permiso para crear sitios en este workspace.'')"
  by (simp add: createSiteAction_def action_facts del: append.simps)

lemma createCampaignAction_denied:
  "auth_getUser w = Some usr
   \<and> CreateCampaignSchema w formData = Some campaignData
   \<and> fst (getSiteById w (cc_site_id campaignData)) = Inr (Some site)
   \<and> fst (hasWorkspacePermission w (user_id usr) (sbi_workspace_id site) [Owner, Admin, Member]) = Inr False
   \<longrightarrow> fst (createCampaignAction w formData) =
         Inr (ActionFailure (''No tienes permiso para crear campa'' @ n_tilde @ ''as en este sitio.''))"
  by (simp add: createCampaignAction_def getAuthenticatedUser_def action_facts del: append.simps)

lemma deleteCampaignAction_denied:
  "auth_getUser w = Some usr
   \<and> DeleteCampaignSchema w (form_get formData ''campaignId'') = Some campaignId
   \<and> resp_error (campaigns_single w campaignId) = None
   \<and> resp_data (campaigns_single w campaignId) = Some campaign
   \<and> cmp_sites_workspace_id campaign = Some campaignWorkspaceId
   \<and> campaignWorkspaceId \<noteq> []
   \<and> fst (hasWorkspacePermission w (user_id usr) campaignWorkspaceId [Owner, Admin, Member]) = Inr False
   \<longrightarrow> fst (deleteCampaignAction w formData) =
         Inr (ActionFailure (''No tienes permiso para eliminar esta campa'' @ n_tilde @ ''a.''))"
  by (simp add: deleteCampaignAction_def getAuthenticatedUser_def Let_def action_facts del: append.simps)

lemma updateCampaignContentAction_denied:
  "auth_getUser w = Some usr
   \<and> fst (getCampaignContentById w pf campaignId (user_id usr)) = Inr None
   \<longrightarrow> fst (updateCampaignContentAction w pf campaignId content) =
         Inr (ActionFailure (''Acceso denegado. No tienes permiso para editar esta campa'' @ n_tilde @ ''a.''))"
  by (simp add: updateCampaignContentAction_def action_facts del: append.simps)

text \<open>The six actions that hand the guard's code on.\<close>

lemma updateSiteAction_passes_code:
  "UpdateSiteSchema w formData = Some siteData
   \<and> fst (requireSitePermission w (us_site_id siteData) [Owner, Admin]) = Inr (AuthFailure error)
   \<longrightarrow> fst (updateSiteAction w formData) = Inr (ActionFailure (auth_error_string error))"
  by (simp add: updateSiteAction_def action_facts del: append.simps)

lemma deleteSiteAction_passes_code:
  "DeleteSiteSchema w (form_get formData ''siteId'') = Some siteId
   \<and> fst (requireSitePermission w siteId [Owner]) = Inr (AuthFailure error)
   \<longrightarrow> fst (deleteSiteAction w formData) = Inr (ActionFailure (auth_error_string error))"
  by (simp add: deleteSiteAction_def action_facts del: append.simps)

lemma sendWorkspaceInvitationAction_passes_code:
  "auth_getUser w = Some usr
   \<and> user_email usr \<noteq> Some (inv_invitee_email invitationData)
   \<and> fst (requireWorkspacePermission w (inv_workspace_id invitationData) [Owner, Admin]) = Inr (AuthFailure error)
   \<longrightarrow> fst (sendWorkspaceInvitationAction w pf (Some invitationData)) =
         Inr (ActionFailure (auth_error_string error))"
  by (simp add: sendWorkspaceInvitationAction_def action_facts del: append.simps)

lemma impersonateUserAction_passes_code:
  "fst (requireAppRole w [AppDeveloper]) = Inr (AuthFailure error)
   \<longrightarrow> fst (impersonateUserAction w pf userId) = Inr (ActionFailure (auth_error_string error))"
  by (simp add: impersonateUserAction_def action_facts del: append.simps)

lemma deleteSiteAsAdminAction_passes_code:
  "fst (requireAppRole w [AppAdmin, AppDeveloper]) = Inr (AuthFailure error)
   \<longrightarrow> fst (deleteSiteAsAdminAction w pf formData) = Inr (ActionFailure (auth_error_string error))"
  by (simp add: deleteSiteAsAdminAction_def action_facts del: append.simps)

lemma updateUserRoleAction_passes_code:
  "fst (requireAppRole w [AppDeveloper]) = Inr (AuthFailure error)
   \<longrightarrow> fst (updateUserRoleAction w pf userId newRole) = Inr (ActionFailure (auth_error_string error))"
  by (simp add: updateUserRoleAction_def action_facts del: append.simps)

text \<open>Forms the schema rejects, and requests without a session.\<close>

lemma createSiteAction_malformed:
  "CreateSiteServerSchema w formData = None \<longrightarrow>
     createSiteAction w formData = (Inr (ActionFailure form_data_invalid), [])"
  by (simp add: createSiteAction_def io_defs)

lemma updateSiteAction_malformed:
  "UpdateSiteSchema w formData = None \<longrightarrow>
     updateSiteAction w formData = (Inr (ActionFailure form_data_invalid), [])"
  by (simp add: updateSiteAction_def io_defs)

lemma deleteSiteAction_malformed:
  "DeleteSiteSchema w (form_get formData ''siteId'') = None \<longrightarrow>
     deleteSiteAction w formData = (Inr (ActionFailure site_id_invalid), [])"
  by (simp add: deleteSiteAction_def io_defs)

lemma createCampaignAction_malformed:
  "CreateCampaignSchema w formData = None \<longrightarrow>
     createCampaignAction w formData =
       (Inr (ActionFailure (if auth_getUser w = None then not_authenticated else campaign_data_invalid)), [])"
  by (simp add: createCampaignAction_def getAuthenticatedUser_def io_defs split: option.splits)

lemma deleteCampaignAction_malformed:
  "DeleteCampaignSchema w (form_get formData ''campaignId'') = None \<longrightarrow>
     deleteCampaignAction w formData =
       (Inr (ActionFailure (if auth_getUser w = None then not_authenticated else campaign_id_invalid)), [])"
  by (simp add: deleteCampaignAction_def getAuthenticatedUser_def io_defs split: option.splits)

lemma createCampaignAction_unauthenticated:
  "auth_getUser w = None \<longrightarrow>
     createCampaignAction w formData = (Inr (ActionFailure not_authenticated), [])"
  by (simp add: createCampaignAction_def getAuthenticatedUser_def io_defs)

lemma deleteCampaignAction_unauthenticated:
  "auth_getUser w = None \<longrightarrow>
     deleteCampaignAction w formData = (Inr (ActionFailure not_authenticated), [])"
  by (simp add: deleteCampaignAction_def getAuthenticatedUser_def io_defs)

lemma sendWorkspaceInvitationAction_unauthenticated:
  "auth_getUser w = None \<longrightarrow>
     sendWorkspaceInvitationAction w pf invitation =
       (Inr (ActionFailure ''No autenticado.''),
        [Logged WARN (''[InvitationsAction] Intento no autorizado para enviar invitaci'' @ o_acute @ ''n.'')])"
  by (simp add: sendWorkspaceInvitationAction_def io_defs del: append.simps)

lemma sendWorkspaceInvitationAction_malformed:
  "auth_getUser w \<noteq> None \<longrightarrow>
     sendWorkspaceInvitationAction w pf None =
       (Inr (ActionFailure (''Datos de invitaci'' @ o_acute @ ''n inv'' @ a_acute @ ''lidos.'')), [])"
  by (auto simp add: sendWorkspaceInvitationAction_def io_defs simp del: append.simps)

lemma createWorkspaceAction_unauthenticated:
  "auth_getUser w = None \<longrightarrow>
     createWorkspaceAction w pf workspace =
       (Inr (ActionFailure (''No autenticado. Inicia sesi'' @ o_acute @ ''n de nuevo.'')),
        [Logged WARN ''[WorkspacesAction] Intento no autorizado para crear workspace.''])"
  by (simp add: createWorkspaceAction_def io_defs del: append.simps)

lemma createWorkspaceAction_malformed:
  "auth_getUser w = Some usr \<longrightarrow>
     createWorkspaceAction w pf (Inl message) =
       (Inr (ActionFailure (or_else message (''Datos inv'' @ a_acute @ ''lidos.''))),
        [Logged WARN (''[WorkspacesAction] Datos inv'' @ a_acute @ ''lidos para la creaci'' @ o_acute @ ''n de workspace por el usuario '' @ (user_id usr) @ ''.'')])"
  by (simp add: createWorkspaceAction_def io_defs del: append.simps)

lemma signUpAction_malformed:
  "signUpAction w pf None =
     (Inr (ActionFailure (''Datos de registro inv'' @ a_acute @ ''lidos.'')),
      [Logged WARN (''[AuthActions] Datos de registro inv'' @ a_acute @ ''lidos.'')])"
  by (simp add: signUpAction_def io_defs del: append.simps)

lemma signInWithPasswordAction_malformed:
  "signInWithPasswordAction w pf None =
     (Inr (ActionFailure (''Datos de inicio de sesi'' @ o_acute @ ''n inv'' @ a_acute @ ''lidos.'')),
      snd (checkRateLimit (x_forwarded_for pf) ''login'')
      @ [Logged WARN (''[AuthActions] Datos de inicio de sesi'' @ o_acute @ ''n inv'' @ a_acute @ ''lidos.'')])"
  by (simp add: signInWithPasswordAction_def checkRateLimit_def io_defs del: append.simps
      split: option.splits)

lemma requestPasswordResetAction_malformed:
  "requestPasswordResetAction w pf None =
     (Inr \<lparr>reset_error = Some (''Por favor, introduce un email v'' @ a_acute @ ''lido.'')\<rparr>,
      snd (checkRateLimit
             (Some (case x_forwarded_for pf of None \<Rightarrow> ''127.0.0.1'' | Some address \<Rightarrow> address))
             ''password_reset''))"
  by (simp add: requestPasswordResetAction_def checkRateLimit_def io_defs Let_def del: append.simps
      split: option.splits)

lemma updatePasswordAction_malformed:
  "updatePasswordAction w pf (Inl (passwordError, confirmPasswordError)) =
     (Inr \<lparr>upd_error = Some (or_else passwordError (or_else confirmPasswordError (''Datos inv'' @ a_acute @ ''lidos.''))),
           upd_success = False\<rparr>, [])"
  by (simp add: updatePasswordAction_def io_defs del: append.simps)

lemma logClientVisitAction_malformed:
  "logClientVisitAction w pf None =
     (Inr (ActionFailure (''Datos de cliente inv'' @ a_acute @ ''lidos.'')),
      [Logged TRACE ''[TelemetryAction] Iniciando log de visita de cliente.'',
       Logged WARN (''[TelemetryAction] Datos de visita de cliente inv'' @ a_acute @ ''lidos:'')])"
  by (simp add: logClientVisitAction_def io_defs del: append.simps)

subsection \<open>Malformed input\<close>

text \<open>
  C7, as the specification states it, fails in two ways. Where the session is resolved before
  the form is parsed, a malformed form without a session is answered with the
  not-authenticated message: \<^verbatim>\<open>createCampaignAction\<close> answers the empty form, which its schema
  rejects, with \<^verbatim>\<open>Usuario no autenticado.\<close> and not with its invalid-data message. And the
  answer to a malformed form is not always generic: \<^verbatim>\<open>createWorkspaceAction\<close> answers a
  workspace name of two letters, which its schema rejects, with the schema's message for
  that field.
\<close>

theorem createCampaignAction_malformed_unauthenticated:
  "CreateCampaignSchema ((sample_world Owner)\<lparr>auth_getUser := None\<rparr>) [] = None
   \<and> createCampaignAction ((sample_world Owner)\<lparr>auth_getUser := None\<rparr>) [] =
       (Inr (ActionFailure ''Usuario no autenticado.''), [])
   \<and> ''Usuario no autenticado.'' \<noteq> campaign_data_invalid
   \<and> validate_CreateWorkspaceSchema [(''workspaceName'', ''ab''), (''icon'', ''star'')] =
       Inl (Some ''El nombre debe tener al menos 3 caracteres.'')
   \<and> fst (createWorkspaceAction (sample_world Owner) sample_platform
             (validate_CreateWorkspaceSchema [(''workspaceName'', ''ab''), (''icon'', ''star'')])) =
       Inr (ActionFailure ''El nombre debe tener al menos 3 caracteres.'')
   \<and> ''El nombre debe tener al menos 3 caracteres.'' \<noteq> (''Datos inv'' @ a_acute @ ''lidos.'')"
  by code_simp

text \<open>
  C7, amended. Every action that parses its input with a schema answers an input the
  schema rejects without any permission lookup: the trace of the answer holds no call of
  \<^verbatim>\<open>hasWorkspacePermission\<close>, and for the site and campaign actions no event at all.

  The three site actions, the sign-up, the sign-in, the password-reset request and the
  telemetry action answer with their fixed invalid-data message; the sign-in and the
  password-reset request after the rate limiter, which looks up no permission.

  \<^verbatim>\<open>createCampaignAction\<close>, \<^verbatim>\<open>deleteCampaignAction\<close>, \<^verbatim>\<open>sendWorkspaceInvitationAction\<close> and
  \<^verbatim>\<open>createWorkspaceAction\<close> resolve the session first: without a session they answer with
  their not-authenticated message whatever the input, and with a session they answer a
  rejected input with their invalid-data message.

  \<^verbatim>\<open>createWorkspaceAction\<close> and \<^verbatim>\<open>updatePasswordAction\<close> answer a rejected input with the
  schema's message for the field, when there is one, and with their generic message
  otherwise.
\<close>

theorem malformed_input_short_circuits:
  "(CreateSiteServerSchema w formData = None \<longrightarrow>
        createSiteAction w formData = (Inr (ActionFailure form_data_invalid), []))
   \<and> (UpdateSiteSchema w formData = None \<longrightarrow>
        updateSiteAction w formData = (Inr (ActionFailure form_data_invalid), []))
   \<and> (DeleteSiteSchema w (form_get formData ''siteId'') = None \<longrightarrow>
        deleteSiteAction w formData = (Inr (ActionFailure site_id_invalid), []))
   \<and> (CreateCampaignSchema w formData = None \<longrightarrow>
        createCampaignAction w formData =
          (Inr (ActionFailure (if auth_getUser w = None then not_authenticated else campaign_data_invalid)), []))
   \<and> (DeleteCampaignSchema w (form_get formData ''campaignId'') = None \<longrightarrow>
        deleteCampaignAction w formData =
          (Inr (ActionFailure (if auth_getUser w = None then not_authenticated else campaign_id_invalid)), []))
   \<and> (auth_getUser w = None \<longrightarrow>
        createCampaignAction w formData = (Inr (ActionFailure not_authenticated), []))
   \<and> (auth_getUser w = None \<longrightarrow>
        deleteCampaignAction w formData = (Inr (ActionFailure not_authenticated), []))
   \<and> (auth_getUser w = None \<longrightarrow>
        sendWorkspaceInvitationAction w pf invitation =
          (Inr (ActionFailure ''No autenticado.''),
           [Logged WARN (''[InvitationsAction] Intento no autorizado para enviar invitaci'' @ o_acute @ ''n.'')]))
   \<and> (auth_getUser w \<noteq> None \<longrightarrow>
        sendWorkspaceInvitationAction w pf None =
          (Inr (ActionFailure (''Datos de invitaci'' @ o_acute @ ''n inv'' @ a_acute @ ''lidos.'')), []))
   \<and> (auth_getUser w = None \<longrightarrow>
        createWorkspaceAction w pf workspace =
          (Inr (ActionFailure (''No autenticado. Inicia sesi'' @ o_acute @ ''n de nuevo.'')),
           [Logged WARN ''[WorkspacesAction] Intento no autorizado para crear workspace.'']))
   \<and> (auth_getUser w = Some usr \<longrightarrow>
        createWorkspaceAction w pf (Inl message) =
          (Inr (ActionFailure (or_else message (''Datos inv'' @ a_acute @ ''lidos.''))),
           [Logged WARN (''[WorkspacesAction] Datos inv'' @ a_acute @ ''lidos para la creaci'' @ o_acute @ ''n de workspace por el usuario '' @ (user_id usr) @ ''.'')]))
   \<and> (signUpAction w pf None =
        (Inr (ActionFailure (''Datos de registro inv'' @ a_acute @ ''lidos.'')),
         [Logged WARN (''[AuthActions] Datos de registro inv'' @ a_acute @ ''lidos.'')]))
   \<and> (signInWithPasswordAction w pf None =
        (Inr (ActionFailure (''Datos de inicio de sesi'' @ o_acute @ ''n inv'' @ a_acute @ ''lidos.'')),
         snd (checkRateLimit (x_forwarded_for pf) ''login'')
         @ [Logged WARN (''[AuthActions] Datos de inicio de sesi'' @ o_acute @ ''n inv'' @ a_acute @ ''lidos.'')]))
   \<and> (requestPasswordResetAction w pf None =
        (Inr \<lparr>reset_error = Some (''Por favor, introduce un email v'' @ a_acute @ ''lido.'')\<rparr>,
         snd (checkRateLimit
                (Some (case x_forwarded_for pf of None \<Rightarrow> ''127.0.0.1'' | Some address \<Rightarrow> address))
                ''password_reset'')))
   \<and> (updatePasswordAction w pf (Inl (passwordError, confirmPasswordError)) =
        (Inr \<lparr>upd_error = Some (or_else passwordError (or_else confirmPasswordError (''Datos inv'' @ a_acute @ ''lidos.''))),
              upd_success = False\<rparr>, []))
   \<and> (logClientVisitAction w pf None =
        (Inr (ActionFailure (''Datos de cliente inv'' @ a_acute @ ''lidos.'')),
         [Logged TRACE ''[TelemetryAction] Iniciando log de visita de cliente.'',
          Logged WARN (''[TelemetryAction] Datos de visita de cliente inv'' @ a_acute @ ''lidos:'')]))
   \<and> (filter is_permission_check (snd (checkRateLimit ip action)) = [])"
  by (intro conjI;
        rule createSiteAction_malformed updateSiteAction_malformed deleteSiteAction_malformed
          createCampaignAction_malformed deleteCampaignAction_malformed
          createCampaignAction_unauthenticated deleteCampaignAction_unauthenticated
          sendWorkspaceInvitationAction_unauthenticated sendWorkspaceInvitationAction_malformed
          createWorkspaceAction_unauthenticated createWorkspaceAction_malformed
          signUpAction_malformed signInWithPasswordAction_malformed
          requestPasswordResetAction_malformed updatePasswordAction_malformed
          logClientVisitAction_malformed checkRateLimit_no_permission_check)

theorem malformed_input_short_circuits_witness:
  "createSiteAction (sample_world Owner) [(''subdomain'', ''ab''), (''workspaceId'', ws_1)] =
     (Inr (ActionFailure form_data_invalid), [])
   \<and> updateSiteAction (sample_world Owner) [(''siteId'', ''site-1''), (''name'', ''acme'')] =
       (Inr (ActionFailure form_data_invalid), [])
   \<and> deleteSiteAction (sample_world Owner) [(''siteId'', ''site-1'')] =
       (Inr (ActionFailure site_id_invalid), [])
   \<and> createCampaignAction (sample_world Owner) [(''name'', ''launch'')] =
       (Inr (ActionFailure campaign_data_invalid), [])
   \<and> deleteCampaignAction (sample_world Owner) [] = (Inr (ActionFailure campaign_id_invalid), [])
   \<and> createCampaignAction ((sample_world Owner)\<lparr>auth_getUser := None\<rparr>)
        [(''name'', ''launch''), (''siteId'', site_1)] =
       (Inr (ActionFailure not_authenticated), [])
   \<and> createWorkspaceAction (sample_world Owner) sample_platform
        (validate_CreateWorkspaceSchema [(''workspaceName'', ''ab''), (''icon'', ''star'')]) =
       (Inr (ActionFailure ''El nombre debe tener al menos 3 caracteres.''),
        [Logged WARN (''[WorkspacesAction] Datos inv'' @ a_acute @ ''lidos para la creaci'' @ o_acute @ ''n de workspace por el usuario '' @ user_a @ ''.'')])
   \<and> sendWorkspaceInvitationAction (sample_world Owner) sample_platform None =
       (Inr (ActionFailure (''Datos de invitaci'' @ o_acute @ ''n inv'' @ a_acute @ ''lidos.'')), [])
   \<and> deleteCampaignAction ((sample_world Owner)\<lparr>auth_getUser := None\<rparr>) [(''campaignId'', camp_1)] =
       (Inr (ActionFailure not_authenticated), [])
   \<and> fst (sendWorkspaceInvitationAction ((sample_world Owner)\<lparr>auth_getUser := None\<rparr>) sample_platform
             (Some \<lparr>inv_invitee_email = ''b@example.com'', inv_role = Member, inv_workspace_id = ws_1\<rparr>)) =
       Inr (ActionFailure ''No autenticado.'')
   \<and> fst (createWorkspaceAction ((sample_world Owner)\<lparr>auth_getUser := None\<rparr>) sample_platform
             (Inr \<lparr>cw_workspace_name = ''acme'', cw_icon = ''star''\<rparr>)) =
       Inr (ActionFailure (''No autenticado. Inicia sesi'' @ o_acute @ ''n de nuevo.''))"
proof -
  let ?w = "sample_world Owner"
  let ?n = "(sample_world Owner)\<lparr>auth_getUser := None\<rparr>"
  have site: "CreateSiteServerSchema ?w [(''subdomain'', ''ab''), (''workspaceId'', ws_1)] = None"
    by code_simp
  have update: "UpdateSiteSchema ?w [(''siteId'', ''site-1''), (''name'', ''acme'')] = None"
    by code_simp
  have delete: "DeleteSiteSchema ?w (form_get [(''siteId'', ''site-1'')] ''siteId'') = None"
    by code_simp
  have campaign: "CreateCampaignSchema ?w [(''name'', ''launch'')] = None"
    by code_simp
  have campaign_id: "DeleteCampaignSchema ?w (form_get [] ''campaignId'') = None"
    by code_simp
  have session: "auth_getUser ?w = Some sample_user" "auth_getUser ?w \<noteq> None"
    by (simp_all add: sample_world_def)
  have no_session: "auth_getUser ?n = None"
    by simp
  have name: "validate_CreateWorkspaceSchema [(''workspaceName'', ''ab''), (''icon'', ''star'')] =
      Inl (Some ''El nombre debe tener al menos 3 caracteres.'')"
    by code_simp
  have message: "or_else (Some ''El nombre debe tener al menos 3 caracteres.'') (''Datos inv'' @ a_acute @ ''lidos.'') =
      ''El nombre debe tener al menos 3 caracteres.''"
    by (simp add: or_else_def truthy_def)
  have user: "user_id sample_user = user_a"
    by (simp add: sample_user_def)
  have c1: "createSiteAction ?w [(''subdomain'', ''ab''), (''workspaceId'', ws_1)] =
      (Inr (ActionFailure form_data_invalid), [])"
    using site malformed_input_short_circuits
      [where w = ?w and formData = "[(''subdomain'', ''ab''), (''workspaceId'', ws_1)]"]
    by simp
  have c2: "updateSiteAction ?w [(''siteId'', ''site-1''), (''name'', ''acme'')] =
      (Inr (ActionFailure form_data_invalid), [])"
    using update malformed_input_short_circuits
      [where w = ?w and formData = "[(''siteId'', ''site-1''), (''name'', ''acme'')]"]
    by simp
  have c3: "deleteSiteAction ?w [(''siteId'', ''site-1'')] = (Inr (ActionFailure site_id_invalid), [])"
    using delete malformed_input_short_circuits [where w = ?w and formData = "[(''siteId'', ''site-1'')]"]
    by simp
  have c4: "createCampaignAction ?w [(''name'', ''launch'')] = (Inr (ActionFailure campaign_data_invalid), [])"
    using campaign session malformed_input_short_circuits
      [where w = ?w and formData = "[(''name'', ''launch'')]"]
    by simp
  have c5: "deleteCampaignAction ?w [] = (Inr (ActionFailure campaign_id_invalid), [])"
    using campaign_id session malformed_input_short_circuits [where w = ?w and formData = "[]"]
    by simp
  have c6: "createCampaignAction ?n [(''name'', ''launch''), (''siteId'', site_1)] =
      (Inr (ActionFailure not_authenticated), [])"
    using no_session malformed_input_short_circuits
      [where w = ?n and formData = "[(''name'', ''launch''), (''siteId'', site_1)]"]
    by simp
  have c7: "createWorkspaceAction ?w sample_platform
        (validate_CreateWorkspaceSchema [(''workspaceName'', ''ab''), (''icon'', ''star'')]) =
       (Inr (ActionFailure ''El nombre debe tener al menos 3 caracteres.''),
        [Logged WARN (''[WorkspacesAction] Datos inv'' @ a_acute @ ''lidos para la creaci'' @ o_acute @ ''n de workspace por el usuario '' @ user_a @ ''.'')])"
    using session message user malformed_input_short_circuits
      [where w = ?w and pf = sample_platform and usr = sample_user
         and message = "Some ''El nombre debe tener al menos 3 caracteres.''"]
    by (simp add: name)
  have c8: "sendWorkspaceInvitationAction ?w sample_platform None =
      (Inr (ActionFailure (''Datos de invitaci'' @ o_acute @ ''n inv'' @ a_acute @ ''lidos.'')), [])"
    using session malformed_input_short_circuits [where w = ?w and pf = sample_platform]
    by simp
  have c9: "deleteCampaignAction ?n [(''campaignId'', camp_1)] = (Inr (ActionFailure not_authenticated), [])"
    using no_session malformed_input_short_circuits [where w = ?n and formData = "[(''campaignId'', camp_1)]"]
    by simp
  have c10: "fst (sendWorkspaceInvitationAction ?n sample_platform
             (Some \<lparr>inv_invitee_email = ''b@example.com'', inv_role = Member, inv_workspace_id = ws_1\<rparr>)) =
       Inr (ActionFailure ''No autenticado.'')"
    using no_session malformed_input_short_circuits [where w = ?n and pf = sample_platform
      and invitation = "Some \<lparr>inv_invitee_email = ''b@example.com'', inv_role = Member, inv_workspace_id = ws_1\<rparr>"]
    by simp
  have c11: "fst (createWorkspaceAction ?n sample_platform
             (Inr \<lparr>cw_workspace_name = ''acme'', cw_icon = ''star''\<rparr>)) =
       Inr (ActionFailure (''No autenticado. Inicia sesi'' @ o_acute @ ''n de nuevo.''))"
    using no_session malformed_input_short_circuits [where w = ?n and pf = sample_platform
      and workspace = "Inr \<lparr>cw_workspace_name = ''acme'', cw_icon = ''star''\<rparr>"]
    by simp
  show ?thesis
    using c1 c2 c3 c4 c5 c6 c7 c8 c9 c10 c11 by (intro conjI)
qed

subsection \<open>What reaches the client\<close>

text \<open>Within the lists of the actions' own messages there is no guard's code.\<close>

lemma own_messages_opaque:
  "set internal_codes \<inter>
     set (createSiteAction_messages @ updateSiteAction_messages @ deleteSiteAction_messages
          @ createCampaignAction_messages @ deleteCampaignAction_messages @
          updateCampaignContentAction_messages @ impersonateUserAction_messages @
          deleteSiteAsAdminAction_messages @ updateUserRoleAction_messages @
          sendWorkspaceInvitationAction_messages @ acceptInvitationAction_messages @
          createWorkspaceAction_messages @ updateDashboardLayoutAction_messages @
          signUpAction_messages @ signInWithPasswordAction_messages @
          logClientVisitAction_messages @ requestPasswordResetAction_messages @
          updatePasswordAction_messages) = {}"
  by code_simp

text \<open>
  C4, as the specification states it, fails on the six actions that hand the guard's error on:
  a member who asks to delete a site, which needs the owner role, is answered with the
  internal code PERMISSION_DENIED; a request to update a site that does not exist, with
  NOT_FOUND; a request without a session, with SESSION_NOT_FOUND; and a member who
  sends an invitation, or a user without the developer or admin role who calls an
  administration action, with PERMISSION_DENIED.
\<close>

theorem deleteSiteAction_surfaces_internal_code:
  "fst (deleteSiteAction (sample_world Member) [(''siteId'', site_1)]) =
     Inr (ActionFailure ''PERMISSION_DENIED'')
   \<and> fst (updateSiteAction (sample_world Owner) [(''siteId'', site_9), (''name'', ''acme'')]) =
       Inr (ActionFailure ''NOT_FOUND'')
   \<and> fst (deleteSiteAction ((sample_world Owner)\<lparr>auth_getUser := None\<rparr>) [(''siteId'', site_1)]) =
       Inr (ActionFailure ''SESSION_NOT_FOUND'')
   \<and> fst (sendWorkspaceInvitationAction (sample_world Member) sample_platform
             (Some \<lparr>inv_invitee_email = ''b@example.com'', inv_role = Member, inv_workspace_id = ws_1\<rparr>)) =
       Inr (ActionFailure ''PERMISSION_DENIED'')
   \<and> fst (impersonateUserAction (sample_world Owner) sample_platform user_b) =
       Inr (ActionFailure ''PERMISSION_DENIED'')
   \<and> fst (deleteSiteAsAdminAction (sample_world Owner) sample_platform [(''subdomain'', ''acme'')]) =
       Inr (ActionFailure ''PERMISSION_DENIED'')
   \<and> fst (updateUserRoleAction (sample_world Owner) sample_platform user_b AppAdmin) =
       Inr (ActionFailure ''PERMISSION_DENIED'')"
  by code_simp

text \<open>
  C4, amended. Every result a mutation action returns is a success payload or a failure
  whose string is one of the strings of the action's own return statements, or, for the
  six actions \<^verbatim>\<open>updateSiteAction\<close>, \<^verbatim>\<open>deleteSiteAction\<close>, \<^verbatim>\<open>sendWorkspaceInvitationAction\<close>,
  \<^verbatim>\<open>impersonateUserAction\<close>, \<^verbatim>\<open>deleteSiteAsAdminAction\<close> and \<^verbatim>\<open>updateUserRoleAction\<close>, the code
  of the guard that failed, which they return as it is. \<^verbatim>\<open>createWorkspaceAction\<close> and
  \<^verbatim>\<open>updatePasswordAction\<close> can also answer with the message the schema gives for a field,
  \<^verbatim>\<open>acceptInvitationAction\<close> with the error string of the stored procedure.

  The site and campaign actions, \<^verbatim>\<open>sendWorkspaceInvitationAction\<close>, \<^verbatim>\<open>createWorkspaceAction\<close>,
  \<^verbatim>\<open>signUpAction\<close>, \<^verbatim>\<open>logClientVisitAction\<close> and \<^verbatim>\<open>updatePasswordAction\<close> always return a
  result; the others can end by the exception named with them, that of an awaited
  write, of a missing link or of \<^verbatim>\<open>redirect\<close>; \<^verbatim>\<open>signOutAction\<close> and
  \<^verbatim>\<open>setActiveWorkspaceAction\<close> always end in their redirect.

  An authorization failure in \<^verbatim>\<open>createSiteAction\<close>, \<^verbatim>\<open>createCampaignAction\<close>,
  \<^verbatim>\<open>deleteCampaignAction\<close> and \<^verbatim>\<open>updateCampaignContentAction\<close> is answered with the action's
  own message, which is none of the guards' codes; in the six actions above it is
  answered with the guard's code.
\<close>

theorem action_results_surface:
  "(surfaces (createSiteAction w formData) createSiteAction_messages)
   \<and> (surfaces (updateSiteAction w formData) (updateSiteAction_messages @ internal_codes))
   \<and> (surfaces (deleteSiteAction w formData) (deleteSiteAction_messages @ internal_codes))
   \<and> (surfaces (createCampaignAction w formData) createCampaignAction_messages)
   \<and> (surfaces (deleteCampaignAction w formData) deleteCampaignAction_messages)
   \<and> (surfaces_or_ends (updateCampaignContentAction w pf campaignId content) updateCampaignContentAction_messages [ThrownError])
   \<and> (surfaces_or_ends (impersonateUserAction w pf userId) (impersonateUserAction_messages @ internal_codes) [TypeError])
   \<and> (surfaces_or_ends (deleteSiteAsAdminAction w pf formData) (deleteSiteAsAdminAction_messages @ internal_codes) [ThrownError])
   \<and> (surfaces_or_ends (updateUserRoleAction w pf userId newRole) (updateUserRoleAction_messages @ internal_codes) [ThrownError])
   \<and> (surfaces (sendWorkspaceInvitationAction w pf invitation) (sendWorkspaceInvitationAction_messages @ internal_codes))
   \<and> (surfaces_or_ends (acceptInvitationAction w pf invitationId) (acceptInvitationAction_messages @ rpc_error_given pf) [ThrownError])
   \<and> (surfaces (createWorkspaceAction w pf workspace)
        (createWorkspaceAction_messages @ (case workspace of Inl message \<Rightarrow> given_string message | Inr parsedData \<Rightarrow> [])))
   \<and> (surfaces_or_ends (updateDashboardLayoutAction w moduleIds) updateDashboardLayoutAction_messages [ThrownError])
   \<and> (surfaces (signUpAction w pf credentials) signUpAction_messages)
   \<and> (surfaces_or_ends (signInWithPasswordAction w pf credentials) signInWithPasswordAction_messages [NEXT_REDIRECT ''/dashboard''])
   \<and> (surfaces (logClientVisitAction w pf visit) logClientVisitAction_messages)
   \<and> (state_surfaces (requestPasswordResetAction w pf email) reset_error requestPasswordResetAction_messages
        [NEXT_REDIRECT ''/auth-notice?message=check-email-for-reset'', TypeError])
   \<and> (state_surfaces (updatePasswordAction w pf passwords) upd_error
        (updatePasswordAction_messages
         @ (case passwords of Inl (passwordError, confirmPasswordError) \<Rightarrow> given_string passwordError @ given_string confirmPasswordError
            | Inr password \<Rightarrow> []))
        [])
   \<and> (fst (signOutAction w pf) = Inl (NEXT_REDIRECT ''/''))
   \<and> (fst (setActiveWorkspaceAction workspaceId) = Inl (NEXT_REDIRECT ''/dashboard''))
   \<and> (set internal_codes \<inter>
        set (createSiteAction_messages @ updateSiteAction_messages @ deleteSiteAction_messages
             @ createCampaignAction_messages @ deleteCampaignAction_messages @
             updateCampaignContentAction_messages @ impersonateUserAction_messages @
             deleteSiteAsAdminAction_messages @ updateUserRoleAction_messages @
             sendWorkspaceInvitationAction_messages @ acceptInvitationAction_messages @
             createWorkspaceAction_messages @ updateDashboardLayoutAction_messages @
             signUpAction_messages @ signInWithPasswordAction_messages @
             logClientVisitAction_messages @ requestPasswordResetAction_messages @
             updatePasswordAction_messages) = {})
   \<and> (CreateSiteServerSchema w formData = Some parsedData
      \<and> fst (requireWorkspacePermission w (cs_workspace_id parsedData) [Owner, Admin]) = Inr (AuthFailure error)
      \<longrightarrow> fst (createSiteAction w formData) =
            Inr (ActionFailure ''No tienes permiso para crear sitios en este workspace.''))
   \<and> (auth_getUser w = Some usr
      \<and> CreateCampaignSchema w formData = Some campaignData
      \<and> fst (getSiteById w (cc_site_id campaignData)) = Inr (Some site)
      \<and> fst (hasWorkspacePermission w (user_id usr) (sbi_workspace_id site) [Owner, Admin, Member]) = Inr False
      \<longrightarrow> fst (createCampaignAction w formData) =
            Inr (ActionFailure (''No tienes permiso para crear campa'' @ n_tilde @ ''as en este sitio.'')))
   \<and> (auth_getUser w = Some usr
      \<and> DeleteCampaignSchema w (form_get formData ''campaignId'') = Some campaignId
      \<and> resp_error (campaigns_single w campaignId) = None
      \<and> resp_data (campaigns_single w campaignId) = Some campaign
      \<and> cmp_sites_workspace_id campaign = Some campaignWorkspaceId
      \<and> campaignWorkspaceId \<noteq> []
      \<and> fst (hasWorkspacePermission w (user_id usr) campaignWorkspaceId [Owner, Admin, Member]) = Inr False
      \<longrightarrow> fst (deleteCampaignAction w formData) =
            Inr (ActionFailure (''No tienes permiso para eliminar esta campa'' @ n_tilde @ ''a.'')))
   \<and> (auth_getUser w = Some usr
      \<and> fst (getCampaignContentById w pf campaignId (user_id usr)) = Inr None
      \<longrightarrow> fst (updateCampaignContentAction w pf campaignId content) =
            Inr (ActionFailure (''Acceso denegado. No tienes permiso para editar esta campa'' @ n_tilde @ ''a.'')))
   \<and> (UpdateSiteSchema w formData = Some siteData
      \<and> fst (requireSitePermission w (us_site_id siteData) [Owner, Admin]) = Inr (AuthFailure error)
      \<longrightarrow> fst (updateSiteAction w formData) = Inr (ActionFailure (auth_error_string error)))
   \<and> (DeleteSiteSchema w (form_get formData ''siteId'') = Some siteId
      \<and> fst (requireSitePermission w siteId [Owner]) = Inr (AuthFailure error)
      \<longrightarrow> fst (deleteSiteAction w formData) = Inr (ActionFailure (auth_error_string error)))
   \<and> (auth_getUser w = Some usr
      \<and> user_email usr \<noteq> Some (inv_invitee_email invitationData)
      \<and> fst (requireWorkspacePermission w (inv_workspace_id invitationData) [Owner, Admin]) = Inr (AuthFailure error)
      \<longrightarrow> fst (sendWorkspaceInvitationAction w pf (Some invitationData)) =
            Inr (ActionFailure (auth_error_string error)))
   \<and> (fst (requireAppRole w [AppDeveloper]) = Inr (AuthFailure error)
      \<longrightarrow> fst (impersonateUserAction w pf userId) = Inr (ActionFailure (auth_error_string error)))
   \<and> (fst (requireAppRole w [AppAdmin, AppDeveloper]) = Inr (AuthFailure error)
      \<longrightarrow> fst (deleteSiteAsAdminAction w pf formData) = Inr (ActionFailure (auth_error_string error)))
   \<and> (fst (requireAppRole w [AppDeveloper]) = Inr (AuthFailure error)
      \<longrightarrow> fst (updateUserRoleAction w pf userId newRole) = Inr (ActionFailure (auth_error_string error)))"
  by (intro conjI;
        rule createSiteAction_surfaces updateSiteAction_surfaces deleteSiteAction_surfaces
          createCampaignAction_surfaces deleteCampaignAction_surfaces
          updateCampaignContentAction_surfaces impersonateUserAction_surfaces
          deleteSiteAsAdminAction_surfaces updateUserRoleAction_surfaces
          sendWorkspaceInvitationAction_surfaces acceptInvitationAction_surfaces
          createWorkspaceAction_surfaces updateDashboardLayoutAction_surfaces
          signUpAction_surfaces signInWithPasswordAction_surfaces logClientVisitAction_surfaces
          requestPasswordResetAction_surfaces updatePasswordAction_surfaces
          signOutAction_surfaces setActiveWorkspaceAction_surfaces own_messages_opaque
          createSiteAction_denied createCampaignAction_denied deleteCampaignAction_denied
          updateCampaignContentAction_denied updateSiteAction_passes_code
          deleteSiteAction_passes_code sendWorkspaceInvitationAction_passes_code
          impersonateUserAction_passes_code deleteSiteAsAdminAction_passes_code
          updateUserRoleAction_passes_code)

theorem action_results_surface_witness:
  "fst (createSiteAction (sample_world Member) create_acme) =
     Inr (ActionFailure ''No tienes permiso para crear sitios en este workspace.'')
   \<and> fst (createCampaignAction ((sample_world Owner)\<lparr>auth_getUser := Some \<lparr>user_id = user_b, user_email = None\<rparr>\<rparr>)
             [(''name'', ''launch''), (''siteId'', site_1)]) =
       Inr (ActionFailure (''No tienes permiso para crear campa'' @ n_tilde @ ''as en este sitio.''))
   \<and> fst (deleteCampaignAction ((sample_world Owner)\<lparr>auth_getUser := Some \<lparr>user_id = user_b, user_email = None\<rparr>\<rparr>)
             [(''campaignId'', camp_1)]) =
       Inr (ActionFailure (''No tienes permiso para eliminar esta campa'' @ n_tilde @ ''a.''))
   \<and> fst (deleteSiteAction (sample_world Member) [(''siteId'', site_1)]) =
       Inr (ActionFailure (auth_error_string PERMISSION_DENIED))
   \<and> fst (updateUserRoleAction (sample_world Owner) sample_platform user_b AppAdmin) =
       Inr (ActionFailure (auth_error_string PERMISSION_DENIED))
   \<and> surfaces (deleteSiteAction (sample_world Member) [(''siteId'', site_1)])
       (deleteSiteAction_messages @ internal_codes)
   \<and> fst (createSiteAction (sample_world Owner) create_acme) = Inr (ActionSuccess site_2)
   \<and> fst (updateCampaignContentAction
             ((sample_world Owner)\<lparr>auth_getUser := Some \<lparr>user_id = user_b, user_email = None\<rparr>\<rparr>)
             sample_platform camp_1 \<lparr>config_name = ''launch''\<rparr>) =
       Inr (ActionFailure (''Acceso denegado. No tienes permiso para editar esta campa'' @ n_tilde @ ''a.''))
   \<and> fst (updateSiteAction (sample_world Owner) [(''siteId'', site_9), (''name'', ''acme'')]) =
       Inr (ActionFailure (auth_error_string NOT_FOUND))
   \<and> fst (sendWorkspaceInvitationAction (sample_world Member) sample_platform
             (Some \<lparr>inv_invitee_email = ''b@example.com'', inv_role = Member, inv_workspace_id = ws_1\<rparr>)) =
       Inr (ActionFailure (auth_error_string PERMISSION_DENIED))
   \<and> fst (impersonateUserAction (sample_world Owner) sample_platform user_b) =
       Inr (ActionFailure (auth_error_string PERMISSION_DENIED))
   \<and> fst (deleteSiteAsAdminAction (sample_world Owner) sample_platform [(''subdomain'', ''acme'')]) =
       Inr (ActionFailure (auth_error_string PERMISSION_DENIED))"
proof -
  let ?m = "sample_world Member"
  let ?o = "sample_world Owner"
  let ?b = "(sample_world Owner)\<lparr>auth_getUser := Some \<lparr>user_id = user_b, user_email = None\<rparr>\<rparr>"
  let ?site = "\<lparr>cs_name = ''acme'', cs_subdomain = ''acme'', cs_description = None, cs_workspace_id = ws_1\<rparr>"
  let ?campaign = "\<lparr>cc_name = ''launch'', cc_site_id = site_1\<rparr>"
  have site: "CreateSiteServerSchema ?m create_acme = Some ?site"
    by code_simp
  have site_guard: "fst (requireWorkspacePermission ?m (cs_workspace_id ?site) [Owner, Admin]) =
      Inr (AuthFailure PERMISSION_DENIED)"
    by code_simp
  have c1: "fst (createSiteAction ?m create_acme) =
      Inr (ActionFailure ''No tienes permiso para crear sitios en este workspace.'')"
    using site site_guard
      action_results_surface [where w = ?m and formData = create_acme and parsedData = ?site
        and error = PERMISSION_DENIED]
    by simp
  have user: "auth_getUser ?b = Some \<lparr>user_id = user_b, user_email = None\<rparr>"
    by simp
  have campaign: "CreateCampaignSchema ?b [(''name'', ''launch''), (''siteId'', site_1)] = Some ?campaign"
    by code_simp
  have campaign_site: "fst (getSiteById ?b (cc_site_id ?campaign)) = Inr (Some sample_site)"
    by code_simp
  have not_member:
    "fst (hasWorkspacePermission ?b (user_id \<lparr>user_id = user_b, user_email = None\<rparr>)
            (sbi_workspace_id sample_site) [Owner, Admin, Member]) = Inr False"
    by code_simp
  have c2: "fst (createCampaignAction ?b [(''name'', ''launch''), (''siteId'', site_1)]) =
      Inr (ActionFailure (''No tienes permiso para crear campa'' @ n_tilde @ ''as en este sitio.''))"
    using user campaign campaign_site not_member
      action_results_surface [where w = ?b and formData = "[(''name'', ''launch''), (''siteId'', site_1)]"
        and usr = "\<lparr>user_id = user_b, user_email = None\<rparr>" and campaignData = ?campaign
        and site = sample_site]
    by simp
  have campaign_id: "DeleteCampaignSchema ?b (form_get [(''campaignId'', camp_1)] ''campaignId'') = Some camp_1"
    by code_simp
  have fetched: "resp_error (campaigns_single ?b camp_1) = None"
    "resp_data (campaigns_single ?b camp_1) = Some sample_campaign"
    "cmp_sites_workspace_id sample_campaign = Some ws_1" "ws_1 \<noteq> []"
    by code_simp+
  have not_member': "fst (hasWorkspacePermission ?b (user_id \<lparr>user_id = user_b, user_email = None\<rparr>)
            ws_1 [Owner, Admin, Member]) = Inr False"
    by code_simp
  have c3: "fst (deleteCampaignAction ?b [(''campaignId'', camp_1)]) =
      Inr (ActionFailure (''No tienes permiso para eliminar esta campa'' @ n_tilde @ ''a.''))"
    using user campaign_id fetched not_member'
      action_results_surface [where w = ?b and formData = "[(''campaignId'', camp_1)]"
        and usr = "\<lparr>user_id = user_b, user_email = None\<rparr>" and campaignId = camp_1
        and campaign = sample_campaign and campaignWorkspaceId = ws_1]
    by simp
  have site_id: "DeleteSiteSchema ?m (form_get [(''siteId'', site_1)] ''siteId'') = Some site_1"
    by code_simp
  have owner_only: "fst (requireSitePermission ?m site_1 [Owner]) = Inr (AuthFailure PERMISSION_DENIED)"
    by code_simp
  have c4: "fst (deleteSiteAction ?m [(''siteId'', site_1)]) =
      Inr (ActionFailure (auth_error_string PERMISSION_DENIED))"
    and c6: "surfaces (deleteSiteAction ?m [(''siteId'', site_1)]) (deleteSiteAction_messages @ internal_codes)"
    using site_id owner_only
      action_results_surface [where w = ?m and formData = "[(''siteId'', site_1)]" and siteId = site_1
        and error = PERMISSION_DENIED]
    by simp_all
  have developer_only: "fst (requireAppRole ?o [AppDeveloper]) = Inr (AuthFailure PERMISSION_DENIED)"
    by code_simp
  have c5: "fst (updateUserRoleAction ?o sample_platform user_b AppAdmin) =
      Inr (ActionFailure (auth_error_string PERMISSION_DENIED))"
    using developer_only
      action_results_surface [where w = ?o and pf = sample_platform and userId = user_b
        and newRole = AppAdmin and error = PERMISSION_DENIED]
    by simp
  have c7: "fst (createSiteAction ?o create_acme) = Inr (ActionSuccess site_2)"
    by code_simp
  have no_content: "fst (getCampaignContentById ?b sample_platform camp_1
      (user_id \<lparr>user_id = user_b, user_email = None\<rparr>)) = Inr None"
    by code_simp
  have c8: "fst (updateCampaignContentAction ?b sample_platform camp_1 \<lparr>config_name = ''launch''\<rparr>) =
      Inr (ActionFailure (''Acceso denegado. No tienes permiso para editar esta campa'' @ n_tilde @ ''a.''))"
    using user no_content
      action_results_surface [where w = ?b and pf = sample_platform and campaignId = camp_1
        and usr = "\<lparr>user_id = user_b, user_email = None\<rparr>" and content = "\<lparr>config_name = ''launch''\<rparr>"]
    by simp
  let ?update = "\<lparr>us_site_id = site_9, us_name = Some ''acme'', us_subdomain = None, us_description = None\<rparr>"
  have update: "UpdateSiteSchema ?o [(''siteId'', site_9), (''name'', ''acme'')] = Some ?update"
    by code_simp
  have missing: "fst (requireSitePermission ?o (us_site_id ?update) [Owner, Admin]) = Inr (AuthFailure NOT_FOUND)"
    by code_simp
  have c9: "fst (updateSiteAction ?o [(''siteId'', site_9), (''name'', ''acme'')]) =
      Inr (ActionFailure (auth_error_string NOT_FOUND))"
    using update missing
      action_results_surface [where w = ?o and formData = "[(''siteId'', site_9), (''name'', ''acme'')]"
        and siteData = ?update and error = NOT_FOUND]
    by simp
  let ?invitation = "\<lparr>inv_invitee_email = ''b@example.com'', inv_role = Member, inv_workspace_id = ws_1\<rparr>"
  have inviter: "auth_getUser ?m = Some sample_user"
    "user_email sample_user \<noteq> Some (inv_invitee_email ?invitation)"
    by code_simp+
  have member_only: "fst (requireWorkspacePermission ?m (inv_workspace_id ?invitation) [Owner, Admin]) =
      Inr (AuthFailure PERMISSION_DENIED)"
    by code_simp
  have c10: "fst (sendWorkspaceInvitationAction ?m sample_platform (Some ?invitation)) =
      Inr (ActionFailure (auth_error_string PERMISSION_DENIED))"
    using inviter member_only
      action_results_surface [where w = ?m and pf = sample_platform and usr = sample_user
        and invitationData = ?invitation and error = PERMISSION_DENIED]
    by simp
  have c11: "fst (impersonateUserAction ?o sample_platform user_b) =
      Inr (ActionFailure (auth_error_string PERMISSION_DENIED))"
    using developer_only
      action_results_surface [where w = ?o and pf = sample_platform and userId = user_b
        and error = PERMISSION_DENIED]
    by simp
  have admin_only: "fst (requireAppRole ?o [AppAdmin, AppDeveloper]) = Inr (AuthFailure PERMISSION_DENIED)"
    by code_simp
  have c12: "fst (deleteSiteAsAdminAction ?o sample_platform [(''subdomain'', ''acme'')]) =
      Inr (ActionFailure (auth_error_string PERMISSION_DENIED))"
    using admin_only
      action_results_surface [where w = ?o and pf = sample_platform
        and formData = "[(''subdomain'', ''acme'')]" and error = PERMISSION_DENIED]
    by simp
  show ?thesis
    using c1 c2 c3 c4 c5 c6 c7 c8 c9 c10 c11 c12 by (intro conjI)
qed

subsection \<open>Audit calls\<close>

text \<open>
  C6, as the specification states it, fails on the mutations that are not audited.
  \<^verbatim>\<open>updateDashboardLayoutAction\<close> updates the profile and answers with success,
  \<^verbatim>\<open>logClientVisitAction\<close> writes the visit and answers with success,
  \<^verbatim>\<open>setActiveWorkspaceAction\<close> sets the cookie and redirects, an accepted
  \<^verbatim>\<open>signInWithPasswordAction\<close> redirects to the dashboard, and \<^verbatim>\<open>signOutAction\<close> without a
  session signs out and redirects: the trace of each holds no audit call.
\<close>

theorem updateDashboardLayoutAction_unaudited:
  "updateDashboardLayoutAction (sample_world Owner) [''sites'', ''campaigns''] =
     (Inr (ActionSuccess ()), [Db_update ''profiles'' user_a, Revalidated ''/dashboard''])
   \<and> logClientVisitAction (sample_world Owner) sample_platform
        (Some \<lparr>cv_sessionId = camp_2, cv_fingerprint = ''f1''\<rparr>) =
       (Inr (ActionSuccess ()),
        [Logged TRACE ''[TelemetryAction] Iniciando log de visita de cliente.'',
         Db_upsert ''visitor_logs'',
         Logged INFO ''[TelemetryAction] Visita de cliente registrada/actualizada.''])
   \<and> setActiveWorkspaceAction ws_1 =
       (Inl (NEXT_REDIRECT ''/dashboard''),
        [Logged TRACE (''[WorkspacesAction] Estableciendo workspace activo: '' @ ws_1),
         Cookie_set ''active_workspace_id'' ws_1, Revalidated ''/dashboard''])
   \<and> signInWithPasswordAction (sample_world Owner) sample_platform
        (Some \<lparr>cred_email = ''a@example.com'', cred_password = ''correct horse''\<rparr>) =
       (Inl (NEXT_REDIRECT ''/dashboard''),
        [Logged INFO (''[RateLimiter:Simulated] Verificaci'' @ o_acute @ ''n de l'' @ i_acute @ ''mite de tasa para IP 203.0.113.7 en la acci'' @ o_acute @ ''n login. Acci'' @ o_acute @ ''n permitida.''),
         Logged TRACE (''[AuthActions] Iniciando intento de inicio de sesi'' @ o_acute @ ''n para a@example.com''),
         Auth ''signInWithPassword''])
   \<and> signOutAction (sample_world Owner) (sample_platform\<lparr>auth_getSession := None\<rparr>) =
       (Inl (NEXT_REDIRECT ''/''), [Auth ''signOut''])"
  by code_simp

text \<open>
  C6, amended. \<^verbatim>\<open>createAuditLog\<close> never throws; its trace holds its own call once, and one
  error line exactly when the insert throws or answers with an error.

  Every mutation action other than \<^verbatim>\<open>updateDashboardLayoutAction\<close>, \<^verbatim>\<open>logClientVisitAction\<close>,
  \<^verbatim>\<open>setActiveWorkspaceAction\<close> and \<^verbatim>\<open>signInWithPasswordAction\<close> calls it exactly once when it
  reaches its success path: the site, campaign, builder, administration, invitation and
  workspace actions when they answer with success (and, \<^verbatim>\<open>impersonateUserAction\<close> apart,
  not at all otherwise), \<^verbatim>\<open>updatePasswordAction\<close> when it answers with the success state,
  \<^verbatim>\<open>requestPasswordResetAction\<close> when it ends in its redirect, \<^verbatim>\<open>signUpAction\<close> when the
  form parses and the sign-up is accepted, and \<^verbatim>\<open>signOutAction\<close> when there is a session.
  The result of each is the same whatever the audit insert does.

  \<^verbatim>\<open>updateDashboardLayoutAction\<close>, \<^verbatim>\<open>logClientVisitAction\<close> and \<^verbatim>\<open>setActiveWorkspaceAction\<close>
  never call it, and \<^verbatim>\<open>signInWithPasswordAction\<close> calls it only for a sign-in that is
  refused.
\<close>

theorem audit_is_best_effort:
  "(fst (createAuditLog w action details) = Inr ())
   \<and> (filter is_audit_call (snd (createAuditLog w action details)) = [Called_createAuditLog action details])
   \<and> (length (filter is_error_log (snd (createAuditLog w action details))) =
        (if \<exists>r. audit_logs_insert w = Resolves r \<and> resp_error r = None then 0 else 1))
   \<and> (length (filter is_audit_call (snd (createSiteAction w formData))) =
        (if is_success (fst (createSiteAction w formData)) then 1 else 0))
   \<and> (length (filter is_audit_call (snd (updateSiteAction w formData))) =
        (if is_success (fst (updateSiteAction w formData)) then 1 else 0))
   \<and> (length (filter is_audit_call (snd (deleteSiteAction w formData))) =
        (if is_success (fst (deleteSiteAction w formData)) then 1 else 0))
   \<and> (length (filter is_audit_call (snd (createCampaignAction w formData))) =
        (if is_success (fst (createCampaignAction w formData)) then 1 else 0))
   \<and> (length (filter is_audit_call (snd (deleteCampaignAction w formData))) =
        (if is_success (fst (deleteCampaignAction w formData)) then 1 else 0))
   \<and> (length (filter is_audit_call (snd (updateCampaignContentAction w pf campaignId content))) =
        (if is_success (fst (updateCampaignContentAction w pf campaignId content)) then 1 else 0))
   \<and> (is_success (fst (impersonateUserAction w pf userId)) \<longrightarrow> length (filter is_audit_call (snd (impersonateUserAction w pf userId))) = 1)
   \<and> (length (filter is_audit_call (snd (deleteSiteAsAdminAction w pf formData))) =
        (if is_success (fst (deleteSiteAsAdminAction w pf formData)) then 1 else 0))
   \<and> (length (filter is_audit_call (snd (updateUserRoleAction w pf userId newRole))) =
        (if is_success (fst (updateUserRoleAction w pf userId newRole)) then 1 else 0))
   \<and> (length (filter is_audit_call (snd (sendWorkspaceInvitationAction w pf invitation))) =
        (if is_success (fst (sendWorkspaceInvitationAction w pf invitation)) then 1 else 0))
   \<and> (length (filter is_audit_call (snd (acceptInvitationAction w pf invitationId))) =
        (if is_success (fst (acceptInvitationAction w pf invitationId)) then 1 else 0))
   \<and> (length (filter is_audit_call (snd (createWorkspaceAction w pf workspace))) =
        (if is_success (fst (createWorkspaceAction w pf workspace)) then 1 else 0))
   \<and> (length (filter is_audit_call (snd (updatePasswordAction w pf passwords))) =
        (if fst (updatePasswordAction w pf passwords) = Inr \<lparr>upd_error = None, upd_success = True\<rparr> then 1 else 0))
   \<and> (length (filter is_audit_call (snd (requestPasswordResetAction w pf email))) =
        (if is_redirect (fst (requestPasswordResetAction w pf email)) then 1 else 0))
   \<and> (length (filter is_audit_call (snd (signUpAction w pf credentials))) =
        (if credentials \<noteq> None \<and> auth_signUp pf = None then 1 else 0))
   \<and> (length (filter is_audit_call (snd (signOutAction w pf))) =
        (case auth_getSession pf of None \<Rightarrow> 0 | Some sessionUser \<Rightarrow> 1))
   \<and> (fst (createSiteAction (w\<lparr>audit_logs_insert := a\<rparr>) formData) =
      fst (createSiteAction w formData))
   \<and> (fst (updateSiteAction (w\<lparr>audit_logs_insert := a\<rparr>) formData) =
      fst (updateSiteAction w formData))
   \<and> (fst (deleteSiteAction (w\<lparr>audit_logs_insert := a\<rparr>) formData) =
      fst (deleteSiteAction w formData))
   \<and> (fst (createCampaignAction (w\<lparr>audit_logs_insert := a\<rparr>) formData) =
      fst (createCampaignAction w formData))
   \<and> (fst (deleteCampaignAction (w\<lparr>audit_logs_insert := a\<rparr>) formData) =
      fst (deleteCampaignAction w formData))
   \<and> (fst (updateCampaignContentAction (w\<lparr>audit_logs_insert := a\<rparr>) pf campaignId content) =
      fst (updateCampaignContentAction w pf campaignId content))
   \<and> (fst (impersonateUserAction (w\<lparr>audit_logs_insert := a\<rparr>) pf userId) =
      fst (impersonateUserAction w pf userId))
   \<and> (fst (deleteSiteAsAdminAction (w\<lparr>audit_logs_insert := a\<rparr>) pf formData) =
      fst (deleteSiteAsAdminAction w pf formData))
   \<and> (fst (updateUserRoleAction (w\<lparr>audit_logs_insert := a\<rparr>) pf userId newRole) =
      fst (updateUserRoleAction w pf userId newRole))
   \<and> (fst (sendWorkspaceInvitationAction (w\<lparr>audit_logs_insert := a\<rparr>) pf invitation) =
      fst (sendWorkspaceInvitationAction w pf invitation))
   \<and> (fst (acceptInvitationAction (w\<lparr>audit_logs_insert := a\<rparr>) pf invitationId) =
      fst (acceptInvitationAction w pf invitationId))
   \<and> (fst (createWorkspaceAction (w\<lparr>audit_logs_insert := a\<rparr>) pf workspace) =
      fst (createWorkspaceAction w pf workspace))
   \<and> (fst (updatePasswordAction (w\<lparr>audit_logs_insert := a\<rparr>) pf passwords) =
      fst (updatePasswordAction w pf passwords))
   \<and> (fst (requestPasswordResetAction (w\<lparr>audit_logs_insert := a\<rparr>) pf email) =
      fst (requestPasswordResetAction w pf email))
   \<and> (fst (signUpAction (w\<lparr>audit_logs_insert := a\<rparr>) pf credentials) =
      fst (signUpAction w pf credentials))
   \<and> (fst (signOutAction (w\<lparr>audit_logs_insert := a\<rparr>) pf) =
      fst (signOutAction w pf))
   \<and> (length (filter is_audit_call (snd (updateDashboardLayoutAction w moduleIds))) =
        0)
   \<and> (length (filter is_audit_call (snd (logClientVisitAction w pf visit))) =
        0)
   \<and> (length (filter is_audit_call (snd (setActiveWorkspaceAction workspaceId))) =
        0)
   \<and> (length (filter is_audit_call (snd (signInWithPasswordAction w pf credentials))) =
        (if credentials \<noteq> None \<and> auth_signInWithPassword pf \<noteq> None then 1 else 0))
   \<and> (fst (signInWithPasswordAction (w\<lparr>audit_logs_insert := a\<rparr>) pf credentials) =
      fst (signInWithPasswordAction w pf credentials))"
  by (intro conjI;
        rule createAuditLog_returns createAuditLog_one_call createAuditLog_failure_logged
          createSiteAction_audited updateSiteAction_audited deleteSiteAction_audited
          createCampaignAction_audited deleteCampaignAction_audited
          updateCampaignContentAction_audited impersonateUserAction_audited
          deleteSiteAsAdminAction_audited updateUserRoleAction_audited
          sendWorkspaceInvitationAction_audited acceptInvitationAction_audited
          createWorkspaceAction_audited updatePasswordAction_audited
          requestPasswordResetAction_audited signUpAction_audited signOutAction_audited
          createSiteAction_audit_store updateSiteAction_audit_store deleteSiteAction_audit_store
          createCampaignAction_audit_store deleteCampaignAction_audit_store
          updateCampaignContentAction_audit_store impersonateUserAction_audit_store
          deleteSiteAsAdminAction_audit_store updateUserRoleAction_audit_store
          sendWorkspaceInvitationAction_audit_store acceptInvitationAction_audit_store
          createWorkspaceAction_audit_store updatePasswordAction_audit_store
          requestPasswordResetAction_audit_store signUpAction_audit_store
          signOutAction_audit_store updateDashboardLayoutAction_audited
          logClientVisitAction_audited setActiveWorkspaceAction_audited
          signInWithPasswordAction_audited signInWithPasswordAction_audit_store)

theorem audit_is_best_effort_witness:
  "createSiteAction ((sample_world Owner)\<lparr>audit_logs_insert := Throws\<rparr>) create_acme =
     (Inr (ActionSuccess site_2),
      [Logged TRACE (''[AuthCache] Miss: Obteniendo datos de sesi'' @ o_acute @ ''n del usuario.''),
       Called_hasWorkspacePermission user_a ws_1 [Owner, Admin],
       Db_insert ''sites'',
       Called_createAuditLog ''site.created''
         \<lparr>details_userId = Some user_a, details_targetEntityId = Some site_2,
          details_targetEntityType = Some ''site'',
          details_metadata = Some (JObject [(''subdomain'', JString ''acme''), (''name'', JString ''acme''),
                                            (''workspaceId'', JString ws_1)])\<rparr>,
       Db_insert ''audit_logs'',
       Logged ERROR (''[AuditLogHelper] Fallo cr'' @ i_acute @ ''tico al intentar guardar el log para la acci'' @ o_acute @ ''n '' @ [CHR 0x27] @ ''site.created'' @ [CHR 0x27] @ '':''),
       Revalidated ''/dashboard/sites''])
   \<and> fst (createSiteAction ((sample_world Owner)\<lparr>audit_logs_insert := Throws\<rparr>) create_acme) =
       fst (createSiteAction (sample_world Owner) create_acme)
   \<and> length (filter is_audit_call
        (snd (createSiteAction ((sample_world Owner)\<lparr>audit_logs_insert := Throws\<rparr>) create_acme))) = 1
   \<and> length (filter is_audit_call
        (snd (impersonateUserAction ((sample_world Owner)\<lparr>profile_app_role := Some AppDeveloper\<rparr>)
               sample_platform user_b))) = 1
   \<and> length (filter is_error_log
        (snd (createAuditLog ((sample_world Owner)\<lparr>audit_logs_insert := Throws\<rparr>) ''site.created''
               \<lparr>details_userId = None, details_targetEntityId = None, details_targetEntityType = None,
                details_metadata = None\<rparr>))) = 1"
proof -
  let ?t = "(sample_world Owner)\<lparr>audit_logs_insert := Throws\<rparr>"
  let ?d = "(sample_world Owner)\<lparr>profile_app_role := Some AppDeveloper\<rparr>"
  let ?details = "\<lparr>details_userId = None, details_targetEntityId = None, details_targetEntityType = None,
                details_metadata = None\<rparr>"
  have run: "createSiteAction ?t create_acme =
     (Inr (ActionSuccess site_2),
      [Logged TRACE (''[AuthCache] Miss: Obteniendo datos de sesi'' @ o_acute @ ''n del usuario.''),
       Called_hasWorkspacePermission user_a ws_1 [Owner, Admin],
       Db_insert ''sites'',
       Called_createAuditLog ''site.created''
         \<lparr>details_userId = Some user_a, details_targetEntityId = Some site_2,
          details_targetEntityType = Some ''site'',
          details_metadata = Some (JObject [(''subdomain'', JString ''acme''), (''name'', JString ''acme''),
                                            (''workspaceId'', JString ws_1)])\<rparr>,
       Db_insert ''audit_logs'',
       Logged ERROR (''[AuditLogHelper] Fallo cr'' @ i_acute @ ''tico al intentar guardar el log para la acci'' @ o_acute @ ''n '' @ [CHR 0x27] @ ''site.created'' @ [CHR 0x27] @ '':''),
       Revalidated ''/dashboard/sites''])"
    by code_simp
  have c2: "fst (createSiteAction ?t create_acme) = fst (createSiteAction (sample_world Owner) create_acme)"
    using audit_is_best_effort [where w = "sample_world Owner" and a = Throws and formData = create_acme]
    by simp
  have success: "is_success (fst (createSiteAction ?t create_acme))"
    by (simp add: run)
  have c3: "length (filter is_audit_call (snd (createSiteAction ?t create_acme))) = 1"
    using success audit_is_best_effort [where w = ?t and formData = create_acme]
    by simp
  have impersonated: "is_success (fst (impersonateUserAction ?d sample_platform user_b))"
    by code_simp
  have c4: "length (filter is_audit_call (snd (impersonateUserAction ?d sample_platform user_b))) = 1"
    using impersonated audit_is_best_effort [where w = ?d and pf = sample_platform and userId = user_b]
    by simp
  have throws: "audit_logs_insert ?t = Throws"
    by simp
  have c5: "length (filter is_error_log (snd (createAuditLog ?t ''site.created'' ?details))) = 1"
    using throws audit_is_best_effort [where w = ?t and action = "''site.created''" and details = ?details]
    by simp
  show ?thesis
    using run c2 c3 c4 c5 by (intro conjI)
qed

end
